theory Spec2Isabelle
  imports Main "HOL-Library.List_Lexorder" "HOL-Library.Char_ord" "HOL-Library.Product_Lexorder"
    "HOL-Library.Sublist"
begin

section \<open>Data model\<close>

text \<open>
  The backend keeps five tables. A table is the list of its rows: no schema file is part
  of the sources, so no key or uniqueness constraint is built into the types. Identifier
  columns hold strings (UUIDs drawn by \<open>uuidv4\<close>); every other text column may hold the
  SQL \<open>NULL\<close>, which is \<open>None\<close>. The password column, spelt with an
  n-tilde in the source, is written \<open>contrasena\<close>, and accented letters inside message
  literals are written without their accent.
\<close>

type_synonym uuid = string

record usuario =
  u_id :: uuid
  u_nombre :: "string option"
  u_email :: "string option"
  u_contrasena :: "string option"

record aplicativo_base =
  ab_id :: uuid
  ab_nombre :: "string option"
  ab_url :: "string option"
  ab_categoria :: "string option"

record aplicativo_rel =
  ar_id :: uuid
  ar_usuario_id :: uuid
  ar_aplicativo_base_id :: uuid
  ar_creado_en :: nat

record plantilla_base =
  pb_id :: uuid
  pb_novedad :: "string option"
  pb_nota_publica :: "string option"
  pb_nota_interna :: "string option"
  pb_nota_avances :: "string option"
  pb_plantilla :: "string option"

record nota_despacho_rel =
  ndr_id :: uuid
  ndr_usuario_id :: uuid
  ndr_plantilla_id :: uuid
  ndr_creado_en :: nat

record database =
  usuarios :: "usuario list"
  aplicativos_base :: "aplicativo_base list"
  aplicativos_rel :: "aplicativo_rel list"
  plantillas_base :: "plantilla_base list"
  notas_despacho_rel :: "nota_despacho_rel list"

section \<open>The connection pool\<close>

text \<open>
  \<open>pool.query(text, params)\<close> sends one statement. What was sent is recorded in
  \<open>issued\<close>, text and bound parameters apart. A statement may reject: \<open>faults w k\<close> is
  the error message with which the \<open>k\<close>-th statement of the run rejects, and a rejected
  statement leaves the tables as they were. \<open>uuids\<close> is the sequence of identifiers that
  \<open>uuidv4()\<close> returns and \<open>drawn\<close> counts the calls made so far; \<open>now\<close> is the value of
  \<open>NOW()\<close>. The schema is not among the sources either: a statement that a constraint
  of the schema refuses is a statement that rejects. Statement texts are recorded with
  their white space collapsed.
\<close>

record query =
  sql :: string
  bound :: "string option list"

record world =
  db :: database
  issued :: "query list"
  faults :: "nat \<Rightarrow> string option"
  uuids :: "nat \<Rightarrow> uuid"
  drawn :: nat
  now :: nat
  count_as_text :: bool

definition pool_query ::
  "string \<Rightarrow> string option list \<Rightarrow> (database \<Rightarrow> 'r \<times> database) \<Rightarrow> world \<Rightarrow> (string + 'r) \<times> world" where
  "pool_query text params sem w =
     (let w1 = w\<lparr>issued := issued w @ [\<lparr>sql = text, bound = params\<rparr>]\<rparr> in
      case faults w (length (issued w)) of
        Some msg \<Rightarrow> (Inl msg, w1)
      | None \<Rightarrow> (case sem (db w) of (r, d) \<Rightarrow> (Inr r, w1\<lparr>db := d\<rparr>)))"

definition uuidv4 :: "world \<Rightarrow> uuid \<times> world" where
  "uuidv4 w = (uuids w (drawn w), w\<lparr>drawn := Suc (drawn w)\<rparr>)"

text \<open>A \<open>SELECT\<close> reads and changes nothing.\<close>

definition select :: "(database \<Rightarrow> 'r) \<Rightarrow> database \<Rightarrow> 'r \<times> database" where
  "select f d = (f d, d)"

text \<open>SQL's \<open>column = $n\<close>: a \<open>NULL\<close> on either side matches no row.\<close>

definition sql_eq :: "'a option \<Rightarrow> 'a option \<Rightarrow> bool" where
  "sql_eq a b = (case a of None \<Rightarrow> False | Some x \<Rightarrow> (case b of None \<Rightarrow> False | Some y \<Rightarrow> x = y))"

section \<open>Responses\<close>

datatype json =
    JString string
  | JNumber int
  | JBoolean bool
  | JNull
  | JArray "json list"
  | JObject "(string \<times> json) list"

record response =
  status :: nat
  body :: json

text \<open>\<open>res.json(b)\<close> answers with status 200, \<open>res.status(s).json(b)\<close> with \<open>s\<close>.\<close>

definition res_json :: "json \<Rightarrow> response" where
  "res_json b = \<lparr>status = 200, body = b\<rparr>"

definition res_status_json :: "nat \<Rightarrow> json \<Rightarrow> response" where
  "res_status_json s b = \<lparr>status = s, body = b\<rparr>"

text \<open>A column value in a JSON body: \<open>NULL\<close> is \<open>null\<close>.\<close>

definition json_of_column :: "string option \<Rightarrow> json" where
  "json_of_column c = (case c of None \<Rightarrow> JNull | Some s \<Rightarrow> JString s)"

text \<open>A property whose value is \<open>undefined\<close> is left out of the serialised object.\<close>

definition json_property :: "string \<Rightarrow> string option \<Rightarrow> (string \<times> json) list" where
  "json_property k v = (case v of None \<Rightarrow> [] | Some s \<Rightarrow> [(k, JString s)])"

text \<open>JavaScript's \<open>!x\<close> on a body field: true when the field is absent or the empty string.\<close>

definition falsy :: "string option \<Rightarrow> bool" where
  "falsy v = (case v of None \<Rightarrow> True | Some s \<Rightarrow> s = [])"

section \<open>JSON Web Tokens\<close>

text \<open>
  The \<open>jsonwebtoken\<close> package is not part of the repository; it enters as a parameter.
  \<open>jwt_sign lib payload secret expiresIn\<close> is the token for the payload \<open>{id, email}\<close>,
  and \<open>jwt_verify lib token secret\<close> is what \<open>jwt.verify\<close> does: it returns the payload or
  throws an error with the given \<open>name\<close>. \<open>jwt.sign\<close> throws when the secret is missing.
\<close>

record payload =
  p_id :: string
  p_email :: "string option"

datatype verify_result =
    Decoded payload
  | Throws string

record jsonwebtoken =
  jwt_sign :: "payload \<Rightarrow> string \<Rightarrow> string \<Rightarrow> string"
  jwt_verify :: "string \<Rightarrow> string \<Rightarrow> verify_result"

definition sign_token :: "jsonwebtoken \<Rightarrow> string option \<Rightarrow> payload \<Rightarrow> string + string" where
  "sign_token lib JWT_SECRET p =
     (if falsy JWT_SECRET then Inl ''secretOrPrivateKey must have a value''
      else Inr (jwt_sign lib p (the JWT_SECRET) ''8h''))"

section \<open>The auth middleware\<close>

text \<open>\<open>s.split(" ")\<close>: the pieces between the separators, one more than there are separators.\<close>

fun split_on :: "char \<Rightarrow> string \<Rightarrow> string list" where
  "split_on c [] = [[]]"
| "split_on c (x # xs) =
     (if x = c then [] # split_on c xs
      else (case split_on c xs of [] \<Rightarrow> [[x]] | p # ps \<Rightarrow> (x # p) # ps))"

text \<open>\<open>toLowerCase\<close> and \<open>toUpperCase\<close> on the ASCII letters; other characters stay.\<close>

definition to_lower :: "char \<Rightarrow> char" where
  "to_lower c = (let n = (of_char c :: nat) in if 65 \<le> n \<and> n \<le> 90 then char_of (n + 32) else c)"

definition to_upper :: "char \<Rightarrow> char" where
  "to_upper c = (let n = (of_char c :: nat) in if 97 \<le> n \<and> n \<le> 122 then char_of (n - 32) else c)"

definition toLowerCase :: "string \<Rightarrow> string" where
  "toLowerCase s = map to_lower s"

definition toUpperCase :: "string \<Rightarrow> string" where
  "toUpperCase s = map to_upper s"

text \<open>
  The middleware either calls \<open>next()\<close>, after setting \<open>req.usuario\<close> to the decoded
  payload, or answers by itself.
\<close>

datatype middleware_result =
    Next payload
  | Respond response

definition verificarToken ::
  "jsonwebtoken \<Rightarrow> string option \<Rightarrow> string option \<Rightarrow> middleware_result" where
  "verificarToken lib JWT_SECRET authHeader =
     (if falsy authHeader
      then Respond (res_status_json 401 (JObject [(''mensaje'', JString ''Token no proporcionado'')]))
      else (let parts = split_on (CHR '' '') (the authHeader) in
        if length parts \<noteq> 2 \<or> toLowerCase (parts ! 0) \<noteq> ''bearer''
        then Respond (res_status_json 401 (JObject
               [(''mensaje'', JString ''Formato de token invalido (Esperado: Bearer <token>)'')]))
        else (let token = parts ! 1 in
          if falsy JWT_SECRET
          then Respond (res_status_json 500 (JObject
                 [(''mensaje'', JString ''Error de configuracion del servidor'')]))
          else (case jwt_verify lib token (the JWT_SECRET) of
                  Decoded decoded \<Rightarrow> Next decoded
                | Throws name \<Rightarrow>
                    (if name = ''TokenExpiredError''
                     then Respond (res_status_json 401 (JObject
                            [(''mensaje'', JString ''Token expirado'')]))
                     else if name = ''JsonWebTokenError''
                     then Respond (res_status_json 403 (JObject
                            [(''mensaje'', JString ''Token invalido (Firma o formato incorrecto)'')]))
                     else Respond (res_status_json 403 (JObject
                            [(''mensaje'', JString ''Token invalido'')])))))))"

text \<open>
  \<open>router.put(path, verificarToken, handler)\<close>: the handler runs only when the middleware
  calls \<open>next()\<close>, and it then finds the payload in \<open>req.usuario\<close>.
\<close>

definition protected_route ::
  "jsonwebtoken \<Rightarrow> string option \<Rightarrow> (payload \<Rightarrow> world \<Rightarrow> response \<times> world) \<Rightarrow>
   string option \<Rightarrow> world \<Rightarrow> response \<times> world" where
  "protected_route lib JWT_SECRET handler authHeader w =
     (case verificarToken lib JWT_SECRET authHeader of
        Next usuario \<Rightarrow> handler usuario w
      | Respond r \<Rightarrow> (r, w))"

text \<open>
  A \<open>COUNT\<close> is a \<open>bigint\<close>. How the driver hands it to JavaScript is decided in the
  module \<open>../db\<close>, which is not among the sources: as a number, or (the default of the
  PostgreSQL driver) as the decimal text of the number. \<open>count_as_text\<close> of the world
  says which. Comparing with \<open>>\<close> or \<open><=\<close> converts a text to its number first;
  \<open>===\<close> does not convert, so a text is never strictly equal to a number.
\<close>

datatype js_count = CountNumber nat | CountText nat

definition pg_count :: "bool \<Rightarrow> nat \<Rightarrow> js_count" where
  "pg_count as_text n = (if as_text then CountText n else CountNumber n)"

definition js_gt :: "js_count \<Rightarrow> nat \<Rightarrow> bool" where
  "js_gt c k = (case c of CountNumber n \<Rightarrow> n > k | CountText n \<Rightarrow> n > k)"

definition js_le :: "js_count \<Rightarrow> nat \<Rightarrow> bool" where
  "js_le c k = (case c of CountNumber n \<Rightarrow> n \<le> k | CountText n \<Rightarrow> n \<le> k)"

definition js_strict_eq :: "js_count \<Rightarrow> nat \<Rightarrow> bool" where
  "js_strict_eq c k = (case c of CountNumber n \<Rightarrow> n = k | CountText n \<Rightarrow> False)"

text \<open>
  \<open>ORDER BY c ASC\<close> on a nullable text column: byte order, \<open>NULL\<close> last. The sort is
  stable; SQL leaves the order of ties open.
\<close>

definition nulls_last :: "string option \<Rightarrow> nat \<times> string" where
  "nulls_last c = (case c of None \<Rightarrow> (1, []) | Some s \<Rightarrow> (0, s))"

section \<open>authController\<close>

subsection \<open>Default content\<close>

definition aplicativosDefecto :: "(string \<times> string \<times> string) list" where
  "aplicativosDefecto =
     [(''Gmail'', ''https://mail.google.com'', ''Correo''),
      (''Google Drive'', ''https://drive.google.com'', ''Almacenamiento''),
      (''Google Calendar'', ''https://calendar.google.com'', ''Calendario''),
      (''Microsoft Office'', ''https://office.com'', ''Productividad''),
      (''WhatsApp Web'', ''https://web.whatsapp.com'', ''Comunicacion'')]"

fun crearAplicativosBasePorDefecto_loop ::
  "(string \<times> string \<times> string) list \<Rightarrow> world \<Rightarrow> (string + unit) \<times> world" where
  "crearAplicativosBasePorDefecto_loop [] w = (Inr (), w)"
| "crearAplicativosBasePorDefecto_loop ((nombre, url, categoria) # rest) w =
     (case uuidv4 w of (ident, w1) \<Rightarrow>
      (case pool_query
              ''INSERT INTO aplicativos_base (id, nombre, url, categoria) VALUES ($1, $2, $3, $4)''
              [Some ident, Some nombre, Some url, Some categoria]
              (\<lambda>d. ((), d\<lparr>aplicativos_base := aplicativos_base d @
                     [\<lparr>ab_id = ident, ab_nombre = Some nombre, ab_url = Some url,
                       ab_categoria = Some categoria\<rparr>]\<rparr>)) w1 of
         (Inl error, w2) \<Rightarrow> (Inl error, w2)
       | (Inr u, w2) \<Rightarrow> crearAplicativosBasePorDefecto_loop rest w2))"

definition crearAplicativosBasePorDefecto :: "world \<Rightarrow> (string + unit) \<times> world" where
  "crearAplicativosBasePorDefecto w =
     (case pool_query ''SELECT COUNT(*) FROM aplicativos_base'' []
             (select (\<lambda>d. pg_count (count_as_text w) (length (aplicativos_base d)))) w of
        (Inl error, w1) \<Rightarrow> (Inl error, w1)
      | (Inr count, w1) \<Rightarrow>
          (if js_gt count 0 then (Inr (), w1)
           else crearAplicativosBasePorDefecto_loop aplicativosDefecto w1))"

definition plantillasDefecto :: "(string \<times> string \<times> string \<times> string \<times> string) list" where
  "plantillasDefecto =
     [(''Bienvenida'', ''...'', ''...'', ''...'', ''Plantilla de bienvenida para nuevos usuarios''),
      (''Nota General'', ''...'', ''...'', ''...'', ''Plantilla general para uso diario''),
      (''Recordatorio'', ''...'', ''...'', ''...'', ''Plantilla para recordatorios importantes'')]"

fun crearPlantillasBasePorDefecto_loop ::
  "(string \<times> string \<times> string \<times> string \<times> string) list \<Rightarrow> world \<Rightarrow> (string + unit) \<times> world" where
  "crearPlantillasBasePorDefecto_loop [] w = (Inr (), w)"
| "crearPlantillasBasePorDefecto_loop
     ((novedad, nota_publica, nota_interna, nota_avances, plantilla) # rest) w =
     (case uuidv4 w of (ident, w1) \<Rightarrow>
      (case pool_query
              ''INSERT INTO plantillas_base (id, novedad, nota_publica, nota_interna, nota_avances, plantilla) VALUES ($1, $2, $3, $4, $5, $6)''
              [Some ident, Some novedad, Some nota_publica, Some nota_interna,
               Some nota_avances, Some plantilla]
              (\<lambda>d. ((), d\<lparr>plantillas_base := plantillas_base d @
                     [\<lparr>pb_id = ident, pb_novedad = Some novedad,
                       pb_nota_publica = Some nota_publica, pb_nota_interna = Some nota_interna,
                       pb_nota_avances = Some nota_avances, pb_plantilla = Some plantilla\<rparr>]\<rparr>)) w1 of
         (Inl error, w2) \<Rightarrow> (Inl error, w2)
       | (Inr u, w2) \<Rightarrow> crearPlantillasBasePorDefecto_loop rest w2))"

definition crearPlantillasBasePorDefecto :: "world \<Rightarrow> (string + unit) \<times> world" where
  "crearPlantillasBasePorDefecto w =
     (case pool_query ''SELECT COUNT(*) FROM plantillas_base'' []
             (select (\<lambda>d. pg_count (count_as_text w) (length (plantillas_base d)))) w of
        (Inl error, w1) \<Rightarrow> (Inl error, w1)
      | (Inr count, w1) \<Rightarrow>
          (if js_gt count 0 then (Inr (), w1)
           else crearPlantillasBasePorDefecto_loop plantillasDefecto w1))"

fun asignarAplicativosPorDefecto_loop :: "uuid \<Rightarrow> uuid list \<Rightarrow> world \<Rightarrow> (string + unit) \<times> world" where
  "asignarAplicativosPorDefecto_loop usuario_id [] w = (Inr (), w)"
| "asignarAplicativosPorDefecto_loop usuario_id (aplicativo_id # rest) w =
     (case uuidv4 w of (relacionId, w1) \<Rightarrow>
      (case pool_query
              ''INSERT INTO aplicativos_rel (id, usuario_id, aplicativo_base_id, creado_en) VALUES ($1, $2, $3, NOW())''
              [Some relacionId, Some usuario_id, Some aplicativo_id]
              (\<lambda>d. ((), d\<lparr>aplicativos_rel := aplicativos_rel d @
                     [\<lparr>ar_id = relacionId, ar_usuario_id = usuario_id,
                       ar_aplicativo_base_id = aplicativo_id, ar_creado_en = now w\<rparr>]\<rparr>)) w1 of
         (Inl error, w2) \<Rightarrow> (Inl error, w2)
       | (Inr u, w2) \<Rightarrow> asignarAplicativosPorDefecto_loop usuario_id rest w2))"

definition asignarAplicativosPorDefecto :: "uuid \<Rightarrow> world \<Rightarrow> (string + unit) \<times> world" where
  "asignarAplicativosPorDefecto usuario_id w =
     (case crearAplicativosBasePorDefecto w of
        (Inl error, w1) \<Rightarrow> (Inl error, w1)
      | (Inr u, w1) \<Rightarrow>
          (case pool_query ''SELECT id FROM aplicativos_base ORDER BY categoria ASC, nombre ASC'' []
                  (select (\<lambda>d. map ab_id
                     (sort_key (\<lambda>a. (nulls_last (ab_categoria a), nulls_last (ab_nombre a)))
                        (aplicativos_base d)))) w1 of
             (Inl error, w2) \<Rightarrow> (Inl error, w2)
           | (Inr rows, w2) \<Rightarrow>
               (if length rows = 0 then (Inr (), w2)
                else asignarAplicativosPorDefecto_loop usuario_id rows w2)))"

fun asignarPlantillasPorDefecto_loop :: "uuid \<Rightarrow> uuid list \<Rightarrow> world \<Rightarrow> (string + unit) \<times> world" where
  "asignarPlantillasPorDefecto_loop usuario_id [] w = (Inr (), w)"
| "asignarPlantillasPorDefecto_loop usuario_id (plantilla_id # rest) w =
     (case uuidv4 w of (relacionId, w1) \<Rightarrow>
      (case pool_query
              ''INSERT INTO notas_despacho_rel (id, usuario_id, plantilla_id, creado_en) VALUES ($1, $2, $3, NOW())''
              [Some relacionId, Some usuario_id, Some plantilla_id]
              (\<lambda>d. ((), d\<lparr>notas_despacho_rel := notas_despacho_rel d @
                     [\<lparr>ndr_id = relacionId, ndr_usuario_id = usuario_id,
                       ndr_plantilla_id = plantilla_id, ndr_creado_en = now w\<rparr>]\<rparr>)) w1 of
         (Inl error, w2) \<Rightarrow> (Inl error, w2)
       | (Inr u, w2) \<Rightarrow> asignarPlantillasPorDefecto_loop usuario_id rest w2))"

definition asignarPlantillasPorDefecto :: "uuid \<Rightarrow> world \<Rightarrow> (string + unit) \<times> world" where
  "asignarPlantillasPorDefecto usuario_id w =
     (case crearPlantillasBasePorDefecto w of
        (Inl error, w1) \<Rightarrow> (Inl error, w1)
      | (Inr u, w1) \<Rightarrow>
          (case pool_query ''SELECT id FROM plantillas_base ORDER BY id ASC'' []
                  (select (\<lambda>d. map pb_id (sort_key pb_id (plantillas_base d)))) w1 of
             (Inl error, w2) \<Rightarrow> (Inl error, w2)
           | (Inr rows, w2) \<Rightarrow>
               (if length rows = 0 then (Inr (), w2)
                else asignarPlantillasPorDefecto_loop usuario_id rows w2)))"

subsection \<open>Handlers\<close>

record registro_body =
  rb_nombre :: "string option"
  rb_email :: "string option"
  rb_contrasena :: "string option"

definition registrarUsuario ::
  "jsonwebtoken \<Rightarrow> string option \<Rightarrow> registro_body \<Rightarrow> world \<Rightarrow> response \<times> world" where
  "registrarUsuario lib JWT_SECRET b w =
     (case pool_query ''SELECT id FROM usuarios WHERE email = $1'' [rb_email b]
             (select (\<lambda>d. map u_id (filter (\<lambda>u. sql_eq (u_email u) (rb_email b)) (usuarios d)))) w of
        (Inl error, w1) \<Rightarrow>
          (res_status_json 500 (JObject [(''mensaje'', JString ''Error en el servidor'')]), w1)
      | (Inr existe, w1) \<Rightarrow>
          (if length existe > 0
           then (res_status_json 400
                   (JObject [(''mensaje'', JString ''El correo ya esta registrado'')]), w1)
           else (case uuidv4 w1 of (ident, w2) \<Rightarrow>
             (case pool_query
                     ''INSERT INTO usuarios (id, nombre, email, contrasena) VALUES ($1, $2, $3, $4)''
                     [Some ident, rb_nombre b, rb_email b, rb_contrasena b]
                     (\<lambda>d. ((), d\<lparr>usuarios := usuarios d @
                            [\<lparr>u_id = ident, u_nombre = rb_nombre b, u_email = rb_email b,
                              u_contrasena = rb_contrasena b\<rparr>]\<rparr>)) w2 of
                (Inl error, w3) \<Rightarrow>
                  (res_status_json 500
                     (JObject [(''mensaje'', JString ''Error en el servidor'')]), w3)
              | (Inr u, w3) \<Rightarrow>
                  (let w4 = (case asignarPlantillasPorDefecto ident w3 of
                               (Inl asignacionError, w') \<Rightarrow> w'
                             | (Inr u', w') \<Rightarrow> snd (asignarAplicativosPorDefecto ident w'))
                   in case sign_token lib JWT_SECRET \<lparr>p_id = ident, p_email = rb_email b\<rparr> of
                        Inl error \<Rightarrow>
                          (res_status_json 500
                             (JObject [(''mensaje'', JString ''Error en el servidor'')]), w4)
                      | Inr token \<Rightarrow>
                          (res_status_json 201 (JObject
                             [(''mensaje'', JString ''Registro exitoso''),
                              (''usuario'', JObject
                                 ([(''id'', JString ident)] @ json_property ''nombre'' (rb_nombre b)
                                  @ json_property ''email'' (rb_email b))),
                              (''token'', JString token)]), w4))))))"

record login_body =
  lb_email :: "string option"
  lb_contrasena :: "string option"

text \<open>
  \<open>resultado.rows[0].contrasena !== contrasena\<close>: the stored value is a string or
  \<open>null\<close>, the submitted one a string or \<open>undefined\<close>; they are strictly equal only when
  both are the same string.
\<close>

definition strict_ne :: "string option \<Rightarrow> string option \<Rightarrow> bool" where
  "strict_ne stored submitted = (\<not> sql_eq stored submitted)"

definition loginUsuario ::
  "jsonwebtoken \<Rightarrow> string option \<Rightarrow> login_body \<Rightarrow> world \<Rightarrow> response \<times> world" where
  "loginUsuario lib JWT_SECRET b w =
     (case pool_query ''SELECT id, nombre, email, contrasena FROM usuarios WHERE email = $1''
             [lb_email b]
             (select (\<lambda>d. filter (\<lambda>u. sql_eq (u_email u) (lb_email b)) (usuarios d))) w of
        (Inl err, w1) \<Rightarrow>
          (res_status_json 500 (JObject [(''mensaje'', JString ''Error en el servidor'')]), w1)
      | (Inr [], w1) \<Rightarrow>
          (res_status_json 401 (JObject [(''mensaje'', JString ''Credenciales incorrectas'')]), w1)
      | (Inr (usuario # _), w1) \<Rightarrow>
          (if strict_ne (u_contrasena usuario) (lb_contrasena b)
           then (res_status_json 401
                   (JObject [(''mensaje'', JString ''Credenciales incorrectas'')]), w1)
           else (case sign_token lib JWT_SECRET \<lparr>p_id = u_id usuario, p_email = u_email usuario\<rparr> of
                   Inl err \<Rightarrow>
                     (res_status_json 500
                        (JObject [(''mensaje'', JString ''Error en el servidor'')]), w1)
                 | Inr token \<Rightarrow>
                     (res_json (JObject
                        [(''mensaje'', JString ''Inicio de sesion exitoso''),
                         (''usuario'', JObject
                            [(''id'', JString (u_id usuario)),
                             (''nombre'', json_of_column (u_nombre usuario)),
                             (''email'', json_of_column (u_email usuario))]),
                         (''token'', JString token)]), w1))))"

section \<open>Strings\<close>

text \<open>
  Characters stand for code units below 256. \<open>trim\<close> removes the white space of that
  range from both ends.
\<close>

definition is_space :: "char \<Rightarrow> bool" where
  "is_space c = ((of_char c :: nat) \<in> {9, 10, 11, 12, 13, 32, 160})"

definition trim :: "string \<Rightarrow> string" where
  "trim s = rev (dropWhile is_space (rev (dropWhile is_space s)))"

text \<open>\<open>x?.trim()\<close> used as a condition: false for \<open>null\<close> and for a blank string.\<close>

definition trim_truthy :: "string option \<Rightarrow> bool" where
  "trim_truthy v = (case v of None \<Rightarrow> False | Some s \<Rightarrow> trim s \<noteq> [])"

definition str_includes :: "string \<Rightarrow> char \<Rightarrow> bool" where
  "str_includes s c = (c \<in> set s)"

text \<open>
  \<open>s.replace(/<[^>]*>/g, '')\<close>: scanning from the left, a \<open><\<close> that is followed
  somewhere by a \<open>>\<close> is removed together with everything up to the first such \<open>>\<close>.
\<close>

function strip_tags :: "string \<Rightarrow> string" where
  "strip_tags [] = []"
| "strip_tags (c # cs) =
     (if c = CHR ''<'' \<and> CHR ''>'' \<in> set cs
      then strip_tags (tl (dropWhile (\<lambda>x. x \<noteq> CHR ''>'') cs))
      else c # strip_tags cs)"
  by pat_completeness auto
termination
proof (relation "measure length")
  show "wf (measure (length :: string \<Rightarrow> nat))" by simp
next
  fix c :: char and cs :: string
  have "length (tl (dropWhile (\<lambda>x. x \<noteq> CHR ''>'') cs)) \<le> length cs"
    using length_dropWhile_le[of "\<lambda>x. x \<noteq> CHR ''>''" cs] by simp
  then show "(tl (dropWhile (\<lambda>x. x \<noteq> CHR ''>'') cs), c # cs) \<in> measure length" by simp
next
  fix c :: char and cs :: string
  show "(cs, c # cs) \<in> measure length" by simp
qed

text \<open>\<open>s.replace(/\n/g, '<br>')\<close>.\<close>

definition nl2br :: "string \<Rightarrow> string" where
  "nl2br s = concat (map (\<lambda>c. if c = CHR 0x0A then ''<br>'' else [c]) s)"

text \<open>A complete tag is left in a text: some \<open><\<close> with a \<open>>\<close> after it.\<close>

fun has_tag :: "string \<Rightarrow> bool" where
  "has_tag [] = False"
| "has_tag (c # cs) = ((c = CHR ''<'' \<and> CHR ''>'' \<in> set cs) \<or> has_tag cs)"

section \<open>SQL helpers\<close>

text \<open>
  \<open>LEFT JOIN\<close>: a row without a partner is kept once, with \<open>NULL\<close> for the partner's
  columns.
\<close>

definition left_join :: "'a list \<Rightarrow> 'a option list" where
  "left_join xs = (if xs = [] then [None] else map Some xs)"

text \<open>
  \<open>GROUP BY\<close> with \<open>COUNT(c)\<close>: one row per key, in the order in which the keys first
  appear, counting the rows of the group in which \<open>c\<close> is not \<open>NULL\<close>.
\<close>

fun group_count :: "('k \<times> 'a option) list \<Rightarrow> ('k \<times> nat) list" where
  "group_count [] = []"
| "group_count ((k, v) # rows) =
     (k, length (filter (\<lambda>(k', v'). k' = k \<and> v' \<noteq> None) ((k, v) # rows)))
       # group_count (filter (\<lambda>(k', v'). k' \<noteq> k) rows)"

text \<open>SQL's \<open>TRIM\<close> removes the blanks at both ends.\<close>

definition sql_trim :: "string \<Rightarrow> string" where
  "sql_trim s = rev (dropWhile (\<lambda>c. c = CHR '' '') (rev (dropWhile (\<lambda>c. c = CHR '' '') s)))"

text \<open>\<open>x || ''\<close> on a body field.\<close>

definition or_else :: "string option \<Rightarrow> string \<Rightarrow> string" where
  "or_else v dflt = (if falsy v then dflt else the v)"

text \<open>The decimal text of a number, as a template literal prints it.\<close>

function decimal :: "nat \<Rightarrow> string" where
  "decimal n = (if n < 10 then [char_of (48 + n)] else decimal (n div 10) @ [char_of (48 + n mod 10)])"
  by pat_completeness auto
termination
  by (relation "measure id") auto

definition json_of_count :: "js_count \<Rightarrow> json" where
  "json_of_count c = (case c of CountNumber n \<Rightarrow> JNumber (int n) | CountText n \<Rightarrow> JString (decimal n))"

section \<open>notasController\<close>

definition obtenerNotas :: "string \<Rightarrow> world \<Rightarrow> response \<times> world" where
  "obtenerNotas usuario_id w =
     (case pool_query
             ''SELECT ndr.id, ndr.plantilla_id, pb.novedad, pb.nota_publica, pb.nota_interna, pb.nota_avances, pb.plantilla, ndr.creado_en FROM notas_despacho_rel ndr INNER JOIN plantillas_base pb ON ndr.plantilla_id = pb.id WHERE ndr.usuario_id = $1 ORDER BY ndr.creado_en DESC''
             [Some usuario_id]
             (select (\<lambda>d. rev (sort_key (\<lambda>(ndr, pb). ndr_creado_en ndr)
                (concat (map (\<lambda>ndr. map (\<lambda>pb. (ndr, pb))
                     (filter (\<lambda>pb. ndr_plantilla_id ndr = pb_id pb) (plantillas_base d)))
                   (filter (\<lambda>ndr. ndr_usuario_id ndr = usuario_id) (notas_despacho_rel d))))))) w of
        (Inl error, w1) \<Rightarrow>
          (res_status_json 500 (JObject
             [(''mensaje'', JString ''Error al obtener las notas''), (''error'', JString error)]), w1)
      | (Inr rows, w1) \<Rightarrow>
          (res_json (JArray (map (\<lambda>(ndr, pb). JObject
             [(''id'', JString (ndr_id ndr)),
              (''plantilla_id'', JString (ndr_plantilla_id ndr)),
              (''novedad'', json_of_column (pb_novedad pb)),
              (''nota_publica'', json_of_column (pb_nota_publica pb)),
              (''nota_interna'', json_of_column (pb_nota_interna pb)),
              (''nota_avances'', json_of_column (pb_nota_avances pb)),
              (''plantilla'', json_of_column (pb_plantilla pb)),
              (''creado_en'', JNumber (int (ndr_creado_en ndr)))]) rows)), w1))"

definition obtenerNotasAvances :: "string \<Rightarrow> world \<Rightarrow> response \<times> world" where
  "obtenerNotasAvances usuario_id w =
     (case pool_query
             (''SELECT ndr.id, ndr.plantilla_id, pb.novedad, pb.nota_avances, ndr.creado_en FROM notas_despacho_rel ndr INNER JOIN plantillas_base pb ON ndr.plantilla_id = pb.id WHERE ndr.usuario_id = $1 AND pb.nota_avances IS NOT NULL AND TRIM(pb.nota_avances) != ''
                @ [CHR 0x27, CHR 0x27] @ '' ORDER BY ndr.creado_en DESC'')
             [Some usuario_id]
             (select (\<lambda>d. rev (sort_key (\<lambda>(ndr, pb). ndr_creado_en ndr)
                (concat (map (\<lambda>ndr. map (\<lambda>pb. (ndr, pb))
                     (filter (\<lambda>pb. ndr_plantilla_id ndr = pb_id pb \<and>
                                (case pb_nota_avances pb of None \<Rightarrow> False
                                 | Some a \<Rightarrow> sql_trim a \<noteq> []))
                        (plantillas_base d)))
                   (filter (\<lambda>ndr. ndr_usuario_id ndr = usuario_id) (notas_despacho_rel d))))))) w of
        (Inl error, w1) \<Rightarrow>
          (res_status_json 500 (JObject
             [(''mensaje'', JString ''Error al obtener notas de avances''),
              (''error'', JString error)]), w1)
      | (Inr rows, w1) \<Rightarrow>
          (res_json (JArray (map (\<lambda>(ndr, pb). JObject
             [(''id'', JString (ndr_id ndr)),
              (''plantilla_id'', JString (ndr_plantilla_id ndr)),
              (''novedad'', json_of_column (pb_novedad pb)),
              (''nota_avances'', json_of_column (pb_nota_avances pb)),
              (''creado_en'', JNumber (int (ndr_creado_en ndr)))]) rows)), w1))"

record nota_body =
  nb_usuario_id :: "string option"
  nb_novedad :: "string option"
  nb_nota_publica :: "string option"
  nb_nota_interna :: "string option"
  nb_nota_avances :: "string option"
  nb_plantilla :: "string option"

definition nombresIncorrectos :: "string list" where
  "nombresIncorrectos = [''AVANCE'', ''avance'', ''Avance'']"

definition agregarNota :: "nota_body \<Rightarrow> world \<Rightarrow> response \<times> world" where
  "agregarNota b w =
     (if falsy (nb_usuario_id b) \<or> falsy (nb_novedad b)
      then (res_status_json 400 (JObject
              [(''mensaje'', JString ''Se requieren usuario_id y novedad como minimo'')]), w)
      else if the (nb_novedad b) \<in> set nombresIncorrectos
      then (res_status_json 400 (JObject
              [(''mensaje'', JString ''El nombre 'AVANCE' no es valido para una plantilla base. Use un nombre descriptivo.''),
               (''sugerencias'', JArray [JString ''Reporte de Avances'',
                  JString ''Seguimiento de Proyecto'', JString ''Actualizacion de Estado''])]), w)
      else (let usuario_id = the (nb_usuario_id b); novedad = the (nb_novedad b) in
        case pool_query ''SELECT id FROM usuarios WHERE id = $1'' [Some usuario_id]
               (select (\<lambda>d. map u_id (filter (\<lambda>u. u_id u = usuario_id) (usuarios d)))) w of
          (Inl error, w1) \<Rightarrow>
            (res_status_json 500 (JObject
               [(''mensaje'', JString ''Error al agregar nota personalizada''),
                (''error'', JString error)]), w1)
        | (Inr usuarioExiste, w1) \<Rightarrow>
            (if length usuarioExiste = 0
             then (res_status_json 404 (JObject [(''mensaje'', JString ''Usuario no encontrado'')]), w1)
             else (case uuidv4 w1 of (plantillaId, w2) \<Rightarrow>
               (case pool_query
                       ''INSERT INTO plantillas_base (id, novedad, nota_publica, nota_interna, nota_avances, plantilla) VALUES ($1, $2, $3, $4, $5, $6)''
                       [Some plantillaId, Some novedad, Some (or_else (nb_nota_publica b) []),
                        Some (or_else (nb_nota_interna b) []), Some (or_else (nb_nota_avances b) []),
                        Some (or_else (nb_plantilla b) [])]
                       (\<lambda>d. ((), d\<lparr>plantillas_base := plantillas_base d @
                              [\<lparr>pb_id = plantillaId, pb_novedad = Some novedad,
                                pb_nota_publica = Some (or_else (nb_nota_publica b) []),
                                pb_nota_interna = Some (or_else (nb_nota_interna b) []),
                                pb_nota_avances = Some (or_else (nb_nota_avances b) []),
                                pb_plantilla = Some (or_else (nb_plantilla b) [])\<rparr>]\<rparr>)) w2 of
                  (Inl error, w3) \<Rightarrow>
                    (res_status_json 500 (JObject
                       [(''mensaje'', JString ''Error al agregar nota personalizada''),
                        (''error'', JString error)]), w3)
                | (Inr u, w3) \<Rightarrow>
                    (case uuidv4 w3 of (relacionId, w4) \<Rightarrow>
                      (case pool_query
                              ''INSERT INTO notas_despacho_rel (id, usuario_id, plantilla_id, creado_en) VALUES ($1, $2, $3, NOW())''
                              [Some relacionId, Some usuario_id, Some plantillaId]
                              (\<lambda>d. ((), d\<lparr>notas_despacho_rel := notas_despacho_rel d @
                                     [\<lparr>ndr_id = relacionId, ndr_usuario_id = usuario_id,
                                       ndr_plantilla_id = plantillaId, ndr_creado_en = now w\<rparr>]\<rparr>)) w4 of
                         (Inl error, w5) \<Rightarrow>
                           (res_status_json 500 (JObject
                              [(''mensaje'', JString ''Error al agregar nota personalizada''),
                               (''error'', JString error)]), w5)
                       | (Inr u', w5) \<Rightarrow>
                           (res_status_json 201 (JObject
                              [(''mensaje'', JString ''Nota personalizada creada exitosamente''),
                               (''id'', JString relacionId),
                               (''plantilla_id'', JString plantillaId)]), w5))))))))"

record asignar_nota_body =
  an_usuario_id :: "string option"
  an_plantilla_id :: "string option"

text \<open>
  The three checks of \<open>asignarNota\<close> are sent together (\<open>Promise.all\<close>): all three are
  issued, and a rejection of any of them rejects the whole.
\<close>

definition asignarNota :: "asignar_nota_body \<Rightarrow> world \<Rightarrow> response \<times> world" where
  "asignarNota b w =
     (if falsy (an_usuario_id b) \<or> falsy (an_plantilla_id b)
      then (res_status_json 400 (JObject
              [(''mensaje'', JString ''Se requieren usuario_id y plantilla_id'')]), w)
      else (let usuario_id = the (an_usuario_id b); plantilla_id = the (an_plantilla_id b) in
        case pool_query ''SELECT id FROM usuarios WHERE id = $1'' [Some usuario_id]
               (select (\<lambda>d. map u_id (filter (\<lambda>u. u_id u = usuario_id) (usuarios d)))) w of
          (usuarioExiste, w1) \<Rightarrow>
        (case pool_query ''SELECT id FROM plantillas_base WHERE id = $1'' [Some plantilla_id]
               (select (\<lambda>d. map pb_id (filter (\<lambda>p. pb_id p = plantilla_id) (plantillas_base d)))) w1 of
          (plantillaExiste, w2) \<Rightarrow>
        (case pool_query
               ''SELECT id FROM notas_despacho_rel WHERE usuario_id = $1 AND plantilla_id = $2''
               [Some usuario_id, Some plantilla_id]
               (select (\<lambda>d. map ndr_id (filter (\<lambda>r. ndr_usuario_id r = usuario_id \<and>
                  ndr_plantilla_id r = plantilla_id) (notas_despacho_rel d)))) w2 of
          (relacionExiste, w3) \<Rightarrow>
        (case (usuarioExiste, plantillaExiste, relacionExiste) of
           (Inr usuarioRows, Inr plantillaRows, Inr relacionRows) \<Rightarrow>
             (if length usuarioRows = 0
              then (res_status_json 404 (JObject [(''mensaje'', JString ''Usuario no encontrado'')]), w3)
              else if length plantillaRows = 0
              then (res_status_json 404
                      (JObject [(''mensaje'', JString ''Plantilla base no encontrada'')]), w3)
              else if length relacionRows > 0
              then (res_status_json 409
                      (JObject [(''mensaje'', JString ''La nota ya esta agregada para este usuario'')]), w3)
              else (case uuidv4 w3 of (ident, w4) \<Rightarrow>
                (case pool_query
                        ''INSERT INTO notas_despacho_rel (id, usuario_id, plantilla_id, creado_en) VALUES ($1, $2, $3, NOW())''
                        [Some ident, Some usuario_id, Some plantilla_id]
                        (\<lambda>d. ((), d\<lparr>notas_despacho_rel := notas_despacho_rel d @
                               [\<lparr>ndr_id = ident, ndr_usuario_id = usuario_id,
                                 ndr_plantilla_id = plantilla_id, ndr_creado_en = now w\<rparr>]\<rparr>)) w4 of
                   (Inl error, w5) \<Rightarrow>
                     (res_status_json 500 (JObject
                        [(''mensaje'', JString ''Error al asignar nota''),
                         (''error'', JString error)]), w5)
                 | (Inr u, w5) \<Rightarrow>
                     (res_status_json 201 (JObject
                        [(''mensaje'', JString ''Nota asignada exitosamente''),
                         (''id'', JString ident)]), w5))))
         | (Inl error, r2, r3) \<Rightarrow>
             (res_status_json 500 (JObject
                [(''mensaje'', JString ''Error al asignar nota''), (''error'', JString error)]), w3)
         | (Inr r1, Inl error, r3) \<Rightarrow>
             (res_status_json 500 (JObject
                [(''mensaje'', JString ''Error al asignar nota''), (''error'', JString error)]), w3)
         | (Inr r1, Inr r2, Inl error) \<Rightarrow>
             (res_status_json 500 (JObject
                [(''mensaje'', JString ''Error al asignar nota''), (''error'', JString error)]), w3))))))"

record plantilla_body =
  pl_novedad :: "string option"
  pl_nota_publica :: "string option"
  pl_nota_interna :: "string option"
  pl_nota_avances :: "string option"
  pl_plantilla :: "string option"

definition modificarPlantilla :: "string \<Rightarrow> plantilla_body \<Rightarrow> world \<Rightarrow> response \<times> world" where
  "modificarPlantilla ident b w =
     (case pool_query
             ''UPDATE plantillas_base SET novedad = $1, nota_publica = $2, nota_interna = $3, nota_avances = $4, plantilla = $5 WHERE id = $6''
             [pl_novedad b, pl_nota_publica b, pl_nota_interna b, pl_nota_avances b,
              pl_plantilla b, Some ident]
             (\<lambda>d. (length (filter (\<lambda>p. pb_id p = ident) (plantillas_base d)),
                    d\<lparr>plantillas_base := map (\<lambda>p. if pb_id p = ident
                         then p\<lparr>pb_novedad := pl_novedad b, pb_nota_publica := pl_nota_publica b,
                                pb_nota_interna := pl_nota_interna b,
                                pb_nota_avances := pl_nota_avances b,
                                pb_plantilla := pl_plantilla b\<rparr>
                         else p) (plantillas_base d)\<rparr>)) w of
        (Inl error, w1) \<Rightarrow>
          (res_status_json 500 (JObject
             [(''mensaje'', JString ''Error al modificar plantilla''), (''error'', JString error)]), w1)
      | (Inr rowCount, w1) \<Rightarrow>
          (if rowCount = 0
           then (res_status_json 404 (JObject
                   [(''mensaje'', JString ''Plantilla no encontrada o no se modifico nada'')]), w1)
           else (res_json (JObject
                   [(''mensaje'', JString ''Plantilla actualizada correctamente''),
                    (''filas_afectadas'', JNumber (int rowCount)),
                    (''plantilla_id'', JString ident)]), w1)))"

text \<open>
  The row that \<open>eliminarNota\<close> reads: the relation, the columns of its template, and the
  number of relation rows that point to the template.
\<close>

type_synonym nota_info =
  "(uuid \<times> uuid \<times> string option \<times> string option \<times> string option \<times> string option \<times> string option)
   \<times> js_count"

definition relacionInfo_nota :: "bool \<Rightarrow> string \<Rightarrow> database \<Rightarrow> nota_info list" where
  "relacionInfo_nota as_text ident d =
     map (\<lambda>(k, n). (k, pg_count as_text n))
       (group_count
          (concat (map (\<lambda>ndr.
             concat (map (\<lambda>pb.
               map (\<lambda>ndr2_id.
                     ((ndr_id ndr, ndr_plantilla_id ndr, pb_novedad pb, pb_nota_publica pb,
                       pb_nota_interna pb, pb_nota_avances pb, pb_plantilla pb), ndr2_id))
                 (left_join (map ndr_id
                    (filter (\<lambda>ndr2. pb_id pb = ndr_plantilla_id ndr2) (notas_despacho_rel d)))))
               (filter (\<lambda>pb. ndr_plantilla_id ndr = pb_id pb) (plantillas_base d))))
             (filter (\<lambda>ndr. ndr_id ndr = ident) (notas_despacho_rel d)))))"

text \<open>
  In the body of the answer \<open>plantilla_eliminada\<close> is given by its truth value.
\<close>

definition eliminarNota :: "string \<Rightarrow> world \<Rightarrow> response \<times> world" where
  "eliminarNota ident w =
     (if ident = []
      then (res_status_json 400 (JObject [(''mensaje'', JString ''Se requiere el ID de la nota'')]), w)
      else
        case pool_query
               ''SELECT ndr.id as relacion_id, ndr.plantilla_id, pb.novedad, pb.nota_publica, pb.nota_interna, pb.nota_avances, pb.plantilla, COUNT(ndr2.id) as total_usuarios_con_esta_plantilla FROM notas_despacho_rel ndr INNER JOIN plantillas_base pb ON ndr.plantilla_id = pb.id LEFT JOIN notas_despacho_rel ndr2 ON pb.id = ndr2.plantilla_id WHERE ndr.id = $1 GROUP BY ndr.id, ndr.plantilla_id, pb.novedad, pb.nota_publica, pb.nota_interna, pb.nota_avances, pb.plantilla''
               [Some ident]
               (select (relacionInfo_nota (count_as_text w) ident)) w of
          (Inl error, w1) \<Rightarrow>
            (res_status_json 500 (JObject
               [(''mensaje'', JString ''Error al eliminar nota''), (''error'', JString error)]), w1)
        | (Inr [], w1) \<Rightarrow>
            (res_status_json 404 (JObject [(''mensaje'', JString ''Nota no encontrada'')]), w1)
        | (Inr (((relacion_id, plantilla_id, novedad, nota_publica, nota_interna, nota_avances,
                  plantilla), total_usuarios_con_esta_plantilla) # others), w1) \<Rightarrow>
            (let esNotaAvancesPura =
                   (trim_truthy nota_avances \<and> \<not> trim_truthy nota_publica \<and>
                    \<not> trim_truthy nota_interna \<and> \<not> trim_truthy plantilla);
                 esPlantillaPersonalizada =
                   (js_le total_usuarios_con_esta_plantilla 1 \<or> esNotaAvancesPura)
             in case pool_query ''DELETE FROM notas_despacho_rel WHERE id = $1'' [Some ident]
                       (\<lambda>d. (length (filter (\<lambda>r. ndr_id r = ident) (notas_despacho_rel d)),
                              d\<lparr>notas_despacho_rel :=
                                   filter (\<lambda>r. ndr_id r \<noteq> ident) (notas_despacho_rel d)\<rparr>)) w1 of
                  (Inl error, w2) \<Rightarrow>
                    (res_status_json 500 (JObject
                       [(''mensaje'', JString ''Error al eliminar nota''),
                        (''error'', JString error)]), w2)
                | (Inr rowCount, w2) \<Rightarrow>
                    (if rowCount = 0
                     then (res_status_json 404 (JObject
                             [(''mensaje'', JString ''No se pudo eliminar la relacion de la nota'')]), w2)
                     else if esPlantillaPersonalizada
                     then (case pool_query ''DELETE FROM plantillas_base WHERE id = $1''
                                  [Some plantilla_id]
                                  (\<lambda>d. ((), d\<lparr>plantillas_base :=
                                       filter (\<lambda>p. pb_id p \<noteq> plantilla_id) (plantillas_base d)\<rparr>)) w2 of
                             (Inl error, w3) \<Rightarrow>
                               (res_status_json 500 (JObject
                                  [(''mensaje'', JString ''Error al eliminar nota''),
                                   (''error'', JString error)]), w3)
                           | (Inr u, w3) \<Rightarrow>
                               (res_json (JObject
                                  [(''mensaje'', JString ''Nota eliminada correctamente''),
                                   (''plantilla_eliminada'', JBoolean esPlantillaPersonalizada),
                                   (''plantilla_nombre'', json_of_column novedad)]), w3))
                     else (res_json (JObject
                             [(''mensaje'', JString ''Nota eliminada correctamente''),
                              (''plantilla_eliminada'', JBoolean esPlantillaPersonalizada),
                              (''plantilla_nombre'', json_of_column novedad)]), w2))))"

definition limpiarNotaAvances :: "string \<Rightarrow> world \<Rightarrow> response \<times> world" where
  "limpiarNotaAvances ident w =
     (case pool_query ''UPDATE plantillas_base SET nota_avances = NULL WHERE id = $1'' [Some ident]
             (\<lambda>d. (length (filter (\<lambda>p. pb_id p = ident) (plantillas_base d)),
                    d\<lparr>plantillas_base := map (\<lambda>p. if pb_id p = ident
                         then p\<lparr>pb_nota_avances := None\<rparr> else p) (plantillas_base d)\<rparr>)) w of
        (Inl error, w1) \<Rightarrow>
          (res_status_json 500 (JObject
             [(''mensaje'', JString ''Error al limpiar nota de avances''),
              (''error'', JString error)]), w1)
      | (Inr rowCount, w1) \<Rightarrow>
          (if rowCount = 0
           then (res_status_json 404 (JObject [(''mensaje'', JString ''Plantilla no encontrada'')]), w1)
           else (res_json (JObject
                   [(''mensaje'', JString ''Nota de avances eliminada correctamente'')]), w1)))"

definition eliminarPlantillaAdicional :: "string \<Rightarrow> world \<Rightarrow> response \<times> world" where
  "eliminarPlantillaAdicional ident w =
     (if ident = []
      then (res_status_json 400
              (JObject [(''mensaje'', JString ''Se requiere el ID de la plantilla'')]), w)
      else
        case pool_query ''SELECT id, novedad FROM plantillas_base WHERE id = $1'' [Some ident]
               (select (\<lambda>d. filter (\<lambda>p. pb_id p = ident) (plantillas_base d))) w of
          (Inl error, w1) \<Rightarrow>
            (res_status_json 500 (JObject
               [(''mensaje'', JString ''Error al eliminar plantilla''), (''error'', JString error)]), w1)
        | (Inr [], w1) \<Rightarrow>
            (res_status_json 404 (JObject [(''mensaje'', JString ''Plantilla no encontrada'')]), w1)
        | (Inr (plantilla # others), w1) \<Rightarrow>
            (case pool_query ''DELETE FROM notas_despacho_rel WHERE plantilla_id = $1'' [Some ident]
                    (\<lambda>d. (length (filter (\<lambda>r. ndr_plantilla_id r = ident) (notas_despacho_rel d)),
                           d\<lparr>notas_despacho_rel :=
                                filter (\<lambda>r. ndr_plantilla_id r \<noteq> ident) (notas_despacho_rel d)\<rparr>)) w1 of
               (Inl error, w2) \<Rightarrow>
                 (res_status_json 500 (JObject
                    [(''mensaje'', JString ''Error al eliminar plantilla''),
                     (''error'', JString error)]), w2)
             | (Inr relaciones_eliminadas, w2) \<Rightarrow>
                 (case pool_query ''DELETE FROM plantillas_base WHERE id = $1'' [Some ident]
                         (\<lambda>d. ((), d\<lparr>plantillas_base :=
                              filter (\<lambda>p. pb_id p \<noteq> ident) (plantillas_base d)\<rparr>)) w2 of
                    (Inl error, w3) \<Rightarrow>
                      (res_status_json 500 (JObject
                         [(''mensaje'', JString ''Error al eliminar plantilla''),
                          (''error'', JString error)]), w3)
                  | (Inr u, w3) \<Rightarrow>
                      (res_json (JObject
                         [(''mensaje'', JString ''Plantilla eliminada completamente''),
                          (''plantilla_nombre'', json_of_column (pb_novedad plantilla)),
                          (''relaciones_eliminadas'', JNumber (int relaciones_eliminadas))]), w3))))"

text \<open>
  \<open>UPPER(novedad) NOT IN ('AVANCE')\<close> is neither true nor false for a \<open>NULL\<close>, and a row
  is selected only when the condition is true.
\<close>

definition plantillas_disponibles :: "database \<Rightarrow> plantilla_base list" where
  "plantillas_disponibles d =
     sort_key (\<lambda>p. nulls_last (pb_novedad p))
       (filter (\<lambda>p. case pb_novedad p of None \<Rightarrow> False
                     | Some n \<Rightarrow> toUpperCase n \<notin> set [''AVANCE''])
          (plantillas_base d))"

definition obtenerPlantillasDisponibles :: "world \<Rightarrow> response \<times> world" where
  "obtenerPlantillasDisponibles w =
     (case pool_query
             ''SELECT id, novedad, nota_publica, nota_interna, nota_avances, plantilla FROM plantillas_base WHERE UPPER(novedad) NOT IN ('AVANCE') ORDER BY novedad ASC''
             []
             (select plantillas_disponibles) w of
        (Inl error, w1) \<Rightarrow>
          (res_status_json 500 (JObject
             [(''mensaje'', JString ''Error al obtener plantillas disponibles''),
              (''error'', JString error)]), w1)
      | (Inr rows, w1) \<Rightarrow>
          (res_json (JArray (map (\<lambda>p. JObject
             [(''id'', JString (pb_id p)),
              (''novedad'', json_of_column (pb_novedad p)),
              (''nota_publica'', json_of_column (pb_nota_publica p)),
              (''nota_interna'', json_of_column (pb_nota_interna p)),
              (''nota_avances'', json_of_column (pb_nota_avances p)),
              (''plantilla'', json_of_column (pb_plantilla p))]) rows)), w1))"

fun limpiarPlantillasIncorrectas_loop ::
  "uuid list \<Rightarrow> nat \<Rightarrow> world \<Rightarrow> (string + nat) \<times> world" where
  "limpiarPlantillasIncorrectas_loop [] plantillasEliminadas w = (Inr plantillasEliminadas, w)"
| "limpiarPlantillasIncorrectas_loop (plantilla_id # rest) plantillasEliminadas w =
     (case pool_query ''DELETE FROM notas_despacho_rel WHERE plantilla_id = $1'' [Some plantilla_id]
             (\<lambda>d. ((), d\<lparr>notas_despacho_rel :=
                  filter (\<lambda>r. ndr_plantilla_id r \<noteq> plantilla_id) (notas_despacho_rel d)\<rparr>)) w of
        (Inl error, w1) \<Rightarrow> (Inl error, w1)
      | (Inr u, w1) \<Rightarrow>
          (case pool_query ''DELETE FROM plantillas_base WHERE id = $1'' [Some plantilla_id]
                  (\<lambda>d. ((), d\<lparr>plantillas_base :=
                       filter (\<lambda>p. pb_id p \<noteq> plantilla_id) (plantillas_base d)\<rparr>)) w1 of
             (Inl error, w2) \<Rightarrow> (Inl error, w2)
           | (Inr u', w2) \<Rightarrow>
               limpiarPlantillasIncorrectas_loop rest (Suc plantillasEliminadas) w2))"

definition plantillasIncorrectas :: "bool \<Rightarrow> database \<Rightarrow> ((uuid \<times> string option) \<times> js_count) list" where
  "plantillasIncorrectas as_text d =
     map (\<lambda>(k, n). (k, pg_count as_text n))
       (group_count
          (concat (map (\<lambda>pb.
             map (\<lambda>ndr_id'. ((pb_id pb, pb_novedad pb), ndr_id'))
               (left_join (map ndr_id
                  (filter (\<lambda>ndr. pb_id pb = ndr_plantilla_id ndr) (notas_despacho_rel d)))))
             (filter (\<lambda>pb. case pb_novedad pb of None \<Rightarrow> False
                            | Some n \<Rightarrow> toUpperCase n \<in> set [''AVANCE''])
                (plantillas_base d)))))"

definition limpiarPlantillasIncorrectas :: "world \<Rightarrow> response \<times> world" where
  "limpiarPlantillasIncorrectas w =
     (case pool_query
             ''SELECT pb.id, pb.novedad, COUNT(ndr.id) as total_usuarios FROM plantillas_base pb LEFT JOIN notas_despacho_rel ndr ON pb.id = ndr.plantilla_id WHERE UPPER(pb.novedad) IN ('AVANCE') GROUP BY pb.id, pb.novedad''
             []
             (select (plantillasIncorrectas (count_as_text w))) w of
        (Inl error, w1) \<Rightarrow>
          (res_status_json 500 (JObject
             [(''mensaje'', JString ''Error al limpiar plantillas incorrectas''),
              (''error'', JString error)]), w1)
      | (Inr rows, w1) \<Rightarrow>
          (if length rows = 0
           then (res_json (JObject
                   [(''mensaje'', JString ''No hay plantillas con nombres incorrectos''),
                    (''plantillas_eliminadas'', JNumber 0)]), w1)
           else (case limpiarPlantillasIncorrectas_loop (map (\<lambda>((i, n), c). i) rows) 0 w1 of
                   (Inl error, w2) \<Rightarrow>
                     (res_status_json 500 (JObject
                        [(''mensaje'', JString ''Error al limpiar plantillas incorrectas''),
                         (''error'', JString error)]), w2)
                 | (Inr plantillasEliminadas, w2) \<Rightarrow>
                     (res_json (JObject
                        [(''mensaje'', JString (''Se eliminaron '' @ decimal plantillasEliminadas
                            @ '' plantillas con nombres incorrectos'')),
                         (''plantillas_eliminadas'', JNumber (int plantillasEliminadas)),
                         (''detalles'', JArray (map (\<lambda>((i, n), c). JObject
                            [(''nombre'', json_of_column n),
                             (''usuarios_afectados'', json_of_count c)]) rows))]), w2))))"

subsection \<open>Password changes and the maintenance route\<close>

record cambiar_body =
  cb_actual :: "string option"
  cb_nueva :: "string option"

definition cambiarContrasena :: "cambiar_body \<Rightarrow> payload \<Rightarrow> world \<Rightarrow> response \<times> world" where
  "cambiarContrasena b usuario w =
     (let email = p_email usuario in
      case pool_query ''SELECT contrasena FROM usuarios WHERE email = $1'' [email]
             (select (\<lambda>d. map u_contrasena
                (filter (\<lambda>u. sql_eq (u_email u) email) (usuarios d)))) w of
        (Inl error, w1) \<Rightarrow>
          (res_status_json 500 (JObject [(''mensaje'', JString ''Error en el servidor'')]), w1)
      | (Inr [], w1) \<Rightarrow>
          (res_status_json 401
             (JObject [(''mensaje'', JString ''Contrasena actual incorrecta'')]), w1)
      | (Inr (contrasena # others), w1) \<Rightarrow>
          (if strict_ne contrasena (cb_actual b)
           then (res_status_json 401
                   (JObject [(''mensaje'', JString ''Contrasena actual incorrecta'')]), w1)
           else (case pool_query ''UPDATE usuarios SET contrasena = $1 WHERE email = $2''
                        [cb_nueva b, email]
                        (\<lambda>d. ((), d\<lparr>usuarios := map (\<lambda>u. if sql_eq (u_email u) email
                             then u\<lparr>u_contrasena := cb_nueva b\<rparr> else u) (usuarios d)\<rparr>)) w1 of
                   (Inl error, w2) \<Rightarrow>
                     (res_status_json 500
                        (JObject [(''mensaje'', JString ''Error en el servidor'')]), w2)
                 | (Inr u, w2) \<Rightarrow>
                     (res_json (JObject
                        [(''mensaje'', JString ''Contrasena actualizada correctamente'')]), w2))))"

record recuperar_body =
  rc_email :: "string option"
  rc_nueva :: "string option"

definition recuperarContrasena :: "recuperar_body \<Rightarrow> world \<Rightarrow> response \<times> world" where
  "recuperarContrasena b w =
     (case pool_query ''SELECT id FROM usuarios WHERE email = $1'' [rc_email b]
             (select (\<lambda>d. map u_id
                (filter (\<lambda>u. sql_eq (u_email u) (rc_email b)) (usuarios d)))) w of
        (Inl error, w1) \<Rightarrow>
          (res_status_json 500 (JObject [(''mensaje'', JString ''Error en el servidor'')]), w1)
      | (Inr resultado, w1) \<Rightarrow>
          (if length resultado = 0
           then (res_status_json 404 (JObject [(''mensaje'', JString ''Usuario no encontrado'')]), w1)
           else (case pool_query ''UPDATE usuarios SET contrasena = $1 WHERE email = $2''
                        [rc_nueva b, rc_email b]
                        (\<lambda>d. ((), d\<lparr>usuarios := map (\<lambda>u. if sql_eq (u_email u) (rc_email b)
                             then u\<lparr>u_contrasena := rc_nueva b\<rparr> else u) (usuarios d)\<rparr>)) w1 of
                   (Inl error, w2) \<Rightarrow>
                     (res_status_json 500
                        (JObject [(''mensaje'', JString ''Error en el servidor'')]), w2)
                 | (Inr u, w2) \<Rightarrow>
                     (res_json (JObject
                        [(''mensaje'', JString ''Contrasena cambiada correctamente'')]), w2))))"

definition asignarContenidoDefecto :: "string option \<Rightarrow> world \<Rightarrow> response \<times> world" where
  "asignarContenidoDefecto usuario_id w =
     (if falsy usuario_id
      then (res_status_json 400 (JObject [(''mensaje'', JString ''Se requiere usuario_id'')]), w)
      else
        case pool_query ''SELECT id FROM usuarios WHERE id = $1'' [usuario_id]
               (select (\<lambda>d. map u_id (filter (\<lambda>u. u_id u = the usuario_id) (usuarios d)))) w of
          (Inl error, w1) \<Rightarrow>
            (res_status_json 500 (JObject
               [(''mensaje'', JString ''Error al asignar contenido por defecto''),
                (''error'', JString error)]), w1)
        | (Inr usuarioExiste, w1) \<Rightarrow>
            (if length usuarioExiste = 0
             then (res_status_json 404 (JObject [(''mensaje'', JString ''Usuario no encontrado'')]), w1)
             else (case asignarPlantillasPorDefecto (the usuario_id) w1 of
                     (Inl error, w2) \<Rightarrow>
                       (res_status_json 500 (JObject
                          [(''mensaje'', JString ''Error al asignar contenido por defecto''),
                           (''error'', JString error)]), w2)
                   | (Inr u, w2) \<Rightarrow>
                       (case asignarAplicativosPorDefecto (the usuario_id) w2 of
                          (Inl error, w3) \<Rightarrow>
                            (res_status_json 500 (JObject
                               [(''mensaje'', JString ''Error al asignar contenido por defecto''),
                                (''error'', JString error)]), w3)
                        | (Inr u', w3) \<Rightarrow>
                            (res_json (JObject
                               [(''mensaje'',
                                 JString ''Contenido por defecto asignado exitosamente al usuario'')]),
                             w3)))))"

section \<open>aplicativosController\<close>

definition obtenerAplicativos :: "string option \<Rightarrow> world \<Rightarrow> response \<times> world" where
  "obtenerAplicativos usuario_id w =
     (case pool_query
             ''SELECT ar.id, ab.nombre, ab.url, ab.categoria, ar.creado_en FROM aplicativos_rel ar INNER JOIN aplicativos_base ab ON ar.aplicativo_base_id = ab.id WHERE ar.usuario_id = $1 ORDER BY ar.creado_en DESC''
             [usuario_id]
             (select (\<lambda>d. rev (sort_key (\<lambda>(ar, ab). ar_creado_en ar)
                (concat (map (\<lambda>ar. map (\<lambda>ab. (ar, ab))
                     (filter (\<lambda>ab. ar_aplicativo_base_id ar = ab_id ab) (aplicativos_base d)))
                   (filter (\<lambda>ar. sql_eq (Some (ar_usuario_id ar)) usuario_id)
                      (aplicativos_rel d))))))) w of
        (Inl error, w1) \<Rightarrow>
          (res_status_json 500 (JObject [(''mensaje'', JString ''Error al obtener aplicativos'')]), w1)
      | (Inr rows, w1) \<Rightarrow>
          (res_json (JArray (map (\<lambda>(ar, ab). JObject
             [(''id'', JString (ar_id ar)),
              (''nombre'', json_of_column (ab_nombre ab)),
              (''url'', json_of_column (ab_url ab)),
              (''categoria'', json_of_column (ab_categoria ab)),
              (''creado_en'', JNumber (int (ar_creado_en ar)))]) rows)), w1))"

record aplicativo_body =
  apb_usuario_id :: "string option"
  apb_nombre :: "string option"
  apb_url :: "string option"
  apb_categoria :: "string option"

definition agregarAplicativo :: "aplicativo_body \<Rightarrow> world \<Rightarrow> response \<times> world" where
  "agregarAplicativo b w =
     (if falsy (apb_usuario_id b) \<or> falsy (apb_nombre b)
      then (res_status_json 400 (JObject
              [(''mensaje'', JString ''Se requieren usuario_id y nombre como minimo'')]), w)
      else (let usuario_id = the (apb_usuario_id b); nombre = the (apb_nombre b) in
        case pool_query ''SELECT id FROM usuarios WHERE id = $1'' [Some usuario_id]
               (select (\<lambda>d. map u_id (filter (\<lambda>u. u_id u = usuario_id) (usuarios d)))) w of
          (Inl error, w1) \<Rightarrow>
            (res_status_json 500 (JObject
               [(''mensaje'', JString ''Error al agregar aplicativo personalizado''),
                (''error'', JString error)]), w1)
        | (Inr usuarioExiste, w1) \<Rightarrow>
            (if length usuarioExiste = 0
             then (res_status_json 404 (JObject [(''mensaje'', JString ''Usuario no encontrado'')]), w1)
             else (case uuidv4 w1 of (aplicativoId, w2) \<Rightarrow>
               (case pool_query
                       ''INSERT INTO aplicativos_base (id, nombre, url, categoria) VALUES ($1, $2, $3, $4)''
                       [Some aplicativoId, Some nombre, Some (or_else (apb_url b) []),
                        Some (or_else (apb_categoria b) ''Personalizado'')]
                       (\<lambda>d. ((), d\<lparr>aplicativos_base := aplicativos_base d @
                              [\<lparr>ab_id = aplicativoId, ab_nombre = Some nombre,
                                ab_url = Some (or_else (apb_url b) []),
                                ab_categoria = Some (or_else (apb_categoria b) ''Personalizado'')\<rparr>]\<rparr>)) w2 of
                  (Inl error, w3) \<Rightarrow>
                    (res_status_json 500 (JObject
                       [(''mensaje'', JString ''Error al agregar aplicativo personalizado''),
                        (''error'', JString error)]), w3)
                | (Inr u, w3) \<Rightarrow>
                    (case uuidv4 w3 of (relacionId, w4) \<Rightarrow>
                      (case pool_query
                              ''INSERT INTO aplicativos_rel (id, usuario_id, aplicativo_base_id, creado_en) VALUES ($1, $2, $3, NOW())''
                              [Some relacionId, Some usuario_id, Some aplicativoId]
                              (\<lambda>d. ((), d\<lparr>aplicativos_rel := aplicativos_rel d @
                                     [\<lparr>ar_id = relacionId, ar_usuario_id = usuario_id,
                                       ar_aplicativo_base_id = aplicativoId, ar_creado_en = now w\<rparr>]\<rparr>)) w4 of
                         (Inl error, w5) \<Rightarrow>
                           (res_status_json 500 (JObject
                              [(''mensaje'', JString ''Error al agregar aplicativo personalizado''),
                               (''error'', JString error)]), w5)
                       | (Inr u', w5) \<Rightarrow>
                           (res_status_json 201 (JObject
                              [(''mensaje'', JString ''Aplicativo personalizado creado exitosamente''),
                               (''id'', JString relacionId),
                               (''aplicativo_base_id'', JString aplicativoId)]), w5))))))))"

record asignar_aplicativo_body =
  aa_usuario_id :: "string option"
  aa_aplicativo_base_id :: "string option"

definition asignarAplicativo :: "asignar_aplicativo_body \<Rightarrow> world \<Rightarrow> response \<times> world" where
  "asignarAplicativo b w =
     (if falsy (aa_usuario_id b) \<or> falsy (aa_aplicativo_base_id b)
      then (res_status_json 400 (JObject
              [(''mensaje'', JString ''Se requieren usuario_id y aplicativo_base_id'')]), w)
      else (let usuario_id = the (aa_usuario_id b);
                aplicativo_base_id = the (aa_aplicativo_base_id b) in
        case pool_query ''SELECT id FROM usuarios WHERE id = $1'' [Some usuario_id]
               (select (\<lambda>d. map u_id (filter (\<lambda>u. u_id u = usuario_id) (usuarios d)))) w of
          (Inl error, w1) \<Rightarrow>
            (res_status_json 500 (JObject
               [(''mensaje'', JString ''Error al asignar aplicativo''), (''error'', JString error)]), w1)
        | (Inr usuarioExiste, w1) \<Rightarrow>
            (if length usuarioExiste = 0
             then (res_status_json 404 (JObject [(''mensaje'', JString ''Usuario no encontrado'')]), w1)
             else (case pool_query ''SELECT id FROM aplicativos_base WHERE id = $1''
                          [Some aplicativo_base_id]
                          (select (\<lambda>d. map ab_id (filter (\<lambda>a. ab_id a = aplicativo_base_id)
                             (aplicativos_base d)))) w1 of
                (Inl error, w2) \<Rightarrow>
                  (res_status_json 500 (JObject
                     [(''mensaje'', JString ''Error al asignar aplicativo''),
                      (''error'', JString error)]), w2)
              | (Inr aplicativoExiste, w2) \<Rightarrow>
                  (if length aplicativoExiste = 0
                   then (res_status_json 404
                           (JObject [(''mensaje'', JString ''Aplicativo base no encontrado'')]), w2)
                   else (case pool_query
                                ''SELECT id FROM aplicativos_rel WHERE usuario_id = $1 AND aplicativo_base_id = $2''
                                [Some usuario_id, Some aplicativo_base_id]
                                (select (\<lambda>d. map ar_id (filter (\<lambda>r. ar_usuario_id r = usuario_id \<and>
                                   ar_aplicativo_base_id r = aplicativo_base_id) (aplicativos_rel d)))) w2 of
                      (Inl error, w3) \<Rightarrow>
                        (res_status_json 500 (JObject
                           [(''mensaje'', JString ''Error al asignar aplicativo''),
                            (''error'', JString error)]), w3)
                    | (Inr relacionExiste, w3) \<Rightarrow>
                        (if length relacionExiste > 0
                         then (res_status_json 409 (JObject
                                 [(''mensaje'',
                                   JString ''El aplicativo ya esta agregado para este usuario'')]), w3)
                         else (case uuidv4 w3 of (ident, w4) \<Rightarrow>
                           (case pool_query
                                   ''INSERT INTO aplicativos_rel (id, usuario_id, aplicativo_base_id, creado_en) VALUES ($1, $2, $3, NOW())''
                                   [Some ident, Some usuario_id, Some aplicativo_base_id]
                                   (\<lambda>d. ((), d\<lparr>aplicativos_rel := aplicativos_rel d @
                                          [\<lparr>ar_id = ident, ar_usuario_id = usuario_id,
                                            ar_aplicativo_base_id = aplicativo_base_id,
                                            ar_creado_en = now w\<rparr>]\<rparr>)) w4 of
                              (Inl error, w5) \<Rightarrow>
                                (res_status_json 500 (JObject
                                   [(''mensaje'', JString ''Error al asignar aplicativo''),
                                    (''error'', JString error)]), w5)
                            | (Inr u, w5) \<Rightarrow>
                                (res_status_json 201 (JObject
                                   [(''mensaje'', JString ''Aplicativo asignado exitosamente''),
                                    (''id'', JString ident)]), w5))))))))))"

text \<open>
  The row that \<open>eliminarAplicativo\<close> reads: the relation, the name of its base row, and
  the number of relation rows that point to the base row.
\<close>

type_synonym aplicativo_info = "(uuid \<times> uuid \<times> uuid \<times> string option) \<times> js_count"

definition relacionInfo_aplicativo :: "bool \<Rightarrow> string \<Rightarrow> database \<Rightarrow> aplicativo_info list" where
  "relacionInfo_aplicativo as_text ident d =
     map (\<lambda>(k, n). (k, pg_count as_text n))
       (group_count
          (concat (map (\<lambda>ar.
             concat (map (\<lambda>ab.
               map (\<lambda>ar2_id.
                     ((ar_id ar, ar_usuario_id ar, ar_aplicativo_base_id ar, ab_nombre ab), ar2_id))
                 (left_join (map ar_id
                    (filter (\<lambda>ar2. ab_id ab = ar_aplicativo_base_id ar2) (aplicativos_rel d)))))
               (filter (\<lambda>ab. ar_aplicativo_base_id ar = ab_id ab) (aplicativos_base d))))
             (filter (\<lambda>ar. ar_id ar = ident) (aplicativos_rel d)))))"

definition eliminarAplicativo :: "string \<Rightarrow> world \<Rightarrow> response \<times> world" where
  "eliminarAplicativo ident w =
     (if ident = []
      then (res_status_json 400
              (JObject [(''mensaje'', JString ''Se requiere el ID del aplicativo'')]), w)
      else
        case pool_query
               ''SELECT ar.id as relacion_id, ar.usuario_id, ar.aplicativo_base_id, ab.nombre, COUNT(ar2.id) as total_usuarios_con_este_aplicativo FROM aplicativos_rel ar INNER JOIN aplicativos_base ab ON ar.aplicativo_base_id = ab.id LEFT JOIN aplicativos_rel ar2 ON ab.id = ar2.aplicativo_base_id WHERE ar.id = $1 GROUP BY ar.id, ar.usuario_id, ar.aplicativo_base_id, ab.nombre''
               [Some ident]
               (select (relacionInfo_aplicativo (count_as_text w) ident)) w of
          (Inl error, w1) \<Rightarrow>
            (res_status_json 500 (JObject
               [(''mensaje'', JString ''Error al eliminar aplicativo''),
                (''error'', JString error)]), w1)
        | (Inr [], w1) \<Rightarrow>
            (res_status_json 404
               (JObject [(''mensaje'', JString ''Aplicativo no encontrado para este usuario'')]), w1)
        | (Inr (((relacion_id, usuario_id, aplicativo_base_id, nombre),
                 total_usuarios_con_este_aplicativo) # others), w1) \<Rightarrow>
            (let esAplicativoPersonalizado = js_strict_eq total_usuarios_con_este_aplicativo 1
             in case pool_query ''DELETE FROM aplicativos_rel WHERE id = $1'' [Some ident]
                       (\<lambda>d. (length (filter (\<lambda>r. ar_id r = ident) (aplicativos_rel d)),
                              d\<lparr>aplicativos_rel :=
                                   filter (\<lambda>r. ar_id r \<noteq> ident) (aplicativos_rel d)\<rparr>)) w1 of
                  (Inl error, w2) \<Rightarrow>
                    (res_status_json 500 (JObject
                       [(''mensaje'', JString ''Error al eliminar aplicativo''),
                        (''error'', JString error)]), w2)
                | (Inr rowCount, w2) \<Rightarrow>
                    (if rowCount = 0
                     then (res_status_json 404 (JObject
                             [(''mensaje'',
                               JString ''No se pudo eliminar la relacion del aplicativo'')]), w2)
                     else if esAplicativoPersonalizado
                     then (case pool_query ''DELETE FROM aplicativos_base WHERE id = $1''
                                  [Some aplicativo_base_id]
                                  (\<lambda>d. ((), d\<lparr>aplicativos_base :=
                                       filter (\<lambda>a. ab_id a \<noteq> aplicativo_base_id) (aplicativos_base d)\<rparr>)) w2 of
                             (Inl error, w3) \<Rightarrow>
                               (res_status_json 500 (JObject
                                  [(''mensaje'', JString ''Error al eliminar aplicativo''),
                                   (''error'', JString error)]), w3)
                           | (Inr u, w3) \<Rightarrow>
                               (res_json (JObject
                                  [(''mensaje'', JString ''Aplicativo eliminado correctamente''),
                                   (''aplicativo_eliminado'', JBoolean esAplicativoPersonalizado),
                                   (''aplicativo_nombre'', json_of_column nombre)]), w3))
                     else (res_json (JObject
                             [(''mensaje'', JString ''Aplicativo eliminado correctamente''),
                              (''aplicativo_eliminado'', JBoolean esAplicativoPersonalizado),
                              (''aplicativo_nombre'', json_of_column nombre)]), w2))))"

definition obtenerAplicativosDisponibles :: "world \<Rightarrow> response \<times> world" where
  "obtenerAplicativosDisponibles w =
     (case pool_query
             ''SELECT id, nombre, url, categoria FROM aplicativos_base ORDER BY categoria ASC, nombre ASC''
             []
             (select (\<lambda>d. sort_key (\<lambda>a. (nulls_last (ab_categoria a), nulls_last (ab_nombre a)))
                (aplicativos_base d))) w of
        (Inl error, w1) \<Rightarrow>
          (res_status_json 500 (JObject
             [(''mensaje'', JString ''Error al obtener aplicativos disponibles''),
              (''error'', JString error)]), w1)
      | (Inr rows, w1) \<Rightarrow>
          (res_json (JArray (map (\<lambda>a. JObject
             [(''id'', JString (ab_id a)),
              (''nombre'', json_of_column (ab_nombre a)),
              (''url'', json_of_column (ab_url a)),
              (''categoria'', json_of_column (ab_categoria a))]) rows)), w1))"

section \<open>mailController\<close>

text \<open>
  \<open>nodemailer\<close> is not part of the repository: \<open>sendMail\<close> is what the transporter does
  with the message handed to it, the \<open>messageId\<close> or a thrown error. The second component
  of the result lists the messages handed to the transporter.
\<close>

record mail_body =
  mb_para :: "string option"
  mb_cc :: "string option"
  mb_asunto :: "string option"
  mb_mensaje :: "string option"

record upload =
  originalname :: string
  buffer :: string
  mimetype :: string

record attachment =
  filename :: string
  content :: string
  contentType :: string

record mail_options =
  mo_from :: "string option"
  mo_to :: string
  mo_cc :: "string option"
  mo_subject :: string
  mo_text :: string
  mo_html :: string
  mo_attachments :: "attachment list"

definition enviarCorreo ::
  "string option \<Rightarrow> (mail_options \<Rightarrow> string + string) \<Rightarrow> upload list \<Rightarrow> mail_body \<Rightarrow>
   response \<times> mail_options list" where
  "enviarCorreo SMTP_USER sendMail files b =
     (if falsy (mb_para b) \<or> falsy (mb_asunto b) \<or> falsy (mb_mensaje b)
      then (res_status_json 400 (JObject
              [(''success'', JBoolean False),
               (''message'', JString ''Los campos para, asunto y mensaje son requeridos'')]), [])
      else (let mensaje = the (mb_mensaje b);
                attachments = map (\<lambda>file. \<lparr>filename = originalname file, content = buffer file,
                                             contentType = mimetype file\<rparr>) files;
                isHTML = (str_includes mensaje (CHR ''<'') \<and> str_includes mensaje (CHR ''>''));
                mailOptions =
                  \<lparr>mo_from = SMTP_USER,
                   mo_to = the (mb_para b),
                   mo_cc = (if falsy (mb_cc b) then None else mb_cc b),
                   mo_subject = the (mb_asunto b),
                   mo_text = (if isHTML then strip_tags mensaje else mensaje),
                   mo_html = (if isHTML then mensaje else nl2br mensaje),
                   mo_attachments = attachments\<rparr>
            in case sendMail mailOptions of
                 Inr messageId \<Rightarrow>
                   (res_json (JObject
                      [(''success'', JBoolean True),
                       (''message'', JString ''Correo enviado exitosamente''),
                       (''messageId'', JString messageId)]), [mailOptions])
               | Inl err \<Rightarrow>
                   (res_status_json 500 (JObject
                      [(''success'', JBoolean False),
                       (''message'', JString ''Error interno del servidor al enviar el correo''),
                       (''error'', JString err)]), [mailOptions])))"

section \<open>aiController\<close>

text \<open>
  The \<open>@google/genai\<close> package is not part of the repository: \<open>generateContent\<close> is what
  \<open>ai.models.generateContent\<close> does for a client, the text of the first part of the first
  candidate when there is one, or a thrown error. The second component of a handler's
  result lists the requests sent to the external service.
\<close>

datatype gemini_client = GoogleGenAI string

datatype gemini_part = Text string | InlineData string string

record gemini_request =
  g_model :: string
  g_parts :: "gemini_part list"
  g_systemInstruction :: string

type_synonym generate_content = "gemini_client \<Rightarrow> gemini_request \<Rightarrow> string + string option"

record texto_body =
  tb_texto :: "string option"
  tb_modo :: "string option"

record imagen_body =
  ib_base64Image :: "string option"
  ib_mimeType :: "string option"

definition mejorarTextoChatGPT ::
  "generate_content \<Rightarrow> gemini_client \<Rightarrow> texto_body \<Rightarrow> response \<times> gemini_request list" where
  \<open>mejorarTextoChatGPT generateContent ai b =
     (if falsy (tb_texto b)
      then (res_status_json 400
              (JObject [(''error'', JString ''El campo "texto" es obligatorio.'')]), [])
      else (let texto = the (tb_texto b);
                request =
                  (if tb_modo b = Some ''corregir_ortografia''
                   then \<lparr>g_model = ''gemini-2.5-flash-preview-09-2025'',
                         g_parts = [Text (''Corrige este texto: "'' @ texto @ ''"'')],
                         g_systemInstruction = ''Eres un corrector de estilo y ortografia profesional. Corrige unicamente los errores gramaticales, ortograficos y de puntuacion del texto proporcionado. No anadas contenido nuevo ni cambies el significado. Devuelve solo el texto corregido.''\<rparr>
                   else \<lparr>g_model = ''gemini-2.5-flash-preview-09-2025'',
                         g_parts = [Text (''Mejora y pule este texto: "'' @ texto @ ''"'')],
                         g_systemInstruction = ''Eres un asistente de redaccion experto. Puliras y mejoraras el texto proporcionado, asegurando claridad, cohesion y un tono profesional o adecuado para una nota rapida. No lo hagas excesivamente largo. Devuelve solo el texto mejorado.''\<rparr>)
            in case generateContent ai request of
                 Inr text \<Rightarrow>
                   (res_json (JObject
                      [(''textoMejorado'', JString (trim
                          (if falsy text then ''No se pudo generar una respuesta.''
                           else the text)))]), [request])
               | Inl err \<Rightarrow>
                   (res_status_json 500 (JObject
                      [(''error'', JString ''Fallo en el servicio de IA. Intenta de nuevo.''),
                       (''details'', JString err)]), [request])))\<close>

definition extraerTextoImagen ::
  "generate_content \<Rightarrow> gemini_client \<Rightarrow> imagen_body \<Rightarrow> response \<times> gemini_request list" where
  "extraerTextoImagen generateContent ai b =
     (if falsy (ib_base64Image b) \<or> falsy (ib_mimeType b)
      then (res_status_json 400 (JObject
              [(''error'', JString ''Faltan campos: base64Image y mimeType son obligatorios.'')]), [])
      else (let imagePart = InlineData (the (ib_base64Image b)) (the (ib_mimeType b));
                request =
                  \<lparr>g_model = ''gemini-2.5-flash-preview-09-2025'',
                   g_parts = [imagePart, Text ''Extrae y corrige el texto de esta imagen. Si no hay texto, indica 'No se pudo extraer texto relevante'.''],
                   g_systemInstruction = ''Eres un asistente de transcripcion y correccion. Tu tarea es: 1. Transcribir con precision todo el texto que encuentres en la imagen. 2. Una vez transcrito, corrige inmediatamente los errores ortograficos, gramaticales y de puntuacion del texto. **3. Devuelve *SOLO* el texto final**, corregido y transcrito, sin anadir preambulos, explicaciones o comentarios adicionales.''\<rparr>
            in case generateContent ai request of
                 Inr text \<Rightarrow>
                   (res_json (JObject
                      [(''textoMejorado'', JString (trim
                          (if falsy text then ''No se pudo extraer texto relevante.''
                           else the text)))]), [request])
               | Inl err \<Rightarrow>
                   (res_status_json 500 (JObject
                      [(''error'', JString ''Fallo en el servicio de IA al procesar la imagen.''),
                       (''details'', JString err)]), [request])))"

text \<open>
  Loading the module: without \<open>GEMINI_API_KEY\<close> the module body throws and nothing is
  exported; otherwise the client is built from the key and both handlers are exported,
  closed over that client.
\<close>

record ai_exports =
  exported_mejorarTextoChatGPT :: "texto_body \<Rightarrow> response \<times> gemini_request list"
  exported_extraerTextoImagen :: "imagen_body \<Rightarrow> response \<times> gemini_request list"

definition aiController :: "generate_content \<Rightarrow> string option \<Rightarrow> string + ai_exports" where
  "aiController generateContent GEMINI_API_KEY =
     (let apiKey = GEMINI_API_KEY in
      if falsy apiKey then Inl ''GEMINI_API_KEY is missing. Check your .env file.''
      else (let ai = GoogleGenAI (the apiKey) in
        Inr \<lparr>exported_mejorarTextoChatGPT = mejorarTextoChatGPT generateContent ai,
             exported_extraerTextoImagen = extraerTextoImagen generateContent ai\<rparr>))"

section \<open>Routes\<close>

text \<open>
  The handlers that talk to the database, one request constructor for each, with what the
  handler reads from the request. The two protected routes of \<open>authRoutes\<close> also carry the
  Authorization header.
\<close>

datatype request =
    Registro registro_body
  | Login login_body
  | CambiarContrasena "string option" cambiar_body
  | RecuperarContrasena recuperar_body
  | AsignarContenidoDefecto "string option" "string option"
  | ObtenerNotas string
  | ObtenerNotasAvances string
  | AgregarNota nota_body
  | AsignarNota asignar_nota_body
  | ModificarPlantilla string plantilla_body
  | EliminarNota string
  | LimpiarNotaAvances string
  | EliminarPlantillaAdicional string
  | ObtenerPlantillasDisponibles
  | LimpiarPlantillasIncorrectas
  | ObtenerAplicativos "string option"
  | AgregarAplicativo aplicativo_body
  | AsignarAplicativo asignar_aplicativo_body
  | EliminarAplicativo string
  | ObtenerAplicativosDisponibles

fun handler :: "jsonwebtoken \<Rightarrow> string option \<Rightarrow> request \<Rightarrow> world \<Rightarrow> response \<times> world" where
  "handler lib JWT_SECRET (Registro b) w = registrarUsuario lib JWT_SECRET b w"
| "handler lib JWT_SECRET (Login b) w = loginUsuario lib JWT_SECRET b w"
| "handler lib JWT_SECRET (CambiarContrasena authHeader b) w =
     protected_route lib JWT_SECRET (cambiarContrasena b) authHeader w"
| "handler lib JWT_SECRET (RecuperarContrasena b) w = recuperarContrasena b w"
| "handler lib JWT_SECRET (AsignarContenidoDefecto authHeader usuario_id) w =
     protected_route lib JWT_SECRET (\<lambda>usuario. asignarContenidoDefecto usuario_id) authHeader w"
| "handler lib JWT_SECRET (ObtenerNotas usuario_id) w = obtenerNotas usuario_id w"
| "handler lib JWT_SECRET (ObtenerNotasAvances usuario_id) w = obtenerNotasAvances usuario_id w"
| "handler lib JWT_SECRET (AgregarNota b) w = agregarNota b w"
| "handler lib JWT_SECRET (AsignarNota b) w = asignarNota b w"
| "handler lib JWT_SECRET (ModificarPlantilla ident b) w = modificarPlantilla ident b w"
| "handler lib JWT_SECRET (EliminarNota ident) w = eliminarNota ident w"
| "handler lib JWT_SECRET (LimpiarNotaAvances ident) w = limpiarNotaAvances ident w"
| "handler lib JWT_SECRET (EliminarPlantillaAdicional ident) w = eliminarPlantillaAdicional ident w"
| "handler lib JWT_SECRET ObtenerPlantillasDisponibles w = obtenerPlantillasDisponibles w"
| "handler lib JWT_SECRET LimpiarPlantillasIncorrectas w = limpiarPlantillasIncorrectas w"
| "handler lib JWT_SECRET (ObtenerAplicativos usuario_id) w = obtenerAplicativos usuario_id w"
| "handler lib JWT_SECRET (AgregarAplicativo b) w = agregarAplicativo b w"
| "handler lib JWT_SECRET (AsignarAplicativo b) w = asignarAplicativo b w"
| "handler lib JWT_SECRET (EliminarAplicativo ident) w = eliminarAplicativo ident w"
| "handler lib JWT_SECRET ObtenerAplicativosDisponibles w = obtenerAplicativosDisponibles w"

text \<open>The route of a request: the request without anything the client sent.\<close>

datatype route =
    RegistroRoute | LoginRoute | CambiarContrasenaRoute | RecuperarContrasenaRoute
  | AsignarContenidoDefectoRoute | ObtenerNotasRoute | ObtenerNotasAvancesRoute
  | AgregarNotaRoute | AsignarNotaRoute | ModificarPlantillaRoute | EliminarNotaRoute
  | LimpiarNotaAvancesRoute | EliminarPlantillaAdicionalRoute
  | ObtenerPlantillasDisponiblesRoute | LimpiarPlantillasIncorrectasRoute
  | ObtenerAplicativosRoute | AgregarAplicativoRoute | AsignarAplicativoRoute
  | EliminarAplicativoRoute | ObtenerAplicativosDisponiblesRoute

fun route_of :: "request \<Rightarrow> route" where
  "route_of (Registro b) = RegistroRoute"
| "route_of (Login b) = LoginRoute"
| "route_of (CambiarContrasena h b) = CambiarContrasenaRoute"
| "route_of (RecuperarContrasena b) = RecuperarContrasenaRoute"
| "route_of (AsignarContenidoDefecto h u) = AsignarContenidoDefectoRoute"
| "route_of (ObtenerNotas u) = ObtenerNotasRoute"
| "route_of (ObtenerNotasAvances u) = ObtenerNotasAvancesRoute"
| "route_of (AgregarNota b) = AgregarNotaRoute"
| "route_of (AsignarNota b) = AsignarNotaRoute"
| "route_of (ModificarPlantilla i b) = ModificarPlantillaRoute"
| "route_of (EliminarNota i) = EliminarNotaRoute"
| "route_of (LimpiarNotaAvances i) = LimpiarNotaAvancesRoute"
| "route_of (EliminarPlantillaAdicional i) = EliminarPlantillaAdicionalRoute"
| "route_of ObtenerPlantillasDisponibles = ObtenerPlantillasDisponiblesRoute"
| "route_of LimpiarPlantillasIncorrectas = LimpiarPlantillasIncorrectasRoute"
| "route_of (ObtenerAplicativos u) = ObtenerAplicativosRoute"
| "route_of (AgregarAplicativo b) = AgregarAplicativoRoute"
| "route_of (AsignarAplicativo b) = AsignarAplicativoRoute"
| "route_of (EliminarAplicativo i) = EliminarAplicativoRoute"
| "route_of ObtenerAplicativosDisponibles = ObtenerAplicativosDisponiblesRoute"

text \<open>
  The statement texts of each route, as they stand in the source of its handler and of
  the functions it calls.
\<close>

definition default_content_statements :: "string list" where
  "default_content_statements =
     [''SELECT COUNT(*) FROM plantillas_base'',
      ''INSERT INTO plantillas_base (id, novedad, nota_publica, nota_interna, nota_avances, plantilla) VALUES ($1, $2, $3, $4, $5, $6)'',
      ''SELECT id FROM plantillas_base ORDER BY id ASC'',
      ''INSERT INTO notas_despacho_rel (id, usuario_id, plantilla_id, creado_en) VALUES ($1, $2, $3, NOW())'',
      ''SELECT COUNT(*) FROM aplicativos_base'',
      ''INSERT INTO aplicativos_base (id, nombre, url, categoria) VALUES ($1, $2, $3, $4)'',
      ''SELECT id FROM aplicativos_base ORDER BY categoria ASC, nombre ASC'',
      ''INSERT INTO aplicativos_rel (id, usuario_id, aplicativo_base_id, creado_en) VALUES ($1, $2, $3, NOW())'']"

fun statements :: "route \<Rightarrow> string list" where
  "statements RegistroRoute =
     [''SELECT id FROM usuarios WHERE email = $1'',
      ''INSERT INTO usuarios (id, nombre, email, contrasena) VALUES ($1, $2, $3, $4)'']
     @ default_content_statements"
| "statements LoginRoute =
     [''SELECT id, nombre, email, contrasena FROM usuarios WHERE email = $1'']"
| "statements CambiarContrasenaRoute =
     [''SELECT contrasena FROM usuarios WHERE email = $1'',
      ''UPDATE usuarios SET contrasena = $1 WHERE email = $2'']"
| "statements RecuperarContrasenaRoute =
     [''SELECT id FROM usuarios WHERE email = $1'',
      ''UPDATE usuarios SET contrasena = $1 WHERE email = $2'']"
| "statements AsignarContenidoDefectoRoute =
     [''SELECT id FROM usuarios WHERE id = $1''] @ default_content_statements"
| "statements ObtenerNotasRoute =
     [''SELECT ndr.id, ndr.plantilla_id, pb.novedad, pb.nota_publica, pb.nota_interna, pb.nota_avances, pb.plantilla, ndr.creado_en FROM notas_despacho_rel ndr INNER JOIN plantillas_base pb ON ndr.plantilla_id = pb.id WHERE ndr.usuario_id = $1 ORDER BY ndr.creado_en DESC'']"
| "statements ObtenerNotasAvancesRoute =
     [''SELECT ndr.id, ndr.plantilla_id, pb.novedad, pb.nota_avances, ndr.creado_en FROM notas_despacho_rel ndr INNER JOIN plantillas_base pb ON ndr.plantilla_id = pb.id WHERE ndr.usuario_id = $1 AND pb.nota_avances IS NOT NULL AND TRIM(pb.nota_avances) != ''
        @ [CHR 0x27, CHR 0x27] @ '' ORDER BY ndr.creado_en DESC'']"
| "statements AgregarNotaRoute =
     [''SELECT id FROM usuarios WHERE id = $1'',
      ''INSERT INTO plantillas_base (id, novedad, nota_publica, nota_interna, nota_avances, plantilla) VALUES ($1, $2, $3, $4, $5, $6)'',
      ''INSERT INTO notas_despacho_rel (id, usuario_id, plantilla_id, creado_en) VALUES ($1, $2, $3, NOW())'']"
| "statements AsignarNotaRoute =
     [''SELECT id FROM usuarios WHERE id = $1'',
      ''SELECT id FROM plantillas_base WHERE id = $1'',
      ''SELECT id FROM notas_despacho_rel WHERE usuario_id = $1 AND plantilla_id = $2'',
      ''INSERT INTO notas_despacho_rel (id, usuario_id, plantilla_id, creado_en) VALUES ($1, $2, $3, NOW())'']"
| "statements ModificarPlantillaRoute =
     [''UPDATE plantillas_base SET novedad = $1, nota_publica = $2, nota_interna = $3, nota_avances = $4, plantilla = $5 WHERE id = $6'']"
| "statements EliminarNotaRoute =
     [''SELECT ndr.id as relacion_id, ndr.plantilla_id, pb.novedad, pb.nota_publica, pb.nota_interna, pb.nota_avances, pb.plantilla, COUNT(ndr2.id) as total_usuarios_con_esta_plantilla FROM notas_despacho_rel ndr INNER JOIN plantillas_base pb ON ndr.plantilla_id = pb.id LEFT JOIN notas_despacho_rel ndr2 ON pb.id = ndr2.plantilla_id WHERE ndr.id = $1 GROUP BY ndr.id, ndr.plantilla_id, pb.novedad, pb.nota_publica, pb.nota_interna, pb.nota_avances, pb.plantilla'',
      ''DELETE FROM notas_despacho_rel WHERE id = $1'',
      ''DELETE FROM plantillas_base WHERE id = $1'']"
| "statements LimpiarNotaAvancesRoute =
     [''UPDATE plantillas_base SET nota_avances = NULL WHERE id = $1'']"
| "statements EliminarPlantillaAdicionalRoute =
     [''SELECT id, novedad FROM plantillas_base WHERE id = $1'',
      ''DELETE FROM notas_despacho_rel WHERE plantilla_id = $1'',
      ''DELETE FROM plantillas_base WHERE id = $1'']"
| "statements ObtenerPlantillasDisponiblesRoute =
     [''SELECT id, novedad, nota_publica, nota_interna, nota_avances, plantilla FROM plantillas_base WHERE UPPER(novedad) NOT IN ('AVANCE') ORDER BY novedad ASC'']"
| "statements LimpiarPlantillasIncorrectasRoute =
     [''SELECT pb.id, pb.novedad, COUNT(ndr.id) as total_usuarios FROM plantillas_base pb LEFT JOIN notas_despacho_rel ndr ON pb.id = ndr.plantilla_id WHERE UPPER(pb.novedad) IN ('AVANCE') GROUP BY pb.id, pb.novedad'',
      ''DELETE FROM notas_despacho_rel WHERE plantilla_id = $1'',
      ''DELETE FROM plantillas_base WHERE id = $1'']"
| "statements ObtenerAplicativosRoute =
     [''SELECT ar.id, ab.nombre, ab.url, ab.categoria, ar.creado_en FROM aplicativos_rel ar INNER JOIN aplicativos_base ab ON ar.aplicativo_base_id = ab.id WHERE ar.usuario_id = $1 ORDER BY ar.creado_en DESC'']"
| "statements AgregarAplicativoRoute =
     [''SELECT id FROM usuarios WHERE id = $1'',
      ''INSERT INTO aplicativos_base (id, nombre, url, categoria) VALUES ($1, $2, $3, $4)'',
      ''INSERT INTO aplicativos_rel (id, usuario_id, aplicativo_base_id, creado_en) VALUES ($1, $2, $3, NOW())'']"
| "statements AsignarAplicativoRoute =
     [''SELECT id FROM usuarios WHERE id = $1'',
      ''SELECT id FROM aplicativos_base WHERE id = $1'',
      ''SELECT id FROM aplicativos_rel WHERE usuario_id = $1 AND aplicativo_base_id = $2'',
      ''INSERT INTO aplicativos_rel (id, usuario_id, aplicativo_base_id, creado_en) VALUES ($1, $2, $3, NOW())'']"
| "statements EliminarAplicativoRoute =
     [''SELECT ar.id as relacion_id, ar.usuario_id, ar.aplicativo_base_id, ab.nombre, COUNT(ar2.id) as total_usuarios_con_este_aplicativo FROM aplicativos_rel ar INNER JOIN aplicativos_base ab ON ar.aplicativo_base_id = ab.id LEFT JOIN aplicativos_rel ar2 ON ab.id = ar2.aplicativo_base_id WHERE ar.id = $1 GROUP BY ar.id, ar.usuario_id, ar.aplicativo_base_id, ab.nombre'',
      ''DELETE FROM aplicativos_rel WHERE id = $1'',
      ''DELETE FROM aplicativos_base WHERE id = $1'']"
| "statements ObtenerAplicativosDisponiblesRoute =
     [''SELECT id, nombre, url, categoria FROM aplicativos_base ORDER BY categoria ASC, nombre ASC'']"

text \<open>
  The statements that a run has sent: what \<open>issued\<close> holds beyond what it held before. A
  run sends only texts of \<open>T\<close> when the earlier record is kept and every statement it
  added has its text in \<open>T\<close>.
\<close>

definition sent :: "world \<Rightarrow> world \<Rightarrow> query list" where
  "sent w w' = drop (length (issued w)) (issued w')"

definition sends_only :: "string list \<Rightarrow> world \<Rightarrow> world \<Rightarrow> bool" where
  "sends_only T w w' =
     (take (length (issued w)) (issued w') = issued w \<and> list_all (\<lambda>q. sql q \<in> set T) (sent w w'))"

text \<open>The texts of the statements that a run has sent, in the order in which it sent them.\<close>

definition texts_sent :: "world \<Rightarrow> world \<Rightarrow> string list" where
  "texts_sent w w' = map sql (sent w w')"

text \<open>
  Two worlds that may differ in what users hold and in what was recorded so far, but not
  in what decides which statements the default assignment sends: the fault plan and the
  position in it, the identifiers to come, the driver, and the two base tables.
\<close>

definition same_catalog :: "world \<Rightarrow> world \<Rightarrow> bool" where
  "same_catalog w w' =
     (faults w = faults w' \<and> length (issued w) = length (issued w') \<and> uuids w = uuids w' \<and>
      drawn w = drawn w' \<and> count_as_text w = count_as_text w' \<and>
      plantillas_base (db w) = plantillas_base (db w') \<and>
      aplicativos_base (db w) = aplicativos_base (db w'))"

text \<open>
  Two runs agree: same outcome, same texts sent, and they end in worlds with the same
  catalog.
\<close>

definition agree :: "world \<Rightarrow> world \<Rightarrow> 'a \<times> world \<Rightarrow> 'a \<times> world \<Rightarrow> bool" where
  "agree w w' r r' =
     (fst r = fst r' \<and> same_catalog (snd r) (snd r') \<and>
      prefix (issued w) (issued (snd r)) \<and> prefix (issued w') (issued (snd r')) \<and>
      texts_sent w (snd r) = texts_sent w' (snd r'))"

text \<open>
  The default assignment as both of its callers run it: the templates, and when that
  succeeded the catalog.
\<close>

definition default_assignment :: "uuid \<Rightarrow> world \<Rightarrow> (string + unit) \<times> world" where
  "default_assignment usuario_id w =
     (case asignarPlantillasPorDefecto usuario_id w of
        (Inl e, w1) \<Rightarrow> (Inl e, w1)
      | (Inr x, w1) \<Rightarrow> asignarAplicativosPorDefecto usuario_id w1)"

text \<open>The world in which \<open>registrarUsuario\<close> starts the default assignment.\<close>

definition registered :: "world \<Rightarrow> registro_body \<Rightarrow> world" where
  "registered w b =
     w\<lparr>drawn := Suc (drawn w),
       issued := issued w @
         [\<lparr>sql = ''SELECT id FROM usuarios WHERE email = $1'', bound = [rb_email b]\<rparr>,
          \<lparr>sql = ''INSERT INTO usuarios (id, nombre, email, contrasena) VALUES ($1, $2, $3, $4)'',
           bound = [Some (uuids w (drawn w)), rb_nombre b, rb_email b, rb_contrasena b]\<rparr>],
       db := (db w)\<lparr>usuarios := usuarios (db w) @
                [\<lparr>u_id = uuids w (drawn w), u_nombre = rb_nombre b, u_email = rb_email b,
                  u_contrasena = rb_contrasena b\<rparr>]\<rparr>\<rparr>"

text \<open>Of two lists of texts one continues the other.\<close>

definition comparable :: "string list \<Rightarrow> string list \<Rightarrow> bool" where
  "comparable xs ys = (prefix xs ys \<or> prefix ys xs)"

section \<open>Notions used in the properties\<close>

text \<open>The \<open>token\<close> property of a response body, when it has one.\<close>

definition token_of :: "response \<Rightarrow> json option" where
  "token_of r = (case body r of JObject kvs \<Rightarrow> map_of kvs ''token'' | _ \<Rightarrow> None)"


text \<open>Some row of \<open>usuarios\<close> carries the email.\<close>

definition email_registered :: "database \<Rightarrow> string option \<Rightarrow> bool" where
  "email_registered d e = (\<exists>u \<in> set (usuarios d). sql_eq (u_email u) e)"

text \<open>The \<open>novedad\<close> values of the objects in a returned array.\<close>

definition returned_novedades :: "response \<Rightarrow> json list" where
  "returned_novedades r =
     (case body r of
        JArray items \<Rightarrow>
          concat (map (\<lambda>i. case i of
                              JObject kvs \<Rightarrow> (case map_of kvs ''novedad'' of Some v \<Rightarrow> [v] | None \<Rightarrow> [])
                            | _ \<Rightarrow> []) items)
      | _ \<Rightarrow> [])"

text \<open>
  A template that holds a progress note and nothing else (\<open>esNotaAvancesPura\<close> in
  \<open>eliminarNota\<close>).
\<close>

definition avances_only :: "plantilla_base \<Rightarrow> bool" where
  "avances_only b =
     (trim_truthy (pb_nota_avances b) \<and> \<not> trim_truthy (pb_nota_publica b) \<and>
      \<not> trim_truthy (pb_nota_interna b) \<and> \<not> trim_truthy (pb_plantilla b))"

text \<open>The relation row is the last reference to its base row: no other row points there.\<close>

definition last_nota_reference :: "database \<Rightarrow> nota_despacho_rel \<Rightarrow> bool" where
  "last_nota_reference d r =
     (\<forall>x \<in> set (notas_despacho_rel d). ndr_plantilla_id x = ndr_plantilla_id r \<longrightarrow> x = r)"

definition last_aplicativo_reference :: "database \<Rightarrow> aplicativo_rel \<Rightarrow> bool" where
  "last_aplicativo_reference d r =
     (\<forall>x \<in> set (aplicativos_rel d). ar_aplicativo_base_id x = ar_aplicativo_base_id r \<longrightarrow> x = r)"

text \<open>
  The identifiers are keys of their tables, the relation row is in its table, and the base
  row it points to is in its table.
\<close>

definition nota_in_tables :: "database \<Rightarrow> nota_despacho_rel \<Rightarrow> plantilla_base \<Rightarrow> bool" where
  "nota_in_tables d r b =
     (distinct (map ndr_id (notas_despacho_rel d)) \<and> distinct (map pb_id (plantillas_base d)) \<and>
      r \<in> set (notas_despacho_rel d) \<and> b \<in> set (plantillas_base d) \<and>
      pb_id b = ndr_plantilla_id r \<and> ndr_id r \<noteq> [])"

definition aplicativo_in_tables :: "database \<Rightarrow> aplicativo_rel \<Rightarrow> aplicativo_base \<Rightarrow> bool" where
  "aplicativo_in_tables d r b =
     (distinct (map ar_id (aplicativos_rel d)) \<and> distinct (map ab_id (aplicativos_base d)) \<and>
      r \<in> set (aplicativos_rel d) \<and> b \<in> set (aplicativos_base d) \<and>
      ab_id b = ar_aplicativo_base_id r \<and> ar_id r \<noteq> [])"

section \<open>Example data\<close>

definition example_jwt :: jsonwebtoken where
  "example_jwt =
     \<lparr>jwt_sign = (\<lambda>p secret expires.
          p_id p @ ''.'' @ (case p_email p of None \<Rightarrow> [] | Some e \<Rightarrow> e) @ ''.'' @ secret @ ''.'' @ expires),
      jwt_verify = (\<lambda>token secret.
          if token = ''good'' then Decoded \<lparr>p_id = ''u1'', p_email = Some ''ana@b2b.co''\<rparr>
          else if token = ''old'' then Throws ''TokenExpiredError''
          else Throws ''JsonWebTokenError'')\<rparr>"

definition idle_world :: "database \<Rightarrow> world" where
  "idle_world d =
     \<lparr>db = d, issued = [], faults = (\<lambda>k. None),
      uuids = (\<lambda>n. ''fresh-'' @ replicate n (CHR ''i'')), drawn = 0, now = 0,
      count_as_text = False\<rparr>"

definition ana :: usuario where
  "ana = \<lparr>u_id = ''u1'', u_nombre = Some ''Ana'', u_email = Some ''ana@b2b.co'',
           u_contrasena = Some ''clave''\<rparr>"

definition one_user_db :: database where
  "one_user_db =
     \<lparr>usuarios = [ana], aplicativos_base = [], aplicativos_rel = [],
      plantillas_base = [], notas_despacho_rel = []\<rparr>"

text \<open>The status with which the middleware answered, when it did not call \<open>next()\<close>.\<close>

definition answered :: "middleware_result \<Rightarrow> nat option" where
  "answered m = (case m of Next p \<Rightarrow> None | Respond r \<Rightarrow> Some (status r))"

text \<open>
  The header is present, splits at the spaces into exactly two parts, and the first part
  is \<open>bearer\<close> in any casing; the second part is then the token.
\<close>

definition bearer_format :: "string option \<Rightarrow> bool" where
  "bearer_format authHeader =
     (\<not> falsy authHeader \<and> length (split_on (CHR '' '') (the authHeader)) = 2 \<and>
      toLowerCase (split_on (CHR '' '') (the authHeader) ! 0) = ''bearer'')"

definition bearer_token :: "string option \<Rightarrow> string" where
  "bearer_token authHeader = split_on (CHR '' '') (the authHeader) ! 1"

definition example_gemini :: generate_content where
  "example_gemini = (\<lambda>ai request. Inr (Some '' Texto corregido. ''))"

definition html_mail :: mail_body where
  "html_mail = \<lparr>mb_para = Some ''noc@b2b.co'', mb_cc = None, mb_asunto = Some ''Cierre'',
                 mb_mensaje = Some ''<p>Hola <b>Ana</b></p>''\<rparr>"

definition plain_mail :: mail_body where
  "plain_mail = \<lparr>mb_para = Some ''noc@b2b.co'', mb_cc = Some '''', mb_asunto = Some ''Cierre'',
                  mb_mensaje = Some [CHR ''a'', CHR 0x0A, CHR ''b'']\<rparr>"

definition incomplete_mail :: mail_body where
  "incomplete_mail = \<lparr>mb_para = Some ''noc@b2b.co'', mb_cc = None, mb_asunto = Some '''',
                       mb_mensaje = Some ''Hola''\<rparr>"

definition failing_world :: "database \<Rightarrow> nat \<Rightarrow> string \<Rightarrow> world" where
  "failing_world d k msg = (idle_world d)\<lparr>faults := (\<lambda>i. if i = k then Some msg else None)\<rparr>"

definition bea_body :: registro_body where
  "bea_body = \<lparr>rb_nombre = Some ''Bea'', rb_email = Some ''bea@b2b.co'',
                rb_contrasena = Some ''otra''\<rparr>"

text \<open>
  Two users share the template \<open>p1\<close> and the template \<open>p2\<close>, which has a progress note
  and nothing else, and the catalog entry \<open>a1\<close>.
\<close>

definition bea :: usuario where
  "bea = \<lparr>u_id = ''u2'', u_nombre = Some ''Bea'', u_email = Some ''bea@b2b.co'',
           u_contrasena = Some ''otra''\<rparr>"

definition shared_db :: database where
  "shared_db =
     \<lparr>usuarios = [ana, bea],
      aplicativos_base =
        [\<lparr>ab_id = ''a1'', ab_nombre = Some ''Gmail'', ab_url = Some ''https://mail.google.com'',
          ab_categoria = Some ''Correo''\<rparr>],
      aplicativos_rel =
        [\<lparr>ar_id = ''r1'', ar_usuario_id = ''u1'', ar_aplicativo_base_id = ''a1'', ar_creado_en = 1\<rparr>,
         \<lparr>ar_id = ''r2'', ar_usuario_id = ''u2'', ar_aplicativo_base_id = ''a1'', ar_creado_en = 2\<rparr>],
      plantillas_base =
        [\<lparr>pb_id = ''p1'', pb_novedad = Some ''Bienvenida'', pb_nota_publica = Some ''Hola'',
          pb_nota_interna = Some ''Interna'', pb_nota_avances = Some '''',
          pb_plantilla = Some ''Plantilla de bienvenida''\<rparr>,
         \<lparr>pb_id = ''p2'', pb_novedad = Some ''aVance'', pb_nota_publica = Some '''',
          pb_nota_interna = Some '''', pb_nota_avances = Some ''Avance del dia'',
          pb_plantilla = Some ''''\<rparr>],
      notas_despacho_rel =
        [\<lparr>ndr_id = ''n1'', ndr_usuario_id = ''u1'', ndr_plantilla_id = ''p1'', ndr_creado_en = 1\<rparr>,
         \<lparr>ndr_id = ''n2'', ndr_usuario_id = ''u2'', ndr_plantilla_id = ''p1'', ndr_creado_en = 2\<rparr>,
         \<lparr>ndr_id = ''n3'', ndr_usuario_id = ''u1'', ndr_plantilla_id = ''p2'', ndr_creado_en = 3\<rparr>,
         \<lparr>ndr_id = ''n4'', ndr_usuario_id = ''u2'', ndr_plantilla_id = ''p2'', ndr_creado_en = 4\<rparr>]\<rparr>"

definition nota_named :: "string \<Rightarrow> nota_body" where
  "nota_named n =
     \<lparr>nb_usuario_id = Some ''u1'', nb_novedad = Some n, nb_nota_publica = Some ''Texto'',
      nb_nota_interna = None, nb_nota_avances = None, nb_plantilla = None\<rparr>"

definition n1_row :: nota_despacho_rel where
  "n1_row = \<lparr>ndr_id = ''n1'', ndr_usuario_id = ''u1'', ndr_plantilla_id = ''p1'', ndr_creado_en = 1\<rparr>"

definition n3_row :: nota_despacho_rel where
  "n3_row = \<lparr>ndr_id = ''n3'', ndr_usuario_id = ''u1'', ndr_plantilla_id = ''p2'', ndr_creado_en = 3\<rparr>"

definition p1_row :: plantilla_base where
  "p1_row = \<lparr>pb_id = ''p1'', pb_novedad = Some ''Bienvenida'', pb_nota_publica = Some ''Hola'',
          pb_nota_interna = Some ''Interna'', pb_nota_avances = Some '''',
          pb_plantilla = Some ''Plantilla de bienvenida''\<rparr>"

definition p2_row :: plantilla_base where
  "p2_row = \<lparr>pb_id = ''p2'', pb_novedad = Some ''aVance'', pb_nota_publica = Some '''',
          pb_nota_interna = Some '''', pb_nota_avances = Some ''Avance del dia'',
          pb_plantilla = Some ''''\<rparr>"

definition r1_row :: aplicativo_rel where
  "r1_row = \<lparr>ar_id = ''r1'', ar_usuario_id = ''u1'', ar_aplicativo_base_id = ''a1'', ar_creado_en = 1\<rparr>"

definition a1_row :: aplicativo_base where
  "a1_row = \<lparr>ab_id = ''a1'', ab_nombre = Some ''Gmail'', ab_url = Some ''https://mail.google.com'',
          ab_categoria = Some ''Correo''\<rparr>"

text \<open>The same tables after the second user has dropped the catalog entry.\<close>

definition solo_db :: database where
  "solo_db = shared_db\<lparr>aplicativos_rel := [r1_row]\<rparr>"

section \<open>Verified properties\<close>

subsection \<open>Lists filtered down to at most one row\<close>

lemma filter_le1_cases:
  assumes "length (filter P xs) \<le> 1"
  shows "filter P xs = [] \<or> (\<exists>x. filter P xs = [x])"
  using assms by (cases "filter P xs") (auto simp: length_Suc_conv)

lemma filter_single_mem:
  assumes "filter P xs = [x]"
  shows "x \<in> set xs \<and> P x \<and> (\<forall>y\<in>set xs. P y \<longrightarrow> y = x)"
proof -
  have "set (filter P xs) = {x}" using assms by simp
  then show ?thesis by auto
qed

subsection \<open>loginUsuario\<close>



subsection \<open>verificarToken\<close>

lemma lower_bearer:
  "toLowerCase ''Bearer'' = ''bearer''" "toLowerCase ''bearer'' = ''bearer''"
  "toLowerCase ''BEARER'' = ''bearer''" "toLowerCase ''Token'' \<noteq> ''bearer''"
  by code_simp+

text \<open>
  Claim C5. \<open>verificarToken\<close> calls \<open>next()\<close>, with \<open>req.usuario\<close> set to the decoded
  payload, exactly when the Authorization header is present, splits into two parts of
  which the first is \<open>bearer\<close> in any casing, the secret is configured and the token
  verifies against it. A missing header, a malformed header and an expired token are
  answered with 401, an invalid signature with 403, and whenever the middleware answers
  by itself a protected route returns that answer whatever its handler is, with the world
  untouched: the handler is not run.
\<close>

theorem verificarToken_gate:
  "(verificarToken lib S h = Next p \<longleftrightarrow>
      bearer_format h \<and> \<not> falsy S \<and> jwt_verify lib (bearer_token h) (the S) = Decoded p)
   \<and> (falsy h \<longrightarrow> answered (verificarToken lib S h) = Some 401)
   \<and> (\<not> bearer_format h \<longrightarrow> answered (verificarToken lib S h) = Some 401)
   \<and> (bearer_format h \<and> \<not> falsy S \<and>
        jwt_verify lib (bearer_token h) (the S) = Throws ''TokenExpiredError'' \<longrightarrow>
          answered (verificarToken lib S h) = Some 401)
   \<and> (bearer_format h \<and> \<not> falsy S \<and>
        jwt_verify lib (bearer_token h) (the S) = Throws ''JsonWebTokenError'' \<longrightarrow>
          answered (verificarToken lib S h) = Some 403)
   \<and> (\<forall>r. verificarToken lib S h = Respond r \<longrightarrow>
          (\<forall>handler. protected_route lib S handler h w = (r, w)))"
  by (auto simp: verificarToken_def bearer_format_def bearer_token_def answered_def Let_def
        res_status_json_def protected_route_def split: verify_result.splits)

theorem verificarToken_gate_witness:
  "verificarToken example_jwt (Some ''k'') (Some ''Bearer good'')
     = Next \<lparr>p_id = ''u1'', p_email = Some ''ana@b2b.co''\<rparr>
   \<and> answered (verificarToken example_jwt (Some ''k'') None) = Some 401
   \<and> answered (verificarToken example_jwt (Some ''k'') (Some ''Token good'')) = Some 401
   \<and> answered (verificarToken example_jwt (Some ''k'') (Some ''bearer old'')) = Some 401
   \<and> answered (verificarToken example_jwt (Some ''k'') (Some ''BEARER forged'')) = Some 403
   \<and> protected_route example_jwt (Some ''k'') (\<lambda>p w. (res_json JNull, w\<lparr>drawn := 7\<rparr>))
        None (idle_world one_user_db)
      = (res_status_json 401 (JObject [(''mensaje'', JString ''Token no proporcionado'')]),
         idle_world one_user_db)"
proof -
  have key: "\<not> falsy (Some ''k'')" by (simp add: falsy_def)
  have none: "falsy None" by (simp add: falsy_def)
  have f1: "bearer_format (Some ''Bearer good'')"
    and f2: "\<not> bearer_format (Some ''Token good'')"
    and f3: "bearer_format (Some ''bearer old'')"
    and f4: "bearer_format (Some ''BEARER forged'')"
    by (simp_all add: bearer_format_def falsy_def lower_bearer)
  have v1: "jwt_verify example_jwt (bearer_token (Some ''Bearer good'')) (the (Some ''k''))
              = Decoded \<lparr>p_id = ''u1'', p_email = Some ''ana@b2b.co''\<rparr>"
    and v3: "jwt_verify example_jwt (bearer_token (Some ''bearer old'')) (the (Some ''k''))
              = Throws ''TokenExpiredError''"
    and v4: "jwt_verify example_jwt (bearer_token (Some ''BEARER forged'')) (the (Some ''k''))
              = Throws ''JsonWebTokenError''"
    by (simp_all add: bearer_token_def example_jwt_def)
  have r: "verificarToken example_jwt (Some ''k'') None
             = Respond (res_status_json 401
                 (JObject [(''mensaje'', JString ''Token no proporcionado'')]))"
    by (simp add: verificarToken_def falsy_def)
  note g = verificarToken_gate[of example_jwt "Some ''k''"]
  from g[of "Some ''Bearer good''"] f1 key v1
  have c1: "verificarToken example_jwt (Some ''k'') (Some ''Bearer good'')
              = Next \<lparr>p_id = ''u1'', p_email = Some ''ana@b2b.co''\<rparr>" by blast
  from g[of None] none
  have c2: "answered (verificarToken example_jwt (Some ''k'') None) = Some 401" by blast
  from g[of "Some ''Token good''"] f2
  have c3: "answered (verificarToken example_jwt (Some ''k'') (Some ''Token good'')) = Some 401"
    by blast
  from g[of "Some ''bearer old''"] f3 key v3
  have c4: "answered (verificarToken example_jwt (Some ''k'') (Some ''bearer old'')) = Some 401"
    by blast
  from g[of "Some ''BEARER forged''"] f4 key v4
  have c5: "answered (verificarToken example_jwt (Some ''k'') (Some ''BEARER forged'')) = Some 403"
    by blast
  from g[of None _ "idle_world one_user_db"] r
  have c6: "protected_route example_jwt (Some ''k'') (\<lambda>p w. (res_json JNull, w\<lparr>drawn := 7\<rparr>))
        None (idle_world one_user_db)
      = (res_status_json 401 (JObject [(''mensaje'', JString ''Token no proporcionado'')]),
         idle_world one_user_db)" by blast
  from c1 c2 c3 c4 c5 c6 show ?thesis by blast
qed

subsection \<open>Stripping tags and breaking lines\<close>

lemma set_tl_subset: "set (tl xs) \<subseteq> set xs"
  by (cases xs) auto

lemma set_tl_dropWhile: "set (tl (dropWhile P cs)) \<subseteq> set cs"
proof -
  have "set (tl (dropWhile P cs)) \<subseteq> set (dropWhile P cs)"
    by (rule set_tl_subset)
  also have "\<dots> \<subseteq> set cs" by (auto dest: set_dropWhileD)
  finally show ?thesis .
qed

lemma strip_tags_Cons:
  "c = CHR ''<'' \<and> CHR ''>'' \<in> set cs \<Longrightarrow>
     strip_tags (c # cs) = strip_tags (tl (dropWhile (\<lambda>x. x \<noteq> CHR ''>'') cs))"
  "\<not> (c = CHR ''<'' \<and> CHR ''>'' \<in> set cs) \<Longrightarrow> strip_tags (c # cs) = c # strip_tags cs"
  by (cases "c = CHR ''<''"; simp)+

lemma set_strip_tags: "set (strip_tags s) \<subseteq> set s"
proof (induction s rule: strip_tags.induct)
  case 1
  show ?case by simp
next
  case (2 c cs)
  show ?case
  proof (cases "c = CHR ''<'' \<and> CHR ''>'' \<in> set cs")
    case True
    from 2(1)[OF True] set_tl_dropWhile[of "\<lambda>x. x \<noteq> CHR ''>''" cs]
    have "set (strip_tags (tl (dropWhile (\<lambda>x. x \<noteq> CHR ''>'') cs))) \<subseteq> set cs" by blast
    then show ?thesis unfolding strip_tags_Cons(1)[OF True] by auto
  next
    case False
    from 2(2)[OF False] show ?thesis unfolding strip_tags_Cons(2)[OF False] by auto
  qed
qed

text \<open>No complete tag is left after stripping.\<close>

lemma strip_tags_no_tag: "\<not> has_tag (strip_tags s)"
proof (induction s rule: strip_tags.induct)
  case 1
  show ?case by simp
next
  case (2 c cs)
  show ?case
  proof (cases "c = CHR ''<'' \<and> CHR ''>'' \<in> set cs")
    case True
    from 2(1)[OF True] show ?thesis unfolding strip_tags_Cons(1)[OF True] .
  next
    case False
    from 2(2)[OF False] have ih: "\<not> has_tag (strip_tags cs)" .
    from False set_strip_tags[of cs]
    have "\<not> (c = CHR ''<'' \<and> CHR ''>'' \<in> set (strip_tags cs))" by blast
    with ih show ?thesis unfolding strip_tags_Cons(2)[OF False] by simp
  qed
qed

lemma nl2br_no_newline: "CHR 0x0A \<notin> set (nl2br s)"
  by (induction s) (auto simp: nl2br_def)

subsection \<open>enviarCorreo\<close>

text \<open>
  Claim C7. When \<open>para\<close>, \<open>asunto\<close> or \<open>mensaje\<close> is absent, \<open>enviarCorreo\<close> answers 400 and
  hands no message to the transporter. Otherwise it hands over exactly one message. If
  the text contains both \<open><\<close> and \<open>>\<close> the HTML part is the text itself and the plain
  part is the text with its tags stripped, in which no complete tag is left; if not, the
  plain part is the text itself and the HTML part is the text with every newline replaced
  by \<open><br>\<close>, in which no newline is left.
\<close>

theorem enviarCorreo_one_message:
  "(falsy (mb_para b) \<or> falsy (mb_asunto b) \<or> falsy (mb_mensaje b) \<longrightarrow>
      status (fst (enviarCorreo SMTP_USER sendMail files b)) = 400 \<and>
      snd (enviarCorreo SMTP_USER sendMail files b) = [])
   \<and> (\<not> falsy (mb_para b) \<and> \<not> falsy (mb_asunto b) \<and> \<not> falsy (mb_mensaje b) \<longrightarrow>
      (\<exists>m. snd (enviarCorreo SMTP_USER sendMail files b) = [m] \<and>
        (if CHR ''<'' \<in> set (the (mb_mensaje b)) \<and> CHR ''>'' \<in> set (the (mb_mensaje b))
         then mo_html m = the (mb_mensaje b) \<and> mo_text m = strip_tags (the (mb_mensaje b)) \<and>
              \<not> has_tag (mo_text m)
         else mo_html m = nl2br (the (mb_mensaje b)) \<and> mo_text m = the (mb_mensaje b) \<and>
              CHR 0x0A \<notin> set (mo_html m))))"
proof (cases "falsy (mb_para b) \<or> falsy (mb_asunto b) \<or> falsy (mb_mensaje b)")
  case True
  then show ?thesis by (auto simp: enviarCorreo_def res_status_json_def)
next
  case False
  then show ?thesis
    by (cases "sendMail
          \<lparr>mo_from = SMTP_USER, mo_to = the (mb_para b),
             mo_cc = (if falsy (mb_cc b) then None else mb_cc b),
             mo_subject = the (mb_asunto b),
             mo_text = (if CHR ''<'' \<in> set (the (mb_mensaje b)) \<and> CHR ''>'' \<in> set (the (mb_mensaje b))
                        then strip_tags (the (mb_mensaje b)) else the (mb_mensaje b)),
             mo_html = (if CHR ''<'' \<in> set (the (mb_mensaje b)) \<and> CHR ''>'' \<in> set (the (mb_mensaje b))
                        then the (mb_mensaje b) else nl2br (the (mb_mensaje b))),
             mo_attachments = map (\<lambda>file. \<lparr>filename = originalname file, content = buffer file,
                                             contentType = mimetype file\<rparr>) files\<rparr>")
       (simp_all add: enviarCorreo_def Let_def str_includes_def strip_tags_no_tag
          nl2br_no_newline del: strip_tags.simps)
qed

theorem enviarCorreo_one_message_witness:
  "snd (enviarCorreo (Some ''siged@b2b.co'') (\<lambda>m. Inr ''id-1'') [] incomplete_mail) = []
   \<and> status (fst (enviarCorreo (Some ''siged@b2b.co'') (\<lambda>m. Inr ''id-1'') [] incomplete_mail)) = 400
   \<and> (\<exists>m. snd (enviarCorreo (Some ''siged@b2b.co'') (\<lambda>m. Inr ''id-1'') [] html_mail) = [m] \<and>
          mo_html m = ''<p>Hola <b>Ana</b></p>'' \<and> mo_text m = ''Hola Ana'')
   \<and> (\<exists>m. snd (enviarCorreo (Some ''siged@b2b.co'') (\<lambda>m. Inr ''id-1'') [] plain_mail) = [m] \<and>
          mo_html m = ''a<br>b'' \<and> mo_text m = [CHR ''a'', CHR 0x0A, CHR ''b''])"
proof -
  note t = enviarCorreo_one_message[of _ "Some ''siged@b2b.co''" "\<lambda>m. Inr ''id-1''" "[]"]
  have i: "falsy (mb_para incomplete_mail) \<or> falsy (mb_asunto incomplete_mail) \<or>
           falsy (mb_mensaje incomplete_mail)"
    by (simp add: incomplete_mail_def falsy_def)
  have h: "\<not> falsy (mb_para html_mail) \<and> \<not> falsy (mb_asunto html_mail) \<and>
           \<not> falsy (mb_mensaje html_mail)"
    by (simp add: html_mail_def falsy_def)
  have p: "\<not> falsy (mb_para plain_mail) \<and> \<not> falsy (mb_asunto plain_mail) \<and>
           \<not> falsy (mb_mensaje plain_mail)"
    by (simp add: plain_mail_def falsy_def)
  have hm: "the (mb_mensaje html_mail) = ''<p>Hola <b>Ana</b></p>''"
    and pm: "the (mb_mensaje plain_mail) = [CHR ''a'', CHR 0x0A, CHR ''b'']"
    by (simp_all add: html_mail_def plain_mail_def)
  have st: "strip_tags ''<p>Hola <b>Ana</b></p>'' = ''Hola Ana''" by simp
  have br: "nl2br [CHR ''a'', CHR 0x0A, CHR ''b''] = ''a<br>b''" by (simp add: nl2br_def)
  from t[of incomplete_mail] i
  have c1: "status (fst (enviarCorreo (Some ''siged@b2b.co'') (\<lambda>m. Inr ''id-1'') []
              incomplete_mail)) = 400 \<and>
            snd (enviarCorreo (Some ''siged@b2b.co'') (\<lambda>m. Inr ''id-1'') [] incomplete_mail) = []"
    by blast
  from t[of html_mail] h
  have "\<exists>m. snd (enviarCorreo (Some ''siged@b2b.co'') (\<lambda>m. Inr ''id-1'') [] html_mail) = [m] \<and>
        (if CHR ''<'' \<in> set (the (mb_mensaje html_mail)) \<and>
            CHR ''>'' \<in> set (the (mb_mensaje html_mail))
         then mo_html m = the (mb_mensaje html_mail) \<and>
              mo_text m = strip_tags (the (mb_mensaje html_mail)) \<and> \<not> has_tag (mo_text m)
         else mo_html m = nl2br (the (mb_mensaje html_mail)) \<and>
              mo_text m = the (mb_mensaje html_mail) \<and> CHR 0x0A \<notin> set (mo_html m))"
    by blast
  then have c2: "\<exists>m. snd (enviarCorreo (Some ''siged@b2b.co'') (\<lambda>m. Inr ''id-1'') [] html_mail) = [m] \<and>
          mo_html m = ''<p>Hola <b>Ana</b></p>'' \<and> mo_text m = ''Hola Ana''"
    unfolding hm st by (auto simp del: strip_tags.simps simp add: st)
  from t[of plain_mail] p
  have "\<exists>m. snd (enviarCorreo (Some ''siged@b2b.co'') (\<lambda>m. Inr ''id-1'') [] plain_mail) = [m] \<and>
        (if CHR ''<'' \<in> set (the (mb_mensaje plain_mail)) \<and>
            CHR ''>'' \<in> set (the (mb_mensaje plain_mail))
         then mo_html m = the (mb_mensaje plain_mail) \<and>
              mo_text m = strip_tags (the (mb_mensaje plain_mail)) \<and> \<not> has_tag (mo_text m)
         else mo_html m = nl2br (the (mb_mensaje plain_mail)) \<and>
              mo_text m = the (mb_mensaje plain_mail) \<and> CHR 0x0A \<notin> set (mo_html m))"
    by blast
  then have c3: "\<exists>m. snd (enviarCorreo (Some ''siged@b2b.co'') (\<lambda>m. Inr ''id-1'') [] plain_mail) = [m] \<and>
          mo_html m = ''a<br>b'' \<and> mo_text m = [CHR ''a'', CHR 0x0A, CHR ''b'']"
    unfolding pm br by (auto simp add: br)
  from c1 c2 c3 show ?thesis by blast
qed

subsection \<open>aiController\<close>

text \<open>
  Claim C10. Loading \<open>aiController\<close> without \<open>GEMINI_API_KEY\<close> throws, so nothing is
  exported. Whenever the module does load, the key is present, the exported handlers are
  closed over the client built from it, and a request without \<open>texto\<close> (for
  \<open>mejorarTextoChatGPT\<close>) or without \<open>base64Image\<close> or \<open>mimeType\<close> (for
  \<open>extraerTextoImagen\<close>) is answered with 400 and no request to the external service.
\<close>

theorem aiController_requires_key:
  "(falsy GEMINI_API_KEY \<longrightarrow>
      aiController generateContent GEMINI_API_KEY
        = Inl ''GEMINI_API_KEY is missing. Check your .env file.'')
   \<and> (\<forall>m. aiController generateContent GEMINI_API_KEY = Inr m \<longrightarrow>
         \<not> falsy GEMINI_API_KEY
       \<and> exported_mejorarTextoChatGPT m
           = mejorarTextoChatGPT generateContent (GoogleGenAI (the GEMINI_API_KEY))
       \<and> exported_extraerTextoImagen m
           = extraerTextoImagen generateContent (GoogleGenAI (the GEMINI_API_KEY))
       \<and> (\<forall>b. falsy (tb_texto b) \<longrightarrow>
             status (fst (exported_mejorarTextoChatGPT m b)) = 400 \<and>
             snd (exported_mejorarTextoChatGPT m b) = [])
       \<and> (\<forall>b. falsy (ib_base64Image b) \<or> falsy (ib_mimeType b) \<longrightarrow>
             status (fst (exported_extraerTextoImagen m b)) = 400 \<and>
             snd (exported_extraerTextoImagen m b) = []))"
  by (auto simp: aiController_def Let_def mejorarTextoChatGPT_def extraerTextoImagen_def
        res_status_json_def)

theorem aiController_requires_key_witness:
  "aiController example_gemini None = Inl ''GEMINI_API_KEY is missing. Check your .env file.''
   \<and> (\<exists>m. aiController example_gemini (Some ''k'') = Inr m \<and>
        status (fst (exported_mejorarTextoChatGPT m \<lparr>tb_texto = None, tb_modo = None\<rparr>)) = 400 \<and>
        snd (exported_mejorarTextoChatGPT m \<lparr>tb_texto = None, tb_modo = None\<rparr>) = [] \<and>
        status (fst (exported_extraerTextoImagen m
                  \<lparr>ib_base64Image = Some ''aGk='', ib_mimeType = None\<rparr>)) = 400 \<and>
        snd (exported_extraerTextoImagen m
                  \<lparr>ib_base64Image = Some ''aGk='', ib_mimeType = None\<rparr>) = [])"
proof -
  have n: "falsy None" by (simp add: falsy_def)
  have e: "\<exists>m. aiController example_gemini (Some ''k'') = Inr m"
    by (simp add: aiController_def falsy_def Let_def)
  have b1: "falsy (tb_texto \<lparr>tb_texto = None, tb_modo = None\<rparr>)" by (simp add: falsy_def)
  have b2: "falsy (ib_base64Image \<lparr>ib_base64Image = Some ''aGk='', ib_mimeType = None\<rparr>) \<or>
            falsy (ib_mimeType \<lparr>ib_base64Image = Some ''aGk='', ib_mimeType = None\<rparr>)"
    by (simp add: falsy_def)
  from aiController_requires_key[of None example_gemini] n
  have c1: "aiController example_gemini None
              = Inl ''GEMINI_API_KEY is missing. Check your .env file.''" by blast
  from aiController_requires_key[of "Some ''k''" example_gemini] e b1 b2
  have c2: "\<exists>m. aiController example_gemini (Some ''k'') = Inr m \<and>
        status (fst (exported_mejorarTextoChatGPT m \<lparr>tb_texto = None, tb_modo = None\<rparr>)) = 400 \<and>
        snd (exported_mejorarTextoChatGPT m \<lparr>tb_texto = None, tb_modo = None\<rparr>) = [] \<and>
        status (fst (exported_extraerTextoImagen m
                  \<lparr>ib_base64Image = Some ''aGk='', ib_mimeType = None\<rparr>)) = 400 \<and>
        snd (exported_extraerTextoImagen m
                  \<lparr>ib_base64Image = Some ''aGk='', ib_mimeType = None\<rparr>) = []"
    by blast
  from c1 c2 show ?thesis by blast
qed

subsection \<open>registrarUsuario\<close>

lemma usuarios_aplicativos_loop:
  "usuarios (db (snd (crearAplicativosBasePorDefecto_loop xs w))) = usuarios (db w)"
  by (induction xs w rule: crearAplicativosBasePorDefecto_loop.induct)
     (simp_all add: pool_query_def uuidv4_def Let_def split: option.splits prod.splits sum.splits)

lemma usuarios_plantillas_loop:
  "usuarios (db (snd (crearPlantillasBasePorDefecto_loop xs w))) = usuarios (db w)"
  by (induction xs w rule: crearPlantillasBasePorDefecto_loop.induct)
     (simp_all add: pool_query_def uuidv4_def Let_def split: option.splits prod.splits sum.splits)

lemma usuarios_asignar_aplicativos_loop:
  "usuarios (db (snd (asignarAplicativosPorDefecto_loop u xs w))) = usuarios (db w)"
  by (induction u xs w rule: asignarAplicativosPorDefecto_loop.induct)
     (simp_all add: pool_query_def uuidv4_def Let_def split: option.splits prod.splits sum.splits)

lemma usuarios_asignar_plantillas_loop:
  "usuarios (db (snd (asignarPlantillasPorDefecto_loop u xs w))) = usuarios (db w)"
  by (induction u xs w rule: asignarPlantillasPorDefecto_loop.induct)
     (simp_all add: pool_query_def uuidv4_def Let_def split: option.splits prod.splits sum.splits)

lemma usuarios_crearAplicativos:
  "usuarios (db (snd (crearAplicativosBasePorDefecto w))) = usuarios (db w)"
  by (simp add: crearAplicativosBasePorDefecto_def pool_query_def select_def Let_def
        usuarios_aplicativos_loop split: option.splits)

lemma usuarios_crearPlantillas:
  "usuarios (db (snd (crearPlantillasBasePorDefecto w))) = usuarios (db w)"
  by (simp add: crearPlantillasBasePorDefecto_def pool_query_def select_def Let_def
        usuarios_plantillas_loop split: option.splits)

lemma usuarios_asignarAplicativos:
  "usuarios (db (snd (asignarAplicativosPorDefecto u w))) = usuarios (db w)"
proof -
  obtain r w1 where c: "crearAplicativosBasePorDefecto w = (r, w1)" by (cases "crearAplicativosBasePorDefecto w")
  have u1: "usuarios (db w1) = usuarios (db w)" using usuarios_crearAplicativos[of w] c by simp
  show ?thesis using c u1
    by (cases r) (simp_all add: asignarAplicativosPorDefecto_def pool_query_def select_def Let_def
        usuarios_asignar_aplicativos_loop split: option.splits)
qed

lemma usuarios_asignarPlantillas:
  "usuarios (db (snd (asignarPlantillasPorDefecto u w))) = usuarios (db w)"
proof -
  obtain r w1 where c: "crearPlantillasBasePorDefecto w = (r, w1)" by (cases "crearPlantillasBasePorDefecto w")
  have u1: "usuarios (db w1) = usuarios (db w)" using usuarios_crearPlantillas[of w] c by simp
  show ?thesis using c u1
    by (cases r) (simp_all add: asignarPlantillasPorDefecto_def pool_query_def select_def Let_def
        usuarios_asignar_plantillas_loop split: option.splits)
qed


lemma existe_empty: "(filter (\<lambda>u. sql_eq (u_email u) e) (usuarios d) = []) = (\<not> email_registered d e)"
  by (auto simp: email_registered_def filter_empty_conv)

lemma usuarios_default_assignment:
  "usuarios (db (case asignarPlantillasPorDefecto i w of
                   (Inl asignacionError, w') \<Rightarrow> w'
                 | (Inr u', w') \<Rightarrow> snd (asignarAplicativosPorDefecto j w'))) = usuarios (db w)"
proof -
  obtain r w1 where c: "asignarPlantillasPorDefecto i w = (r, w1)"
    by (cases "asignarPlantillasPorDefecto i w")
  have u1: "usuarios (db w1) = usuarios (db w)" using usuarios_asignarPlantillas[of i w] c by simp
  show ?thesis using c u1 by (cases r) (simp_all add: usuarios_asignarAplicativos)
qed

text \<open>
  Claim C8. When the duplicate check and the \<open>INSERT\<close> of the user succeed and the email
  is not yet registered, the new row is in \<open>usuarios\<close> after the run and, with the signing
  secret configured, the answer is 201 with the signed token, whatever happens to the
  statements of the default assignment: nothing is assumed about their faults. The other
  three cases are the only ones in which no row is added: the duplicate check rejects
  (500), the email is registered (400), the \<open>INSERT\<close> rejects (500).
\<close>

theorem registrarUsuario_commits:
  "(faults w (length (issued w)) = None \<and> \<not> email_registered (db w) (rb_email b) \<and>
    faults w (Suc (length (issued w))) = None \<longrightarrow>
      usuarios (db (snd (registrarUsuario lib S b w)))
        = usuarios (db w) @ [\<lparr>u_id = uuids w (drawn w), u_nombre = rb_nombre b,
                               u_email = rb_email b, u_contrasena = rb_contrasena b\<rparr>]
      \<and> (\<not> falsy S \<longrightarrow>
           fst (registrarUsuario lib S b w) =
             res_status_json 201 (JObject
               [(''mensaje'', JString ''Registro exitoso''),
                (''usuario'', JObject
                   ([(''id'', JString (uuids w (drawn w)))] @ json_property ''nombre'' (rb_nombre b)
                    @ json_property ''email'' (rb_email b))),
                (''token'', JString (jwt_sign lib
                    \<lparr>p_id = uuids w (drawn w), p_email = rb_email b\<rparr> (the S) ''8h''))])))
   \<and> (faults w (length (issued w)) \<noteq> None \<longrightarrow>
        status (fst (registrarUsuario lib S b w)) = 500 \<and>
        db (snd (registrarUsuario lib S b w)) = db w)
   \<and> (faults w (length (issued w)) = None \<and> email_registered (db w) (rb_email b) \<longrightarrow>
        status (fst (registrarUsuario lib S b w)) = 400 \<and>
        db (snd (registrarUsuario lib S b w)) = db w)
   \<and> (faults w (length (issued w)) = None \<and> \<not> email_registered (db w) (rb_email b) \<and>
      faults w (Suc (length (issued w))) \<noteq> None \<longrightarrow>
        status (fst (registrarUsuario lib S b w)) = 500 \<and>
        db (snd (registrarUsuario lib S b w)) = db w)"
proof (intro conjI impI)
  assume a: "faults w (length (issued w)) = None \<and> \<not> email_registered (db w) (rb_email b) \<and>
    faults w (Suc (length (issued w))) = None"
  show "usuarios (db (snd (registrarUsuario lib S b w)))
        = usuarios (db w) @ [\<lparr>u_id = uuids w (drawn w), u_nombre = rb_nombre b,
                               u_email = rb_email b, u_contrasena = rb_contrasena b\<rparr>]"
    using a
    by (simp add: registrarUsuario_def pool_query_def select_def uuidv4_def Let_def existe_empty
          usuarios_default_assignment split: sum.splits)
  assume k: "\<not> falsy S"
  show "fst (registrarUsuario lib S b w) =
             res_status_json 201 (JObject
               [(''mensaje'', JString ''Registro exitoso''),
                (''usuario'', JObject
                   ([(''id'', JString (uuids w (drawn w)))] @ json_property ''nombre'' (rb_nombre b)
                    @ json_property ''email'' (rb_email b))),
                (''token'', JString (jwt_sign lib
                    \<lparr>p_id = uuids w (drawn w), p_email = rb_email b\<rparr> (the S) ''8h''))])"
    using a k
    by (simp add: registrarUsuario_def pool_query_def select_def uuidv4_def Let_def existe_empty
          sign_token_def)
next
  assume "faults w (length (issued w)) \<noteq> None"
  then show "status (fst (registrarUsuario lib S b w)) = 500"
    by (auto simp: registrarUsuario_def pool_query_def Let_def res_status_json_def)
next
  assume "faults w (length (issued w)) \<noteq> None"
  then show "db (snd (registrarUsuario lib S b w)) = db w"
    by (auto simp: registrarUsuario_def pool_query_def Let_def res_status_json_def)
next
  assume a: "faults w (length (issued w)) = None \<and> email_registered (db w) (rb_email b)"
  then show "status (fst (registrarUsuario lib S b w)) = 400"
    by (simp add: registrarUsuario_def pool_query_def Let_def res_status_json_def select_def existe_empty)
next
  assume a: "faults w (length (issued w)) = None \<and> email_registered (db w) (rb_email b)"
  then show "db (snd (registrarUsuario lib S b w)) = db w"
    by (simp add: registrarUsuario_def pool_query_def Let_def res_status_json_def select_def existe_empty)
next
  assume a: "faults w (length (issued w)) = None \<and> \<not> email_registered (db w) (rb_email b) \<and>
      faults w (Suc (length (issued w))) \<noteq> None"
  then show "status (fst (registrarUsuario lib S b w)) = 500"
    by (auto simp add: registrarUsuario_def pool_query_def Let_def res_status_json_def select_def existe_empty uuidv4_def)
next
  assume a: "faults w (length (issued w)) = None \<and> \<not> email_registered (db w) (rb_email b) \<and>
      faults w (Suc (length (issued w))) \<noteq> None"
  then show "db (snd (registrarUsuario lib S b w)) = db w"
    by (auto simp add: registrarUsuario_def pool_query_def Let_def res_status_json_def select_def existe_empty uuidv4_def)
qed

theorem registrarUsuario_commits_witness:
  "status (fst (registrarUsuario example_jwt (Some ''k'') bea_body
       (failing_world one_user_db 2 ''connection lost''))) = 201
   \<and> token_of (fst (registrarUsuario example_jwt (Some ''k'') bea_body
       (failing_world one_user_db 2 ''connection lost'')))
       = Some (JString ''fresh-.bea@b2b.co.k.8h'')
   \<and> map u_email (usuarios (db (snd (registrarUsuario example_jwt (Some ''k'') bea_body
       (failing_world one_user_db 2 ''connection lost'')))))
       = [Some ''ana@b2b.co'', Some ''bea@b2b.co'']
   \<and> map sql (issued (snd (registrarUsuario example_jwt (Some ''k'') bea_body
       (failing_world one_user_db 2 ''connection lost''))))
       = [''SELECT id FROM usuarios WHERE email = $1'',
          ''INSERT INTO usuarios (id, nombre, email, contrasena) VALUES ($1, $2, $3, $4)'',
          ''SELECT COUNT(*) FROM plantillas_base'']
   \<and> notas_despacho_rel (db (snd (registrarUsuario example_jwt (Some ''k'') bea_body
       (failing_world one_user_db 2 ''connection lost'')))) = []"
proof -
  let ?w = "failing_world one_user_db 2 ''connection lost''"
  have h: "faults ?w (length (issued ?w)) = None \<and>
           \<not> email_registered (db ?w) (rb_email bea_body) \<and>
           faults ?w (Suc (length (issued ?w))) = None"
    by (simp add: failing_world_def idle_world_def one_user_db_def ana_def bea_body_def
          email_registered_def sql_eq_def)
  have k: "\<not> falsy (Some ''k'')" by (simp add: falsy_def)
  from registrarUsuario_commits[of ?w bea_body example_jwt "Some ''k''"] h k
  have r: "usuarios (db (snd (registrarUsuario example_jwt (Some ''k'') bea_body ?w)))
        = usuarios (db ?w) @ [\<lparr>u_id = uuids ?w (drawn ?w), u_nombre = rb_nombre bea_body,
                               u_email = rb_email bea_body, u_contrasena = rb_contrasena bea_body\<rparr>]"
    and f: "fst (registrarUsuario example_jwt (Some ''k'') bea_body ?w) =
             res_status_json 201 (JObject
               [(''mensaje'', JString ''Registro exitoso''),
                (''usuario'', JObject
                   ([(''id'', JString (uuids ?w (drawn ?w)))] @ json_property ''nombre'' (rb_nombre bea_body)
                    @ json_property ''email'' (rb_email bea_body))),
                (''token'', JString (jwt_sign example_jwt
                    \<lparr>p_id = uuids ?w (drawn ?w), p_email = rb_email bea_body\<rparr> (the (Some ''k'')) ''8h''))])"
    by blast+
  have c1: "status (fst (registrarUsuario example_jwt (Some ''k'') bea_body ?w)) = 201"
    unfolding f by (simp add: res_status_json_def)
  have c2: "token_of (fst (registrarUsuario example_jwt (Some ''k'') bea_body ?w))
       = Some (JString ''fresh-.bea@b2b.co.k.8h'')"
    unfolding f
    by (simp add: res_status_json_def token_of_def example_jwt_def failing_world_def
          idle_world_def bea_body_def)
  have c3: "map u_email (usuarios (db (snd (registrarUsuario example_jwt (Some ''k'') bea_body ?w))))
       = [Some ''ana@b2b.co'', Some ''bea@b2b.co'']"
    unfolding r
    by (simp add: failing_world_def idle_world_def one_user_db_def ana_def bea_body_def)
  have c4: "map sql (issued (snd (registrarUsuario example_jwt (Some ''k'') bea_body ?w)))
       = [''SELECT id FROM usuarios WHERE email = $1'',
          ''INSERT INTO usuarios (id, nombre, email, contrasena) VALUES ($1, $2, $3, $4)'',
          ''SELECT COUNT(*) FROM plantillas_base'']"
    by code_simp
  have c5: "notas_despacho_rel (db (snd (registrarUsuario example_jwt (Some ''k'') bea_body ?w))) = []"
    by code_simp
  from c1 c2 c3 c4 c5 show ?thesis by blast
qed

subsection \<open>Statements that succeed or reject\<close>

lemma pool_query_ok:
  "faults w (length (issued w)) = None \<Longrightarrow>
     pool_query t ps sem w =
       (Inr (fst (sem (db w))),
        w\<lparr>issued := issued w @ [\<lparr>sql = t, bound = ps\<rparr>], db := snd (sem (db w))\<rparr>)"
  by (simp add: pool_query_def Let_def split: prod.splits)

lemma pool_query_fail:
  "faults w (length (issued w)) = Some msg \<Longrightarrow>
     pool_query t ps sem w = (Inl msg, w\<lparr>issued := issued w @ [\<lparr>sql = t, bound = ps\<rparr>]\<rparr>)"
  by (simp add: pool_query_def Let_def)

subsection \<open>Forbidden template names\<close>

lemma agregarNota_400:
  assumes "\<not> falsy (nb_usuario_id b)" "\<not> falsy (nb_novedad b)"
  shows "status (fst (agregarNota b w)) = 400 \<longleftrightarrow>
           the (nb_novedad b) \<in> {''AVANCE'', ''avance'', ''Avance''}"
  using assms
  by (auto simp: agregarNota_def nombresIncorrectos_def Let_def pool_query_def uuidv4_def select_def
        res_status_json_def split: option.splits prod.splits sum.splits)

lemma agregarNota_stores:
  assumes "\<not> falsy (nb_usuario_id b)" "\<not> falsy (nb_novedad b)"
      and "the (nb_novedad b) \<notin> {''AVANCE'', ''avance'', ''Avance''}"
      and "\<exists>u \<in> set (usuarios (db w)). u_id u = the (nb_usuario_id b)"
      and f0: "faults w (length (issued w)) = None"
      and f1: "faults w (Suc (length (issued w))) = None"
      and f2: "faults w (Suc (Suc (length (issued w)))) = None"
  shows "status (fst (agregarNota b w)) = 201 \<and>
         plantillas_base (db (snd (agregarNota b w))) = plantillas_base (db w) @
            [\<lparr>pb_id = uuids w (drawn w), pb_novedad = nb_novedad b,
              pb_nota_publica = Some (or_else (nb_nota_publica b) []),
              pb_nota_interna = Some (or_else (nb_nota_interna b) []),
              pb_nota_avances = Some (or_else (nb_nota_avances b) []),
              pb_plantilla = Some (or_else (nb_plantilla b) [])\<rparr>]"
proof -
  have ne: "filter (\<lambda>u. u_id u = the (nb_usuario_id b)) (usuarios (db w)) \<noteq> []"
    using assms(4) by (auto simp: filter_empty_conv)
  have nov: "Some (the (nb_novedad b)) = nb_novedad b"
    using assms(2) by (auto simp: falsy_def split: option.splits)
  show ?thesis using assms(1-3) f0 f1 f2 ne nov
    by (simp add: agregarNota_def nombresIncorrectos_def Let_def pool_query_ok uuidv4_def
          select_def res_status_json_def)
qed

lemma disponibles_excludes:
  "toUpperCase n = ''AVANCE'' \<Longrightarrow>
     JString n \<notin> set (returned_novedades (fst (obtenerPlantillasDisponibles w)))"
  by (auto simp: obtenerPlantillasDisponibles_def pool_query_def Let_def select_def
        returned_novedades_def res_json_def res_status_json_def plantillas_disponibles_def
        json_of_column_def split: option.splits)

lemma disponibles_includes:
  "faults w (length (issued w)) = None \<Longrightarrow> p \<in> set (plantillas_base (db w)) \<Longrightarrow>
   pb_novedad p = Some n \<Longrightarrow> toUpperCase n \<noteq> ''AVANCE'' \<Longrightarrow>
     JString n \<in> set (returned_novedades (fst (obtenerPlantillasDisponibles w)))"
  by (force simp: obtenerPlantillasDisponibles_def pool_query_ok Let_def select_def
        returned_novedades_def res_json_def res_status_json_def plantillas_disponibles_def
        json_of_column_def split: option.splits)

lemma upper_aVance: "toUpperCase ''aVance'' = ''AVANCE''" "toUpperCase ''Bienvenida'' \<noteq> ''AVANCE''"
  by code_simp+

text \<open>
  Claim C9. For a request that carries \<open>usuario_id\<close> and \<open>novedad\<close>, \<open>agregarNota\<close> answers
  400 exactly when \<open>novedad\<close> is one of \<open>AVANCE\<close>, \<open>avance\<close>, \<open>Avance\<close>; any other name,
  whatever its casing, is stored with status 201 when the user exists and the three
  statements succeed. \<open>obtenerPlantillasDisponibles\<close> never returns a template whose
  \<open>novedad\<close> is \<open>AVANCE\<close> in upper case, and when its query succeeds it returns every
  template whose \<open>novedad\<close> is not.
\<close>

theorem agregarNota_names_and_catalog:
  "(\<not> falsy (nb_usuario_id b) \<and> \<not> falsy (nb_novedad b) \<longrightarrow>
      (status (fst (agregarNota b w)) = 400 \<longleftrightarrow>
         the (nb_novedad b) \<in> {''AVANCE'', ''avance'', ''Avance''}))
   \<and> (\<not> falsy (nb_usuario_id b) \<and> \<not> falsy (nb_novedad b) \<and>
       the (nb_novedad b) \<notin> {''AVANCE'', ''avance'', ''Avance''} \<and>
       (\<exists>u \<in> set (usuarios (db w)). u_id u = the (nb_usuario_id b)) \<and>
       faults w (length (issued w)) = None \<and> faults w (Suc (length (issued w))) = None \<and>
       faults w (Suc (Suc (length (issued w)))) = None \<longrightarrow>
         status (fst (agregarNota b w)) = 201 \<and>
         plantillas_base (db (snd (agregarNota b w))) = plantillas_base (db w) @
            [\<lparr>pb_id = uuids w (drawn w), pb_novedad = nb_novedad b,
              pb_nota_publica = Some (or_else (nb_nota_publica b) []),
              pb_nota_interna = Some (or_else (nb_nota_interna b) []),
              pb_nota_avances = Some (or_else (nb_nota_avances b) []),
              pb_plantilla = Some (or_else (nb_plantilla b) [])\<rparr>])
   \<and> (\<forall>n. toUpperCase n = ''AVANCE'' \<longrightarrow>
         JString n \<notin> set (returned_novedades (fst (obtenerPlantillasDisponibles v))))
   \<and> (\<forall>p n. faults v (length (issued v)) = None \<and> p \<in> set (plantillas_base (db v)) \<and>
         pb_novedad p = Some n \<and> toUpperCase n \<noteq> ''AVANCE'' \<longrightarrow>
         JString n \<in> set (returned_novedades (fst (obtenerPlantillasDisponibles v))))"
  using agregarNota_400[of b w] agregarNota_stores[of b w] disponibles_excludes[of _ v]
        disponibles_includes[of v]
  by blast

theorem agregarNota_names_and_catalog_witness:
  "status (fst (agregarNota (nota_named ''Avance'') (idle_world shared_db))) = 400
   \<and> status (fst (agregarNota (nota_named ''aVance'') (idle_world shared_db))) = 201
   \<and> map pb_novedad (plantillas_base (db (snd (agregarNota (nota_named ''aVance'')
         (idle_world shared_db)))))
       = [Some ''Bienvenida'', Some ''aVance'', Some ''aVance'']
   \<and> JString ''aVance'' \<notin> set (returned_novedades
         (fst (obtenerPlantillasDisponibles (idle_world shared_db))))
   \<and> JString ''Bienvenida'' \<in> set (returned_novedades
         (fst (obtenerPlantillasDisponibles (idle_world shared_db))))"
proof -
  let ?w = "idle_world shared_db"
  let ?p = "\<lparr>pb_id = ''p1'', pb_novedad = Some ''Bienvenida'', pb_nota_publica = Some ''Hola'',
          pb_nota_interna = Some ''Interna'', pb_nota_avances = Some '''',
          pb_plantilla = Some ''Plantilla de bienvenida''\<rparr>"
  note t = agregarNota_names_and_catalog[of _ ?w ?w]
  note t1 = t[THEN conjunct1]
  note t2 = t[THEN conjunct2, THEN conjunct1]
  note t3 = t[THEN conjunct2, THEN conjunct2, THEN conjunct1]
  note t4 = t[THEN conjunct2, THEN conjunct2, THEN conjunct2]
  have p1: "\<not> falsy (nb_usuario_id (nota_named ''Avance'')) \<and>
            \<not> falsy (nb_novedad (nota_named ''Avance''))"
    by (simp add: nota_named_def falsy_def)
  have n1: "the (nb_novedad (nota_named ''Avance'')) \<in> {''AVANCE'', ''avance'', ''Avance''}"
    by (simp add: nota_named_def)
  have h2: "\<not> falsy (nb_usuario_id (nota_named ''aVance'')) \<and>
       \<not> falsy (nb_novedad (nota_named ''aVance'')) \<and>
       the (nb_novedad (nota_named ''aVance'')) \<notin> {''AVANCE'', ''avance'', ''Avance''} \<and>
       (\<exists>u \<in> set (usuarios (db ?w)). u_id u = the (nb_usuario_id (nota_named ''aVance''))) \<and>
       faults ?w (length (issued ?w)) = None \<and> faults ?w (Suc (length (issued ?w))) = None \<and>
       faults ?w (Suc (Suc (length (issued ?w)))) = None"
    by (simp add: nota_named_def falsy_def idle_world_def shared_db_def ana_def)
  have h5: "faults ?w (length (issued ?w)) = None \<and> ?p \<in> set (plantillas_base (db ?w)) \<and>
         pb_novedad ?p = Some ''Bienvenida'' \<and> toUpperCase ''Bienvenida'' \<noteq> ''AVANCE''"
    by (simp add: idle_world_def shared_db_def upper_aVance(2))
  have c1: "status (fst (agregarNota (nota_named ''Avance'') ?w)) = 400"
    by (rule iffD2[OF t1[THEN mp, OF p1] n1])
  note r2 = t2[THEN mp, OF h2]
  have c2: "status (fst (agregarNota (nota_named ''aVance'') ?w)) = 201"
    by (rule r2[THEN conjunct1])
  have c3: "map pb_novedad (plantillas_base (db (snd (agregarNota (nota_named ''aVance'') ?w))))
       = [Some ''Bienvenida'', Some ''aVance'', Some ''aVance'']"
    unfolding r2[THEN conjunct2] by (simp add: idle_world_def shared_db_def nota_named_def)
  have c4: "JString ''aVance'' \<notin> set (returned_novedades (fst (obtenerPlantillasDisponibles ?w)))"
    by (rule t3[THEN spec, THEN mp, OF upper_aVance(1)])
  have c5: "JString ''Bienvenida'' \<in> set (returned_novedades (fst (obtenerPlantillasDisponibles ?w)))"
    by (rule t4[THEN spec, THEN spec, THEN mp, OF h5])
  from c1 c2 c3 c4 c5 show ?thesis by (intro conjI)
qed

subsection \<open>The relation row and its reference count\<close>

lemma filter_key_single:
  assumes "distinct (map f xs)" "x \<in> set xs"
  shows "filter (\<lambda>y. f y = f x) xs = [x]"
  using assms
proof (induction xs)
  case Nil
  then show ?case by simp
next
  case (Cons a xs)
  show ?case
  proof (cases "a = x")
    case True
    with Cons.prems have "\<forall>y \<in> set xs. f y \<noteq> f x" by (auto simp: image_iff)
    then have "filter (\<lambda>y. f y = f x) xs = []" by (simp add: filter_empty_conv)
    with True show ?thesis by simp
  next
    case False
    with Cons.prems have x: "x \<in> set xs" and d: "distinct (map f xs)" and "f a \<noteq> f x" by auto
    with Cons.IH show ?thesis by simp
  qed
qed

lemma filter_key_single':
  assumes "distinct (map f xs)" "x \<in> set xs"
  shows "filter (\<lambda>y. f x = f y) xs = [x]"
  using filter_key_single[OF assms] by (simp add: eq_commute)

lemma group_count_one_key:
  "xs \<noteq> [] \<Longrightarrow> group_count (map (\<lambda>x. (k, Some (g x))) xs) = [(k, length xs)]"
proof (induction xs)
  case Nil
  then show ?case by simp
next
  case (Cons a xs)
  have 1: "filter (\<lambda>(k', v'). k' = k \<and> v' \<noteq> None) (map (\<lambda>x. (k, Some (g x))) xs)
             = map (\<lambda>x. (k, Some (g x))) xs"
    by (induction xs) auto
  have 2: "filter (\<lambda>(k', v'). k' \<noteq> k) (map (\<lambda>x. (k, Some (g x))) xs) = []"
    by (induction xs) auto
  show ?case by (simp add: 1 2)
qed

lemma relacionInfo_nota_single:
  assumes dr: "distinct (map ndr_id (notas_despacho_rel d))"
      and dp: "distinct (map pb_id (plantillas_base d))"
      and r: "r \<in> set (notas_despacho_rel d)"
      and b: "b \<in> set (plantillas_base d)" and rb: "pb_id b = ndr_plantilla_id r"
  shows "relacionInfo_nota as_text (ndr_id r) d =
           [((ndr_id r, ndr_plantilla_id r, pb_novedad b, pb_nota_publica b, pb_nota_interna b,
              pb_nota_avances b, pb_plantilla b),
             pg_count as_text (length (filter (\<lambda>x. ndr_plantilla_id x = pb_id b)
                                         (notas_despacho_rel d))))]"
proof -
  have 1: "filter (\<lambda>ndr. ndr_id ndr = ndr_id r) (notas_despacho_rel d) = [r]"
    by (rule filter_key_single[OF dr r])
  have 2: "filter (\<lambda>pb. ndr_plantilla_id r = pb_id pb) (plantillas_base d) = [b]"
    using filter_key_single'[OF dp b] rb by simp
  let ?refs = "filter (\<lambda>ndr2. pb_id b = ndr_plantilla_id ndr2) (notas_despacho_rel d)"
  have 3: "?refs \<noteq> []" using r rb by (auto simp: filter_empty_conv)
  have 4: "?refs = filter (\<lambda>x. ndr_plantilla_id x = pb_id b) (notas_despacho_rel d)"
    by (simp add: eq_commute)
  have 5: "map (\<lambda>ndr2_id. (k, ndr2_id)) (left_join (map ndr_id ?refs))
             = map (\<lambda>x. (k, Some (ndr_id x))) ?refs" for k :: "'k"
    using 3 by (simp add: left_join_def comp_def)
  show ?thesis
    by (simp add: relacionInfo_nota_def 1 2 5 group_count_one_key[OF 3] 4[symmetric]
          del: group_count.simps)
qed

lemma relacionInfo_aplicativo_single:
  assumes dr: "distinct (map ar_id (aplicativos_rel d))"
      and dp: "distinct (map ab_id (aplicativos_base d))"
      and r: "r \<in> set (aplicativos_rel d)"
      and b: "b \<in> set (aplicativos_base d)" and rb: "ab_id b = ar_aplicativo_base_id r"
  shows "relacionInfo_aplicativo as_text (ar_id r) d =
           [((ar_id r, ar_usuario_id r, ar_aplicativo_base_id r, ab_nombre b),
             pg_count as_text (length (filter (\<lambda>x. ar_aplicativo_base_id x = ab_id b)
                                         (aplicativos_rel d))))]"
proof -
  have 1: "filter (\<lambda>ar. ar_id ar = ar_id r) (aplicativos_rel d) = [r]"
    by (rule filter_key_single[OF dr r])
  have 2: "filter (\<lambda>ab. ar_aplicativo_base_id r = ab_id ab) (aplicativos_base d) = [b]"
    using filter_key_single'[OF dp b] rb by simp
  let ?refs = "filter (\<lambda>ar2. ab_id b = ar_aplicativo_base_id ar2) (aplicativos_rel d)"
  have 3: "?refs \<noteq> []" using r rb by (auto simp: filter_empty_conv)
  have 4: "?refs = filter (\<lambda>x. ar_aplicativo_base_id x = ab_id b) (aplicativos_rel d)"
    by (simp add: eq_commute)
  have 5: "map (\<lambda>ar2_id. (k, ar2_id)) (left_join (map ar_id ?refs))
             = map (\<lambda>x. (k, Some (ar_id x))) ?refs" for k :: "'k"
    using 3 by (simp add: left_join_def comp_def)
  show ?thesis
    by (simp add: relacionInfo_aplicativo_def 1 2 5 group_count_one_key[OF 3] 4[symmetric]
          del: group_count.simps)
qed

lemma refs_le1_iff:
  assumes d: "distinct (map f xs)" and r: "r \<in> set xs" and p: "P r"
  shows "(length (filter P xs) \<le> 1) = (\<forall>x \<in> set xs. P x \<longrightarrow> x = r)"
proof
  assume "length (filter P xs) \<le> 1"
  from filter_le1_cases[OF this] r p obtain y where y: "filter P xs = [y]"
    by (auto simp: filter_empty_conv)
  from filter_single_mem[OF y] r p show "\<forall>x \<in> set xs. P x \<longrightarrow> x = r" by metis
next
  assume a: "\<forall>x \<in> set xs. P x \<longrightarrow> x = r"
  have dd: "distinct (filter P xs)" using d by (simp add: distinct_map)
  have "set (filter P xs) \<subseteq> {r}" using a by auto
  then have "card (set (filter P xs)) \<le> 1"
    by (metis card_mono finite.emptyI finite.insertI card.empty card_insert_disjoint empty_iff One_nat_def)
  then show "length (filter P xs) \<le> 1" using distinct_card[OF dd] by simp
qed

lemma refs_eq1_iff:
  assumes d: "distinct (map f xs)" and r: "r \<in> set xs" and p: "P r"
  shows "(length (filter P xs) = 1) = (\<forall>x \<in> set xs. P x \<longrightarrow> x = r)"
proof -
  have "filter P xs \<noteq> []" using r p by (auto simp: filter_empty_conv)
  then have "length (filter P xs) \<ge> 1" by (cases "filter P xs") auto
  with refs_le1_iff[where P=P, OF d r p] show ?thesis by auto
qed

lemma eliminarNota_effect:
  assumes t: "nota_in_tables (db w) r b"
      and f0: "faults w (length (issued w)) = None"
      and f1: "faults w (Suc (length (issued w))) = None"
      and f2: "faults w (Suc (Suc (length (issued w)))) = None"
  shows "status (fst (eliminarNota (ndr_id r) w)) = 200"
    and "notas_despacho_rel (db (snd (eliminarNota (ndr_id r) w)))
           = filter (\<lambda>x. ndr_id x \<noteq> ndr_id r) (notas_despacho_rel (db w))"
    and "plantillas_base (db (snd (eliminarNota (ndr_id r) w)))
           = (if last_nota_reference (db w) r \<or> avances_only b
              then filter (\<lambda>p. pb_id p \<noteq> pb_id b) (plantillas_base (db w))
              else plantillas_base (db w))"
proof -
  from t have dr: "distinct (map ndr_id (notas_despacho_rel (db w)))"
    and dp: "distinct (map pb_id (plantillas_base (db w)))"
    and r: "r \<in> set (notas_despacho_rel (db w))" and b: "b \<in> set (plantillas_base (db w))"
    and rb: "pb_id b = ndr_plantilla_id r" and ne: "ndr_id r \<noteq> []"
    by (simp_all add: nota_in_tables_def)
  note info = relacionInfo_nota_single[OF dr dp r b rb]
  have one: "filter (\<lambda>x. ndr_id x = ndr_id r) (notas_despacho_rel (db w)) = [r]"
    by (rule filter_key_single[OF dr r])
  have le: "js_le (pg_count a (length (filter (\<lambda>x. ndr_plantilla_id x = ndr_plantilla_id r)
                   (notas_despacho_rel (db w))))) (Suc 0) = last_nota_reference (db w) r" for a
    using refs_le1_iff[where P="\<lambda>x. ndr_plantilla_id x = ndr_plantilla_id r", OF dr r]
    by (simp add: js_le_def pg_count_def last_nota_reference_def)
  show "status (fst (eliminarNota (ndr_id r) w)) = 200"
    using ne f0 f1 f2
    by (simp add: eliminarNota_def pool_query_ok select_def info one Let_def res_json_def)
  show "notas_despacho_rel (db (snd (eliminarNota (ndr_id r) w)))
           = filter (\<lambda>x. ndr_id x \<noteq> ndr_id r) (notas_despacho_rel (db w))"
    using ne f0 f1 f2
    by (simp add: eliminarNota_def pool_query_ok select_def info one Let_def res_json_def)
  show "plantillas_base (db (snd (eliminarNota (ndr_id r) w)))
           = (if last_nota_reference (db w) r \<or> avances_only b
              then filter (\<lambda>p. pb_id p \<noteq> pb_id b) (plantillas_base (db w))
              else plantillas_base (db w))"
    using ne f0 f1 f2
    by (simp add: eliminarNota_def pool_query_ok select_def info one Let_def res_json_def le
          avances_only_def rb)
qed

lemma eliminarAplicativo_effect:
  assumes t: "aplicativo_in_tables (db w) r b"
      and f0: "faults w (length (issued w)) = None"
      and f1: "faults w (Suc (length (issued w))) = None"
      and f2: "faults w (Suc (Suc (length (issued w)))) = None"
  shows "status (fst (eliminarAplicativo (ar_id r) w)) = 200"
    and "aplicativos_rel (db (snd (eliminarAplicativo (ar_id r) w)))
           = filter (\<lambda>x. ar_id x \<noteq> ar_id r) (aplicativos_rel (db w))"
    and "aplicativos_base (db (snd (eliminarAplicativo (ar_id r) w)))
           = (if \<not> count_as_text w \<and> last_aplicativo_reference (db w) r
              then filter (\<lambda>p. ab_id p \<noteq> ab_id b) (aplicativos_base (db w))
              else aplicativos_base (db w))"
proof -
  from t have dr: "distinct (map ar_id (aplicativos_rel (db w)))"
    and dp: "distinct (map ab_id (aplicativos_base (db w)))"
    and r: "r \<in> set (aplicativos_rel (db w))" and b: "b \<in> set (aplicativos_base (db w))"
    and rb: "ab_id b = ar_aplicativo_base_id r" and ne: "ar_id r \<noteq> []"
    by (simp_all add: aplicativo_in_tables_def)
  note info = relacionInfo_aplicativo_single[OF dr dp r b rb]
  have one: "filter (\<lambda>x. ar_id x = ar_id r) (aplicativos_rel (db w)) = [r]"
    by (rule filter_key_single[OF dr r])
  have eq: "js_strict_eq (pg_count a (length (filter (\<lambda>x. ar_aplicativo_base_id x = ar_aplicativo_base_id r)
                   (aplicativos_rel (db w))))) (Suc 0) = (\<not> a \<and> last_aplicativo_reference (db w) r)" for a
    using refs_eq1_iff[where P="\<lambda>x. ar_aplicativo_base_id x = ar_aplicativo_base_id r", OF dr r]
    by (simp add: js_strict_eq_def pg_count_def last_aplicativo_reference_def)
  show "status (fst (eliminarAplicativo (ar_id r) w)) = 200"
    using ne f0 f1 f2
    by (simp add: eliminarAplicativo_def pool_query_ok select_def info one Let_def res_json_def)
  show "aplicativos_rel (db (snd (eliminarAplicativo (ar_id r) w)))
           = filter (\<lambda>x. ar_id x \<noteq> ar_id r) (aplicativos_rel (db w))"
    using ne f0 f1 f2
    by (simp add: eliminarAplicativo_def pool_query_ok select_def info one Let_def res_json_def)
  show "aplicativos_base (db (snd (eliminarAplicativo (ar_id r) w)))
           = (if \<not> count_as_text w \<and> last_aplicativo_reference (db w) r
              then filter (\<lambda>p. ab_id p \<noteq> ab_id b) (aplicativos_base (db w))
              else aplicativos_base (db w))"
    using ne f0 f1 f2
    by (simp add: eliminarAplicativo_def pool_query_ok select_def info one Let_def res_json_def eq rb)
qed

lemma eliminarNota_interrupted:
  assumes t: "nota_in_tables (db w) r b"
      and del: "last_nota_reference (db w) r \<or> avances_only b"
      and f0: "faults w (length (issued w)) = None"
      and f1: "faults w (Suc (length (issued w))) = None"
      and f2: "faults w (Suc (Suc (length (issued w)))) = Some msg"
  shows "status (fst (eliminarNota (ndr_id r) w)) = 500"
    and "notas_despacho_rel (db (snd (eliminarNota (ndr_id r) w)))
           = filter (\<lambda>x. ndr_id x \<noteq> ndr_id r) (notas_despacho_rel (db w))"
    and "plantillas_base (db (snd (eliminarNota (ndr_id r) w))) = plantillas_base (db w)"
    and "map sql (drop (Suc (length (issued w))) (issued (snd (eliminarNota (ndr_id r) w))))
           = [''DELETE FROM notas_despacho_rel WHERE id = $1'',
              ''DELETE FROM plantillas_base WHERE id = $1'']"
proof -
  from t have dr: "distinct (map ndr_id (notas_despacho_rel (db w)))"
    and dp: "distinct (map pb_id (plantillas_base (db w)))"
    and r: "r \<in> set (notas_despacho_rel (db w))" and b: "b \<in> set (plantillas_base (db w))"
    and rb: "pb_id b = ndr_plantilla_id r" and ne: "ndr_id r \<noteq> []"
    by (simp_all add: nota_in_tables_def)
  note info = relacionInfo_nota_single[OF dr dp r b rb]
  have one: "filter (\<lambda>x. ndr_id x = ndr_id r) (notas_despacho_rel (db w)) = [r]"
    by (rule filter_key_single[OF dr r])
  have le: "js_le (pg_count a (length (filter (\<lambda>x. ndr_plantilla_id x = ndr_plantilla_id r)
                   (notas_despacho_rel (db w))))) (Suc 0) = last_nota_reference (db w) r" for a
    using refs_le1_iff[where P="\<lambda>x. ndr_plantilla_id x = ndr_plantilla_id r", OF dr r]
    by (simp add: js_le_def pg_count_def last_nota_reference_def)
  have c: "js_le (pg_count (count_as_text w) (length (filter (\<lambda>x. ndr_plantilla_id x = ndr_plantilla_id r)
                   (notas_despacho_rel (db w))))) (Suc 0) \<or>
           trim_truthy (pb_nota_avances b) \<and> \<not> trim_truthy (pb_nota_publica b) \<and>
           \<not> trim_truthy (pb_nota_interna b) \<and> \<not> trim_truthy (pb_plantilla b)"
    using del by (simp add: le avances_only_def)
  show "status (fst (eliminarNota (ndr_id r) w)) = 500"
    using ne f0 f1 f2 c
    by (simp add: eliminarNota_def pool_query_ok pool_query_fail select_def info one Let_def
          res_status_json_def rb)
  show "notas_despacho_rel (db (snd (eliminarNota (ndr_id r) w)))
           = filter (\<lambda>x. ndr_id x \<noteq> ndr_id r) (notas_despacho_rel (db w))"
    using ne f0 f1 f2 c
    by (simp add: eliminarNota_def pool_query_ok pool_query_fail select_def info one Let_def
          res_status_json_def rb)
  show "plantillas_base (db (snd (eliminarNota (ndr_id r) w))) = plantillas_base (db w)"
    using ne f0 f1 f2 c
    by (simp add: eliminarNota_def pool_query_ok pool_query_fail select_def info one Let_def
          res_status_json_def rb)
  show "map sql (drop (Suc (length (issued w))) (issued (snd (eliminarNota (ndr_id r) w))))
           = [''DELETE FROM notas_despacho_rel WHERE id = $1'',
              ''DELETE FROM plantillas_base WHERE id = $1'']"
    using ne f0 f1 f2 c
    by (simp add: eliminarNota_def pool_query_ok pool_query_fail select_def info one Let_def
          res_status_json_def rb)
qed

lemma eliminarAplicativo_interrupted:
  assumes t: "aplicativo_in_tables (db w) r b"
      and del: "last_aplicativo_reference (db w) r" and num: "\<not> count_as_text w"
      and f0: "faults w (length (issued w)) = None"
      and f1: "faults w (Suc (length (issued w))) = None"
      and f2: "faults w (Suc (Suc (length (issued w)))) = Some msg"
  shows "status (fst (eliminarAplicativo (ar_id r) w)) = 500"
    and "aplicativos_rel (db (snd (eliminarAplicativo (ar_id r) w)))
           = filter (\<lambda>x. ar_id x \<noteq> ar_id r) (aplicativos_rel (db w))"
    and "aplicativos_base (db (snd (eliminarAplicativo (ar_id r) w))) = aplicativos_base (db w)"
    and "map sql (drop (Suc (length (issued w))) (issued (snd (eliminarAplicativo (ar_id r) w))))
           = [''DELETE FROM aplicativos_rel WHERE id = $1'',
              ''DELETE FROM aplicativos_base WHERE id = $1'']"
proof -
  from t have dr: "distinct (map ar_id (aplicativos_rel (db w)))"
    and dp: "distinct (map ab_id (aplicativos_base (db w)))"
    and r: "r \<in> set (aplicativos_rel (db w))" and b: "b \<in> set (aplicativos_base (db w))"
    and rb: "ab_id b = ar_aplicativo_base_id r" and ne: "ar_id r \<noteq> []"
    by (simp_all add: aplicativo_in_tables_def)
  note info = relacionInfo_aplicativo_single[OF dr dp r b rb]
  have one: "filter (\<lambda>x. ar_id x = ar_id r) (aplicativos_rel (db w)) = [r]"
    by (rule filter_key_single[OF dr r])
  have eq: "js_strict_eq (pg_count a (length (filter (\<lambda>x. ar_aplicativo_base_id x = ar_aplicativo_base_id r)
                   (aplicativos_rel (db w))))) (Suc 0) = (\<not> a \<and> last_aplicativo_reference (db w) r)" for a
    using refs_eq1_iff[where P="\<lambda>x. ar_aplicativo_base_id x = ar_aplicativo_base_id r", OF dr r]
    by (simp add: js_strict_eq_def pg_count_def last_aplicativo_reference_def)
  show "status (fst (eliminarAplicativo (ar_id r) w)) = 500"
    using ne f0 f1 f2 del num
    by (simp add: eliminarAplicativo_def pool_query_ok pool_query_fail select_def info one Let_def
          res_status_json_def eq rb)
  show "aplicativos_rel (db (snd (eliminarAplicativo (ar_id r) w)))
           = filter (\<lambda>x. ar_id x \<noteq> ar_id r) (aplicativos_rel (db w))"
    using ne f0 f1 f2 del num
    by (simp add: eliminarAplicativo_def pool_query_ok pool_query_fail select_def info one Let_def
          res_status_json_def eq rb)
  show "aplicativos_base (db (snd (eliminarAplicativo (ar_id r) w))) = aplicativos_base (db w)"
    using ne f0 f1 f2 del num
    by (simp add: eliminarAplicativo_def pool_query_ok pool_query_fail select_def info one Let_def
          res_status_json_def eq rb)
  show "map sql (drop (Suc (length (issued w))) (issued (snd (eliminarAplicativo (ar_id r) w))))
           = [''DELETE FROM aplicativos_rel WHERE id = $1'',
              ''DELETE FROM aplicativos_base WHERE id = $1'']"
    using ne f0 f1 f2 del num
    by (simp add: eliminarAplicativo_def pool_query_ok pool_query_fail select_def info one Let_def
          res_status_json_def eq rb)
qed

subsection \<open>Deleting a relation row and cleaning up its base row\<close>

lemma example_tables:
  "nota_in_tables shared_db n1_row p1_row"
  "nota_in_tables shared_db n3_row p2_row"
  "aplicativo_in_tables shared_db r1_row a1_row"
  "aplicativo_in_tables solo_db r1_row a1_row"
  by code_simp+

lemma example_references:
  "\<not> last_nota_reference shared_db n1_row" "\<not> avances_only p1_row"
  "\<not> last_nota_reference shared_db n3_row" "avances_only p2_row"
  "\<not> last_aplicativo_reference shared_db r1_row"
  "last_aplicativo_reference solo_db r1_row"
  by code_simp+

text \<open>
  Claim C1, as stated, fails for \<open>eliminarNota\<close>: both users hold the template \<open>p2\<close>, which
  has a progress note and nothing else. The first user deletes the relation \<open>n3\<close>; the
  relation \<open>n4\<close> of the second user still points to \<open>p2\<close>, and \<open>p2\<close> is gone from
  \<open>plantillas_base\<close>.
\<close>

theorem eliminarNota_shared_template_counterexample:
  "status (fst (eliminarNota ''n3'' (idle_world shared_db))) = 200
   \<and> map ndr_plantilla_id (notas_despacho_rel (db (snd (eliminarNota ''n3'' (idle_world shared_db)))))
       = [''p1'', ''p1'', ''p2'']
   \<and> map pb_id (plantillas_base (db (idle_world shared_db))) = [''p1'', ''p2'']
   \<and> map pb_id (plantillas_base (db (snd (eliminarNota ''n3'' (idle_world shared_db))))) = [''p1'']"
  by code_simp

text \<open>
  Claim C1, amended. Identifiers are keys, the relation row and its base row exist, and
  the three statements succeed. Then \<open>eliminarNota\<close> deletes the relation row, and deletes
  the base row exactly when the relation was the last reference to it or the template
  holds a progress note and nothing else; otherwise \<open>plantillas_base\<close> is unchanged. When
  the driver delivers a \<open>COUNT\<close> as a number, \<open>eliminarAplicativo\<close> deletes the relation
  row, and deletes the base row exactly when the relation was the last reference to it;
  otherwise \<open>aplicativos_base\<close> is unchanged.
\<close>

theorem eliminar_base_row_cleanup:
  "(nota_in_tables (db w) r b \<and> faults w (length (issued w)) = None \<and>
    faults w (Suc (length (issued w))) = None \<and>
    faults w (Suc (Suc (length (issued w)))) = None \<longrightarrow>
      status (fst (eliminarNota (ndr_id r) w)) = 200 \<and>
      notas_despacho_rel (db (snd (eliminarNota (ndr_id r) w)))
        = filter (\<lambda>x. ndr_id x \<noteq> ndr_id r) (notas_despacho_rel (db w)) \<and>
      plantillas_base (db (snd (eliminarNota (ndr_id r) w)))
        = (if last_nota_reference (db w) r \<or> avances_only b
           then filter (\<lambda>p. pb_id p \<noteq> pb_id b) (plantillas_base (db w))
           else plantillas_base (db w)))
   \<and> (aplicativo_in_tables (db v) a c \<and> \<not> count_as_text v \<and>
      faults v (length (issued v)) = None \<and> faults v (Suc (length (issued v))) = None \<and>
      faults v (Suc (Suc (length (issued v)))) = None \<longrightarrow>
      status (fst (eliminarAplicativo (ar_id a) v)) = 200 \<and>
      aplicativos_rel (db (snd (eliminarAplicativo (ar_id a) v)))
        = filter (\<lambda>x. ar_id x \<noteq> ar_id a) (aplicativos_rel (db v)) \<and>
      aplicativos_base (db (snd (eliminarAplicativo (ar_id a) v)))
        = (if last_aplicativo_reference (db v) a
           then filter (\<lambda>p. ab_id p \<noteq> ab_id c) (aplicativos_base (db v))
           else aplicativos_base (db v)))"
proof (intro conjI impI)
  assume h: "nota_in_tables (db w) r b \<and> faults w (length (issued w)) = None \<and>
    faults w (Suc (length (issued w))) = None \<and>
    faults w (Suc (Suc (length (issued w)))) = None"
  then have t: "nota_in_tables (db w) r b" and f0: "faults w (length (issued w)) = None"
    and f1: "faults w (Suc (length (issued w))) = None"
    and f2: "faults w (Suc (Suc (length (issued w)))) = None" by simp_all
  show "status (fst (eliminarNota (ndr_id r) w)) = 200"
    by (rule eliminarNota_effect(1)[OF t f0 f1 f2])
  show "notas_despacho_rel (db (snd (eliminarNota (ndr_id r) w)))
        = filter (\<lambda>x. ndr_id x \<noteq> ndr_id r) (notas_despacho_rel (db w))"
    by (rule eliminarNota_effect(2)[OF t f0 f1 f2])
  show "plantillas_base (db (snd (eliminarNota (ndr_id r) w)))
        = (if last_nota_reference (db w) r \<or> avances_only b
           then filter (\<lambda>p. pb_id p \<noteq> pb_id b) (plantillas_base (db w))
           else plantillas_base (db w))"
    by (rule eliminarNota_effect(3)[OF t f0 f1 f2])
next
  assume h: "aplicativo_in_tables (db v) a c \<and> \<not> count_as_text v \<and>
      faults v (length (issued v)) = None \<and> faults v (Suc (length (issued v))) = None \<and>
      faults v (Suc (Suc (length (issued v)))) = None"
  then have t: "aplicativo_in_tables (db v) a c" and n: "\<not> count_as_text v"
    and f0: "faults v (length (issued v)) = None"
    and f1: "faults v (Suc (length (issued v))) = None"
    and f2: "faults v (Suc (Suc (length (issued v)))) = None" by simp_all
  show "status (fst (eliminarAplicativo (ar_id a) v)) = 200"
    by (rule eliminarAplicativo_effect(1)[OF t f0 f1 f2])
  show "aplicativos_rel (db (snd (eliminarAplicativo (ar_id a) v)))
        = filter (\<lambda>x. ar_id x \<noteq> ar_id a) (aplicativos_rel (db v))"
    by (rule eliminarAplicativo_effect(2)[OF t f0 f1 f2])
  show "aplicativos_base (db (snd (eliminarAplicativo (ar_id a) v)))
        = (if last_aplicativo_reference (db v) a
           then filter (\<lambda>p. ab_id p \<noteq> ab_id c) (aplicativos_base (db v))
           else aplicativos_base (db v))"
    using eliminarAplicativo_effect(3)[OF t f0 f1 f2] n by simp
qed

theorem eliminar_base_row_cleanup_witness:
  "map pb_id (plantillas_base (db (snd (eliminarNota ''n1'' (idle_world shared_db)))))
     = [''p1'', ''p2'']
   \<and> map ndr_id (notas_despacho_rel (db (snd (eliminarNota ''n1'' (idle_world shared_db)))))
     = [''n2'', ''n3'', ''n4'']
   \<and> map ab_id (aplicativos_base (db (snd (eliminarAplicativo ''r1'' (idle_world solo_db))))) = []
   \<and> map ar_id (aplicativos_rel (db (snd (eliminarAplicativo ''r1'' (idle_world solo_db))))) = []"
proof -
  have dbs: "db (idle_world shared_db) = shared_db" "db (idle_world solo_db) = solo_db"
    by (simp_all add: idle_world_def)
  have h1: "nota_in_tables (db (idle_world shared_db)) n1_row p1_row \<and>
    faults (idle_world shared_db) (length (issued (idle_world shared_db))) = None \<and>
    faults (idle_world shared_db) (Suc (length (issued (idle_world shared_db)))) = None \<and>
    faults (idle_world shared_db) (Suc (Suc (length (issued (idle_world shared_db))))) = None"
    unfolding dbs using example_tables(1) by (simp add: idle_world_def)
  have h2: "aplicativo_in_tables (db (idle_world solo_db)) r1_row a1_row \<and>
    \<not> count_as_text (idle_world solo_db) \<and>
    faults (idle_world solo_db) (length (issued (idle_world solo_db))) = None \<and>
    faults (idle_world solo_db) (Suc (length (issued (idle_world solo_db)))) = None \<and>
    faults (idle_world solo_db) (Suc (Suc (length (issued (idle_world solo_db))))) = None"
    unfolding dbs using example_tables(4) by (simp add: idle_world_def)
  note t = eliminar_base_row_cleanup[of "idle_world shared_db" n1_row p1_row
             "idle_world solo_db" r1_row a1_row]
  note t1 = t[THEN conjunct1, THEN mp, OF h1]
  note t2 = t[THEN conjunct2, THEN mp, OF h2]
  have i1: "ndr_id n1_row = ''n1''" by (simp add: n1_row_def)
  have i2: "ar_id r1_row = ''r1''" by (simp add: r1_row_def)
  have c1: "map pb_id (plantillas_base (db (snd (eliminarNota ''n1'' (idle_world shared_db)))))
     = [''p1'', ''p2'']"
    using t1[THEN conjunct2, THEN conjunct2] example_references(1,2)
    unfolding dbs i1 by (simp add: shared_db_def)
  have c2: "map ndr_id (notas_despacho_rel (db (snd (eliminarNota ''n1'' (idle_world shared_db)))))
     = [''n2'', ''n3'', ''n4'']"
    using t1[THEN conjunct2, THEN conjunct1]
    unfolding dbs i1 by (simp add: shared_db_def)
  have c3: "map ab_id (aplicativos_base (db (snd (eliminarAplicativo ''r1'' (idle_world solo_db))))) = []"
    using t2[THEN conjunct2, THEN conjunct2] example_references(6)
    unfolding dbs i2 by (simp add: solo_db_def shared_db_def a1_row_def)
  have c4: "map ar_id (aplicativos_rel (db (snd (eliminarAplicativo ''r1'' (idle_world solo_db))))) = []"
    using t2[THEN conjunct2, THEN conjunct1]
    unfolding dbs i2 by (simp add: solo_db_def shared_db_def r1_row_def)
  from c1 c2 c3 c4 show ?thesis by (intro conjI)
qed

subsection \<open>No transaction around the two deletions\<close>

text \<open>
  Claim C3. The relation row and the base row are deleted by two statements sent one
  after the other, with nothing sent between them. When the first deletion succeeds and
  the second rejects, the handler answers 500, the relation row is gone and the base row
  is still there: the state is not the one before the request.
\<close>

theorem eliminar_not_atomic:
  "(nota_in_tables (db w) r b \<and> (last_nota_reference (db w) r \<or> avances_only b) \<and>
    faults w (length (issued w)) = None \<and> faults w (Suc (length (issued w))) = None \<and>
    faults w (Suc (Suc (length (issued w)))) = Some msg \<longrightarrow>
      status (fst (eliminarNota (ndr_id r) w)) = 500 \<and>
      notas_despacho_rel (db (snd (eliminarNota (ndr_id r) w)))
        = filter (\<lambda>x. ndr_id x \<noteq> ndr_id r) (notas_despacho_rel (db w)) \<and>
      r \<notin> set (notas_despacho_rel (db (snd (eliminarNota (ndr_id r) w)))) \<and>
      plantillas_base (db (snd (eliminarNota (ndr_id r) w))) = plantillas_base (db w) \<and>
      map sql (drop (Suc (length (issued w))) (issued (snd (eliminarNota (ndr_id r) w))))
        = [''DELETE FROM notas_despacho_rel WHERE id = $1'',
           ''DELETE FROM plantillas_base WHERE id = $1''])
   \<and> (aplicativo_in_tables (db v) a c \<and> last_aplicativo_reference (db v) a \<and>
      \<not> count_as_text v \<and>
      faults v (length (issued v)) = None \<and> faults v (Suc (length (issued v))) = None \<and>
      faults v (Suc (Suc (length (issued v)))) = Some msg' \<longrightarrow>
      status (fst (eliminarAplicativo (ar_id a) v)) = 500 \<and>
      aplicativos_rel (db (snd (eliminarAplicativo (ar_id a) v)))
        = filter (\<lambda>x. ar_id x \<noteq> ar_id a) (aplicativos_rel (db v)) \<and>
      a \<notin> set (aplicativos_rel (db (snd (eliminarAplicativo (ar_id a) v)))) \<and>
      aplicativos_base (db (snd (eliminarAplicativo (ar_id a) v))) = aplicativos_base (db v) \<and>
      map sql (drop (Suc (length (issued v))) (issued (snd (eliminarAplicativo (ar_id a) v))))
        = [''DELETE FROM aplicativos_rel WHERE id = $1'',
           ''DELETE FROM aplicativos_base WHERE id = $1''])"
proof (intro conjI impI)
  assume h: "nota_in_tables (db w) r b \<and> (last_nota_reference (db w) r \<or> avances_only b) \<and>
    faults w (length (issued w)) = None \<and> faults w (Suc (length (issued w))) = None \<and>
    faults w (Suc (Suc (length (issued w)))) = Some msg"
  then have t: "nota_in_tables (db w) r b"
    and d: "last_nota_reference (db w) r \<or> avances_only b"
    and f0: "faults w (length (issued w)) = None"
    and f1: "faults w (Suc (length (issued w))) = None"
    and f2: "faults w (Suc (Suc (length (issued w)))) = Some msg" by simp_all
  note i = eliminarNota_interrupted[OF t d f0 f1 f2]
  show "status (fst (eliminarNota (ndr_id r) w)) = 500" by (rule i(1))
  show "notas_despacho_rel (db (snd (eliminarNota (ndr_id r) w)))
        = filter (\<lambda>x. ndr_id x \<noteq> ndr_id r) (notas_despacho_rel (db w))" by (rule i(2))
  show "r \<notin> set (notas_despacho_rel (db (snd (eliminarNota (ndr_id r) w))))"
    unfolding i(2) by simp
  show "plantillas_base (db (snd (eliminarNota (ndr_id r) w))) = plantillas_base (db w)"
    by (rule i(3))
  show "map sql (drop (Suc (length (issued w))) (issued (snd (eliminarNota (ndr_id r) w))))
        = [''DELETE FROM notas_despacho_rel WHERE id = $1'',
           ''DELETE FROM plantillas_base WHERE id = $1'']" by (rule i(4))
next
  assume h: "aplicativo_in_tables (db v) a c \<and> last_aplicativo_reference (db v) a \<and>
      \<not> count_as_text v \<and>
      faults v (length (issued v)) = None \<and> faults v (Suc (length (issued v))) = None \<and>
      faults v (Suc (Suc (length (issued v)))) = Some msg'"
  then have t: "aplicativo_in_tables (db v) a c" and d: "last_aplicativo_reference (db v) a"
    and n: "\<not> count_as_text v"
    and f0: "faults v (length (issued v)) = None"
    and f1: "faults v (Suc (length (issued v))) = None"
    and f2: "faults v (Suc (Suc (length (issued v)))) = Some msg'" by simp_all
  note i = eliminarAplicativo_interrupted[OF t d n f0 f1 f2]
  show "status (fst (eliminarAplicativo (ar_id a) v)) = 500" by (rule i(1))
  show "aplicativos_rel (db (snd (eliminarAplicativo (ar_id a) v)))
        = filter (\<lambda>x. ar_id x \<noteq> ar_id a) (aplicativos_rel (db v))" by (rule i(2))
  show "a \<notin> set (aplicativos_rel (db (snd (eliminarAplicativo (ar_id a) v))))"
    unfolding i(2) by simp
  show "aplicativos_base (db (snd (eliminarAplicativo (ar_id a) v))) = aplicativos_base (db v)"
    by (rule i(3))
  show "map sql (drop (Suc (length (issued v))) (issued (snd (eliminarAplicativo (ar_id a) v))))
        = [''DELETE FROM aplicativos_rel WHERE id = $1'',
           ''DELETE FROM aplicativos_base WHERE id = $1'']" by (rule i(4))
qed

theorem eliminar_not_atomic_witness:
  "status (fst (eliminarNota ''n3'' (failing_world shared_db 2 ''connection lost''))) = 500
   \<and> map ndr_id (notas_despacho_rel (db (snd (eliminarNota ''n3''
         (failing_world shared_db 2 ''connection lost'')))))
       = [''n1'', ''n2'', ''n4'']
   \<and> map pb_id (plantillas_base (db (snd (eliminarNota ''n3''
         (failing_world shared_db 2 ''connection lost''))))) = [''p1'', ''p2'']
   \<and> status (fst (eliminarAplicativo ''r1'' (failing_world solo_db 2 ''connection lost''))) = 500
   \<and> map ar_id (aplicativos_rel (db (snd (eliminarAplicativo ''r1''
         (failing_world solo_db 2 ''connection lost''))))) = []
   \<and> map ab_id (aplicativos_base (db (snd (eliminarAplicativo ''r1''
         (failing_world solo_db 2 ''connection lost''))))) = [''a1'']"
proof -
  let ?w = "failing_world shared_db 2 ''connection lost''"
  let ?v = "failing_world solo_db 2 ''connection lost''"
  have dbs: "db ?w = shared_db" "db ?v = solo_db"
    by (simp_all add: failing_world_def idle_world_def)
  have h1: "nota_in_tables (db ?w) n3_row p2_row \<and>
    (last_nota_reference (db ?w) n3_row \<or> avances_only p2_row) \<and>
    faults ?w (length (issued ?w)) = None \<and> faults ?w (Suc (length (issued ?w))) = None \<and>
    faults ?w (Suc (Suc (length (issued ?w)))) = Some ''connection lost''"
    unfolding dbs using example_tables(2) example_references(4)
    by (simp add: failing_world_def idle_world_def)
  have h2: "aplicativo_in_tables (db ?v) r1_row a1_row \<and> last_aplicativo_reference (db ?v) r1_row \<and>
      \<not> count_as_text ?v \<and>
      faults ?v (length (issued ?v)) = None \<and> faults ?v (Suc (length (issued ?v))) = None \<and>
      faults ?v (Suc (Suc (length (issued ?v)))) = Some ''connection lost''"
    unfolding dbs using example_tables(4) example_references(6)
    by (simp add: failing_world_def idle_world_def)
  note t = eliminar_not_atomic[of ?w n3_row p2_row "''connection lost''" ?v r1_row a1_row
             "''connection lost''"]
  note t1 = t[THEN conjunct1, THEN mp, OF h1]
  note t2 = t[THEN conjunct2, THEN mp, OF h2]
  have i1: "ndr_id n3_row = ''n3''" by (simp add: n3_row_def)
  have i2: "ar_id r1_row = ''r1''" by (simp add: r1_row_def)
  have c1: "status (fst (eliminarNota ''n3'' ?w)) = 500"
    using t1[THEN conjunct1] unfolding i1 .
  have c2: "map ndr_id (notas_despacho_rel (db (snd (eliminarNota ''n3'' ?w))))
       = [''n1'', ''n2'', ''n4'']"
    using t1[THEN conjunct2, THEN conjunct1] unfolding dbs i1 by (simp add: shared_db_def)
  have c3: "map pb_id (plantillas_base (db (snd (eliminarNota ''n3'' ?w)))) = [''p1'', ''p2'']"
    using t1[THEN conjunct2, THEN conjunct2, THEN conjunct2, THEN conjunct1]
    unfolding dbs i1 by (simp add: shared_db_def)
  have c4: "status (fst (eliminarAplicativo ''r1'' ?v)) = 500"
    using t2[THEN conjunct1] unfolding i2 .
  have c5: "map ar_id (aplicativos_rel (db (snd (eliminarAplicativo ''r1'' ?v)))) = []"
    using t2[THEN conjunct2, THEN conjunct1]
    unfolding dbs i2 by (simp add: solo_db_def shared_db_def r1_row_def)
  have c6: "map ab_id (aplicativos_base (db (snd (eliminarAplicativo ''r1'' ?v)))) = [''a1'']"
    using t2[THEN conjunct2, THEN conjunct2, THEN conjunct2, THEN conjunct1]
    unfolding dbs i2 by (simp add: solo_db_def shared_db_def)
  from c1 c2 c3 c4 c5 c6 show ?thesis by (intro conjI)
qed

subsection \<open>What a run sends\<close>

lemma sends_only_iff:
  "sends_only T w w' \<longleftrightarrow> (\<exists>qs. issued w' = issued w @ qs \<and> (\<forall>q \<in> set qs. sql q \<in> set T))"
proof
  assume a: "sends_only T w w'"
  then have "issued w' = issued w @ sent w w'"
    unfolding sends_only_def sent_def by (metis append_take_drop_id)
  with a show "\<exists>qs. issued w' = issued w @ qs \<and> (\<forall>q \<in> set qs. sql q \<in> set T)"
    unfolding sends_only_def by (auto simp: list_all_iff)
next
  assume "\<exists>qs. issued w' = issued w @ qs \<and> (\<forall>q \<in> set qs. sql q \<in> set T)"
  then show "sends_only T w w'"
    by (auto simp: sends_only_def sent_def list_all_iff)
qed

lemma sends_only_refl: "sends_only T w w"
  by (simp add: sends_only_iff)

lemma sends_only_trans: "sends_only T w w1 \<Longrightarrow> sends_only T w1 w2 \<Longrightarrow> sends_only T w w2"
  unfolding sends_only_iff by fastforce

lemma sends_only_pool_query:
  "t \<in> set T \<Longrightarrow> sends_only T w (snd (pool_query t ps sem w))"
  by (auto simp: sends_only_iff pool_query_def Let_def split: option.splits prod.splits)

lemma sends_only_pool_query':
  "pool_query t ps sem w = (r, w') \<Longrightarrow> t \<in> set T \<Longrightarrow> sends_only T w w'"
  using sends_only_pool_query[of t T w ps sem] by simp

lemma sends_only_uuidv4: "uuidv4 w = (i, w') \<Longrightarrow> sends_only T w w'"
  by (auto simp: sends_only_iff uuidv4_def)

lemma sends_only_step:
  "uuidv4 w = (i, w1) \<Longrightarrow> pool_query t ps sem w1 = (r, w2) \<Longrightarrow> t \<in> set T \<Longrightarrow> sends_only T w w2"
  by (blast intro: sends_only_trans sends_only_uuidv4 sends_only_pool_query')

lemma sends_crearAplicativos_loop:
  "''INSERT INTO aplicativos_base (id, nombre, url, categoria) VALUES ($1, $2, $3, $4)'' \<in> set T
   \<Longrightarrow> sends_only T w (snd (crearAplicativosBasePorDefecto_loop xs w))"
proof (induction xs w rule: crearAplicativosBasePorDefecto_loop.induct)
  case (1 w)
  show ?case by (simp add: sends_only_refl)
next
  case (2 nombre url categoria rest w)
  then show ?case
    by (auto split: prod.splits sum.splits
          intro: sends_only_trans[OF sends_only_step] sends_only_step)
qed

lemma sends_crearPlantillas_loop:
  "''INSERT INTO plantillas_base (id, novedad, nota_publica, nota_interna, nota_avances, plantilla) VALUES ($1, $2, $3, $4, $5, $6)'' \<in> set T
   \<Longrightarrow> sends_only T w (snd (crearPlantillasBasePorDefecto_loop xs w))"
proof (induction xs w rule: crearPlantillasBasePorDefecto_loop.induct)
  case (1 w)
  show ?case by (simp add: sends_only_refl)
next
  case (2 novedad nota_publica nota_interna nota_avances plantilla rest w)
  then show ?case
    by (auto split: prod.splits sum.splits
          intro: sends_only_trans[OF sends_only_step] sends_only_step)
qed

lemma sends_asignarAplicativos_loop:
  "''INSERT INTO aplicativos_rel (id, usuario_id, aplicativo_base_id, creado_en) VALUES ($1, $2, $3, NOW())'' \<in> set T
   \<Longrightarrow> sends_only T w (snd (asignarAplicativosPorDefecto_loop u xs w))"
proof (induction u xs w rule: asignarAplicativosPorDefecto_loop.induct)
  case (1 u w)
  show ?case by (simp add: sends_only_refl)
next
  case (2 u a rest w)
  then show ?case
    by (auto split: prod.splits sum.splits
          intro: sends_only_trans[OF sends_only_step] sends_only_step)
qed

lemma sends_asignarPlantillas_loop:
  "''INSERT INTO notas_despacho_rel (id, usuario_id, plantilla_id, creado_en) VALUES ($1, $2, $3, NOW())'' \<in> set T
   \<Longrightarrow> sends_only T w (snd (asignarPlantillasPorDefecto_loop u xs w))"
proof (induction u xs w rule: asignarPlantillasPorDefecto_loop.induct)
  case (1 u w)
  show ?case by (simp add: sends_only_refl)
next
  case (2 u a rest w)
  then show ?case
    by (auto split: prod.splits sum.splits
          intro: sends_only_trans[OF sends_only_step] sends_only_step)
qed

lemma sends_only_snoc:
  "sends_only T w w1 \<Longrightarrow> pool_query t ps sem w1 = (r, w2) \<Longrightarrow> t \<in> set T \<Longrightarrow> sends_only T w w2"
  by (blast intro: sends_only_trans sends_only_pool_query')

lemma sends_only_then:
  "sends_only T w w1 \<Longrightarrow> sends_only T w1 (snd (f w1)) \<Longrightarrow> f w1 = (r, w2) \<Longrightarrow> sends_only T w w2"
  using sends_only_trans by fastforce

lemma sends_limpiar_loop:
  "''DELETE FROM notas_despacho_rel WHERE plantilla_id = $1'' \<in> set T \<Longrightarrow>
   ''DELETE FROM plantillas_base WHERE id = $1'' \<in> set T
   \<Longrightarrow> sends_only T w (snd (limpiarPlantillasIncorrectas_loop xs n w))"
proof (induction xs n w rule: limpiarPlantillasIncorrectas_loop.induct)
  case (1 n w)
  show ?case by (simp add: sends_only_refl)
next
  case (2 p rest n w)
  then show ?case
    by (auto split: prod.splits sum.splits
          intro: sends_only_trans[OF sends_only_snoc[OF sends_only_pool_query']]
                 sends_only_snoc[OF sends_only_pool_query'] sends_only_pool_query')
qed

lemma sends_crearAplicativos:
  assumes "''SELECT COUNT(*) FROM aplicativos_base'' \<in> set T"
      and "''INSERT INTO aplicativos_base (id, nombre, url, categoria) VALUES ($1, $2, $3, $4)'' \<in> set T"
  shows "sends_only T w (snd (crearAplicativosBasePorDefecto w))"
  using assms
  by (auto simp: crearAplicativosBasePorDefecto_def split: prod.splits sum.splits
        intro: sends_only_pool_query'
               sends_only_trans[OF sends_only_pool_query' sends_crearAplicativos_loop])

lemma sends_crearPlantillas:
  assumes "''SELECT COUNT(*) FROM plantillas_base'' \<in> set T"
      and "''INSERT INTO plantillas_base (id, novedad, nota_publica, nota_interna, nota_avances, plantilla) VALUES ($1, $2, $3, $4, $5, $6)'' \<in> set T"
  shows "sends_only T w (snd (crearPlantillasBasePorDefecto w))"
  using assms
  by (auto simp: crearPlantillasBasePorDefecto_def split: prod.splits sum.splits
        intro: sends_only_pool_query'
               sends_only_trans[OF sends_only_pool_query' sends_crearPlantillas_loop])

lemma sends_asignarAplicativos:
  assumes "set default_content_statements \<subseteq> set T"
  shows "sends_only T w (snd (asignarAplicativosPorDefecto u w))"
proof -
  have m: "''SELECT COUNT(*) FROM aplicativos_base'' \<in> set T"
     "''INSERT INTO aplicativos_base (id, nombre, url, categoria) VALUES ($1, $2, $3, $4)'' \<in> set T"
     "''SELECT id FROM aplicativos_base ORDER BY categoria ASC, nombre ASC'' \<in> set T"
     "''INSERT INTO aplicativos_rel (id, usuario_id, aplicativo_base_id, creado_en) VALUES ($1, $2, $3, NOW())'' \<in> set T"
    using assms by (auto simp: default_content_statements_def)
  obtain r w1 where c: "crearAplicativosBasePorDefecto w = (r, w1)"
    by (cases "crearAplicativosBasePorDefecto w")
  have s1: "sends_only T w w1" using sends_crearAplicativos[OF m(1,2), of w] c by simp
  show ?thesis
    using c s1 m(3)
    by (auto simp: asignarAplicativosPorDefecto_def split: prod.splits sum.splits
          intro: sends_only_snoc
                 sends_only_trans[OF sends_only_snoc sends_asignarAplicativos_loop[OF m(4)]])
qed

lemma sends_asignarPlantillas:
  assumes "set default_content_statements \<subseteq> set T"
  shows "sends_only T w (snd (asignarPlantillasPorDefecto u w))"
proof -
  have m: "''SELECT COUNT(*) FROM plantillas_base'' \<in> set T"
     "''INSERT INTO plantillas_base (id, novedad, nota_publica, nota_interna, nota_avances, plantilla) VALUES ($1, $2, $3, $4, $5, $6)'' \<in> set T"
     "''SELECT id FROM plantillas_base ORDER BY id ASC'' \<in> set T"
     "''INSERT INTO notas_despacho_rel (id, usuario_id, plantilla_id, creado_en) VALUES ($1, $2, $3, NOW())'' \<in> set T"
    using assms by (auto simp: default_content_statements_def)
  obtain r w1 where c: "crearPlantillasBasePorDefecto w = (r, w1)"
    by (cases "crearPlantillasBasePorDefecto w")
  have s1: "sends_only T w w1" using sends_crearPlantillas[OF m(1,2), of w] c by simp
  show ?thesis
    using c s1 m(3)
    by (auto simp: asignarPlantillasPorDefecto_def split: prod.splits sum.splits
          intro: sends_only_snoc
                 sends_only_trans[OF sends_only_snoc sends_asignarPlantillas_loop[OF m(4)]])
qed

lemmas run_defs = sends_only_iff pool_query_def uuidv4_def select_def Let_def

lemma sends_login: "sends_only (statements LoginRoute) w (snd (loginUsuario lib S b w))"
  by (auto simp: loginUsuario_def run_defs split: option.splits sum.splits list.splits)

lemma sends_cambiar:
  "sends_only (statements CambiarContrasenaRoute) w (snd (cambiarContrasena b u w))"
  by (auto simp: cambiarContrasena_def run_defs split: option.splits sum.splits list.splits)

lemma sends_recuperar:
  "sends_only (statements RecuperarContrasenaRoute) w (snd (recuperarContrasena b w))"
  by (auto simp: recuperarContrasena_def run_defs split: option.splits sum.splits list.splits)

lemma sends_obtenerNotas: "sends_only (statements ObtenerNotasRoute) w (snd (obtenerNotas u w))"
  by (auto simp: obtenerNotas_def run_defs split: option.splits)

lemma sends_obtenerNotasAvances:
  "sends_only (statements ObtenerNotasAvancesRoute) w (snd (obtenerNotasAvances u w))"
  by (auto simp: obtenerNotasAvances_def run_defs split: option.splits)

lemma sends_agregarNota: "sends_only (statements AgregarNotaRoute) w (snd (agregarNota b w))"
  by (auto simp: agregarNota_def run_defs split: option.splits)

lemma sends_asignarNota: "sends_only (statements AsignarNotaRoute) w (snd (asignarNota b w))"
  by (auto simp: asignarNota_def run_defs split: option.splits)

lemma sends_modificarPlantilla:
  "sends_only (statements ModificarPlantillaRoute) w (snd (modificarPlantilla i b w))"
  by (auto simp: modificarPlantilla_def run_defs split: option.splits)

lemma sends_eliminarNota: "sends_only (statements EliminarNotaRoute) w (snd (eliminarNota i w))"
  by (auto simp: eliminarNota_def run_defs split: option.splits list.splits)

lemma sends_limpiarNotaAvances:
  "sends_only (statements LimpiarNotaAvancesRoute) w (snd (limpiarNotaAvances i w))"
  by (auto simp: limpiarNotaAvances_def run_defs split: option.splits)

lemma sends_eliminarPlantillaAdicional:
  "sends_only (statements EliminarPlantillaAdicionalRoute) w (snd (eliminarPlantillaAdicional i w))"
  by (auto simp: eliminarPlantillaAdicional_def run_defs split: option.splits list.splits)

lemma sends_obtenerPlantillasDisponibles:
  "sends_only (statements ObtenerPlantillasDisponiblesRoute) w (snd (obtenerPlantillasDisponibles w))"
  by (auto simp: obtenerPlantillasDisponibles_def run_defs split: option.splits)

lemma sends_obtenerAplicativos:
  "sends_only (statements ObtenerAplicativosRoute) w (snd (obtenerAplicativos u w))"
  by (auto simp: obtenerAplicativos_def run_defs split: option.splits)

lemma sends_agregarAplicativo:
  "sends_only (statements AgregarAplicativoRoute) w (snd (agregarAplicativo b w))"
  by (auto simp: agregarAplicativo_def run_defs split: option.splits)

lemma sends_asignarAplicativo:
  "sends_only (statements AsignarAplicativoRoute) w (snd (asignarAplicativo b w))"
  by (auto simp: asignarAplicativo_def run_defs split: option.splits)

lemma sends_eliminarAplicativo:
  "sends_only (statements EliminarAplicativoRoute) w (snd (eliminarAplicativo i w))"
  by (auto simp: eliminarAplicativo_def run_defs split: option.splits list.splits)

lemma sends_obtenerAplicativosDisponibles:
  "sends_only (statements ObtenerAplicativosDisponiblesRoute) w (snd (obtenerAplicativosDisponibles w))"
  by (auto simp: obtenerAplicativosDisponibles_def run_defs split: option.splits)

lemma default_in_registro: "set default_content_statements \<subseteq> set (statements RegistroRoute)"
  by auto

lemma default_in_asignar:
  "set default_content_statements \<subseteq> set (statements AsignarContenidoDefectoRoute)"
  by auto

lemma sends_default_assignment:
  assumes "set default_content_statements \<subseteq> set T"
  shows "sends_only T w (case asignarPlantillasPorDefecto i w of
                   (Inl asignacionError, w') \<Rightarrow> w'
                 | (Inr u', w') \<Rightarrow> snd (asignarAplicativosPorDefecto j w'))"
proof -
  obtain r w1 where c: "asignarPlantillasPorDefecto i w = (r, w1)"
    by (cases "asignarPlantillasPorDefecto i w")
  have s1: "sends_only T w w1" using sends_asignarPlantillas[OF assms, of w i] c by simp
  show ?thesis using c s1
    by (cases r) (auto intro: sends_only_trans[OF _ sends_asignarAplicativos[OF assms]])
qed

lemma sends_registrar:
  "sends_only (statements RegistroRoute) w (snd (registrarUsuario lib S b w))"
proof -
  let ?T = "statements RegistroRoute"
  obtain r1 w1 where q1: "pool_query ''SELECT id FROM usuarios WHERE email = $1'' [rb_email b]
             (select (\<lambda>d. map u_id (filter (\<lambda>u. sql_eq (u_email u) (rb_email b)) (usuarios d)))) w
             = (r1, w1)"
    by (cases "pool_query ''SELECT id FROM usuarios WHERE email = $1'' [rb_email b]
             (select (\<lambda>d. map u_id (filter (\<lambda>u. sql_eq (u_email u) (rb_email b)) (usuarios d)))) w")
  have s1: "sends_only ?T w w1" by (rule sends_only_pool_query'[OF q1]) simp
  obtain i w2 where u: "uuidv4 w1 = (i, w2)" by (cases "uuidv4 w1")
  obtain r3 w3 where q3: "pool_query
                     ''INSERT INTO usuarios (id, nombre, email, contrasena) VALUES ($1, $2, $3, $4)''
                     [Some i, rb_nombre b, rb_email b, rb_contrasena b]
                     (\<lambda>d. ((), d\<lparr>usuarios := usuarios d @
                            [\<lparr>u_id = i, u_nombre = rb_nombre b, u_email = rb_email b,
                              u_contrasena = rb_contrasena b\<rparr>]\<rparr>)) w2 = (r3, w3)"
    by (cases "pool_query
                     ''INSERT INTO usuarios (id, nombre, email, contrasena) VALUES ($1, $2, $3, $4)''
                     [Some i, rb_nombre b, rb_email b, rb_contrasena b]
                     (\<lambda>d. ((), d\<lparr>usuarios := usuarios d @
                            [\<lparr>u_id = i, u_nombre = rb_nombre b, u_email = rb_email b,
                              u_contrasena = rb_contrasena b\<rparr>]\<rparr>)) w2")
  have s3: "sends_only ?T w w3"
    by (rule sends_only_trans[OF s1 sends_only_step[OF u q3]]) simp
  have s4: "sends_only ?T w (case asignarPlantillasPorDefecto i w3 of
                   (Inl asignacionError, w') \<Rightarrow> w'
                 | (Inr u', w') \<Rightarrow> snd (asignarAplicativosPorDefecto i w'))"
    by (rule sends_only_trans[OF s3 sends_default_assignment[OF default_in_registro]])
  show ?thesis
    using q1 u q3 s1 s3 s4
    by (auto simp: registrarUsuario_def Let_def simp del: statements.simps split: sum.splits)
qed

lemma sends_asignarContenidoDefecto:
  "sends_only (statements AsignarContenidoDefectoRoute) w (snd (asignarContenidoDefecto u w))"
proof (cases "falsy u")
  case True
  then show ?thesis by (simp add: asignarContenidoDefecto_def sends_only_refl del: statements.simps)
next
  case False
  let ?T = "statements AsignarContenidoDefectoRoute"
  obtain r1 w1 where q1: "pool_query ''SELECT id FROM usuarios WHERE id = $1'' [u]
               (select (\<lambda>d. map u_id (filter (\<lambda>x. u_id x = the u) (usuarios d)))) w = (r1, w1)"
    by (cases "pool_query ''SELECT id FROM usuarios WHERE id = $1'' [u]
               (select (\<lambda>d. map u_id (filter (\<lambda>x. u_id x = the u) (usuarios d)))) w")
  have s1: "sends_only ?T w w1" by (rule sends_only_pool_query'[OF q1]) simp
  obtain r2 w2 where a2: "asignarPlantillasPorDefecto (the u) w1 = (r2, w2)"
    by (cases "asignarPlantillasPorDefecto (the u) w1")
  have s2: "sends_only ?T w w2"
    using sends_only_trans[OF s1 sends_asignarPlantillas[OF default_in_asignar, of w1 "the u"]] a2
    by simp
  obtain r3 w3 where a3: "asignarAplicativosPorDefecto (the u) w2 = (r3, w3)"
    by (cases "asignarAplicativosPorDefecto (the u) w2")
  have s3: "sends_only ?T w w3"
    using sends_only_trans[OF s2 sends_asignarAplicativos[OF default_in_asignar, of w2 "the u"]] a3
    by simp
  show ?thesis
    using False q1 a2 a3 s1 s2 s3
    by (auto simp: asignarContenidoDefecto_def simp del: statements.simps split: sum.splits)
qed

lemma sends_limpiarPlantillasIncorrectas:
  "sends_only (statements LimpiarPlantillasIncorrectasRoute) w (snd (limpiarPlantillasIncorrectas w))"
proof -
  let ?T = "statements LimpiarPlantillasIncorrectasRoute"
  obtain r1 w1 where q1: "pool_query
             ''SELECT pb.id, pb.novedad, COUNT(ndr.id) as total_usuarios FROM plantillas_base pb LEFT JOIN notas_despacho_rel ndr ON pb.id = ndr.plantilla_id WHERE UPPER(pb.novedad) IN ('AVANCE') GROUP BY pb.id, pb.novedad''
             []
             (select (plantillasIncorrectas (count_as_text w))) w = (r1, w1)"
    by (cases "pool_query
             ''SELECT pb.id, pb.novedad, COUNT(ndr.id) as total_usuarios FROM plantillas_base pb LEFT JOIN notas_despacho_rel ndr ON pb.id = ndr.plantilla_id WHERE UPPER(pb.novedad) IN ('AVANCE') GROUP BY pb.id, pb.novedad''
             []
             (select (plantillasIncorrectas (count_as_text w))) w")
  have s1: "sends_only ?T w w1" by (rule sends_only_pool_query'[OF q1]) simp
  show ?thesis
  proof (cases r1)
    case (Inl e)
    with q1 s1 show ?thesis
      by (simp add: limpiarPlantillasIncorrectas_def del: statements.simps)
  next
    case (Inr rows)
    obtain r2 w2 where l: "limpiarPlantillasIncorrectas_loop (map (\<lambda>((i, n), c). i) rows) 0 w1 = (r2, w2)"
      by (cases "limpiarPlantillasIncorrectas_loop (map (\<lambda>((i, n), c). i) rows) 0 w1")
    have "sends_only ?T w (snd (limpiarPlantillasIncorrectas_loop (map (\<lambda>((i, n), c). i) rows) 0 w1))"
      by (rule sends_only_trans[OF s1 sends_limpiar_loop]) simp_all
    then have s2: "sends_only ?T w w2" using l by simp
    from q1 Inr l s1 s2 show ?thesis
      by (cases r2) (simp_all add: limpiarPlantillasIncorrectas_def del: statements.simps)
  qed
qed

lemma sends_protected:
  assumes "\<And>u. sends_only T w (snd (h u w))"
  shows "sends_only T w (snd (protected_route lib S h a w))"
  using assms by (simp add: protected_route_def sends_only_refl split: middleware_result.splits)

lemma handlers_send_fixed_statements:
  "sends_only (statements (route_of req)) w (snd (handler lib S req w))"
proof (cases req)
  case (Registro b) then show ?thesis by (simp add: sends_registrar del: statements.simps)
next
  case (Login b) then show ?thesis by (simp add: sends_login del: statements.simps)
next
  case (CambiarContrasena h b) then show ?thesis by (simp add: sends_protected sends_cambiar del: statements.simps)
next
  case (RecuperarContrasena b) then show ?thesis by (simp add: sends_recuperar del: statements.simps)
next
  case (AsignarContenidoDefecto h u)
  then show ?thesis by (simp add: sends_protected sends_asignarContenidoDefecto del: statements.simps)
next
  case (ObtenerNotas u) then show ?thesis by (simp add: sends_obtenerNotas del: statements.simps)
next
  case (ObtenerNotasAvances u) then show ?thesis by (simp add: sends_obtenerNotasAvances del: statements.simps)
next
  case (AgregarNota b) then show ?thesis by (simp add: sends_agregarNota del: statements.simps)
next
  case (AsignarNota b) then show ?thesis by (simp add: sends_asignarNota del: statements.simps)
next
  case (ModificarPlantilla i b) then show ?thesis by (simp add: sends_modificarPlantilla del: statements.simps)
next
  case (EliminarNota i) then show ?thesis by (simp add: sends_eliminarNota del: statements.simps)
next
  case (LimpiarNotaAvances i) then show ?thesis by (simp add: sends_limpiarNotaAvances del: statements.simps)
next
  case (EliminarPlantillaAdicional i)
  then show ?thesis by (simp add: sends_eliminarPlantillaAdicional del: statements.simps)
next
  case ObtenerPlantillasDisponibles
  then show ?thesis by (simp add: sends_obtenerPlantillasDisponibles del: statements.simps)
next
  case LimpiarPlantillasIncorrectas
  then show ?thesis by (simp add: sends_limpiarPlantillasIncorrectas del: statements.simps)
next
  case (ObtenerAplicativos u) then show ?thesis by (simp add: sends_obtenerAplicativos del: statements.simps)
next
  case (AgregarAplicativo b) then show ?thesis by (simp add: sends_agregarAplicativo del: statements.simps)
next
  case (AsignarAplicativo b) then show ?thesis by (simp add: sends_asignarAplicativo del: statements.simps)
next
  case (EliminarAplicativo i) then show ?thesis by (simp add: sends_eliminarAplicativo del: statements.simps)
next
  case ObtenerAplicativosDisponibles
  then show ?thesis by (simp add: sends_obtenerAplicativosDisponibles del: statements.simps)
qed

lemma sent_login:
  "sent w (snd (loginUsuario lib S b w))
     = [\<lparr>sql = ''SELECT id, nombre, email, contrasena FROM usuarios WHERE email = $1'',
         bound = [lb_email b]\<rparr>]"
  by (auto simp: loginUsuario_def sent_def pool_query_def select_def Let_def
        split: option.splits sum.splits list.splits)

lemma sent_obtenerAplicativos:
  "sent w (snd (obtenerAplicativos u w))
     = [\<lparr>sql = ''SELECT ar.id, ab.nombre, ab.url, ab.categoria, ar.creado_en FROM aplicativos_rel ar INNER JOIN aplicativos_base ab ON ar.aplicativo_base_id = ab.id WHERE ar.usuario_id = $1 ORDER BY ar.creado_en DESC'',
         bound = [u]\<rparr>]"
  by (auto simp: obtenerAplicativos_def sent_def pool_query_def select_def Let_def
        split: option.splits sum.splits list.splits)

subsection \<open>One relation row for each user and base row\<close>

text \<open>
  \<open>asignarNota\<close> and \<open>asignarAplicativo\<close> answer 409 and change nothing when the relation
  exists (the user and the base row existing, and the checks succeeding).
\<close>

lemma asignarNota_conflict:
  assumes "\<not> falsy (an_usuario_id b)" "\<not> falsy (an_plantilla_id b)"
      and "\<exists>u \<in> set (usuarios (db w)). u_id u = the (an_usuario_id b)"
      and "\<exists>p \<in> set (plantillas_base (db w)). pb_id p = the (an_plantilla_id b)"
      and "\<exists>r \<in> set (notas_despacho_rel (db w)).
             ndr_usuario_id r = the (an_usuario_id b) \<and> ndr_plantilla_id r = the (an_plantilla_id b)"
      and "faults w (length (issued w)) = None" "faults w (Suc (length (issued w))) = None"
          "faults w (Suc (Suc (length (issued w)))) = None"
  shows "status (fst (asignarNota b w)) = 409 \<and> db (snd (asignarNota b w)) = db w"
proof -
  have 1: "filter (\<lambda>u. u_id u = the (an_usuario_id b)) (usuarios (db w)) \<noteq> []"
    and 2: "filter (\<lambda>p. pb_id p = the (an_plantilla_id b)) (plantillas_base (db w)) \<noteq> []"
    and 3: "filter (\<lambda>r. ndr_usuario_id r = the (an_usuario_id b) \<and>
              ndr_plantilla_id r = the (an_plantilla_id b)) (notas_despacho_rel (db w)) \<noteq> []"
    using assms(3-5) by (auto simp: filter_empty_conv)
  show ?thesis using assms(1,2,6-8) 1 2 3
    by (simp add: asignarNota_def Let_def pool_query_ok select_def res_status_json_def)
qed

lemma asignarAplicativo_conflict:
  assumes "\<not> falsy (aa_usuario_id b)" "\<not> falsy (aa_aplicativo_base_id b)"
      and "\<exists>u \<in> set (usuarios (db w)). u_id u = the (aa_usuario_id b)"
      and "\<exists>p \<in> set (aplicativos_base (db w)). ab_id p = the (aa_aplicativo_base_id b)"
      and "\<exists>r \<in> set (aplicativos_rel (db w)).
             ar_usuario_id r = the (aa_usuario_id b) \<and>
             ar_aplicativo_base_id r = the (aa_aplicativo_base_id b)"
      and "faults w (length (issued w)) = None" "faults w (Suc (length (issued w))) = None"
          "faults w (Suc (Suc (length (issued w)))) = None"
  shows "status (fst (asignarAplicativo b w)) = 409 \<and> db (snd (asignarAplicativo b w)) = db w"
proof -
  have 1: "filter (\<lambda>u. u_id u = the (aa_usuario_id b)) (usuarios (db w)) \<noteq> []"
    and 2: "filter (\<lambda>p. ab_id p = the (aa_aplicativo_base_id b)) (aplicativos_base (db w)) \<noteq> []"
    and 3: "filter (\<lambda>r. ar_usuario_id r = the (aa_usuario_id b) \<and>
              ar_aplicativo_base_id r = the (aa_aplicativo_base_id b)) (aplicativos_rel (db w)) \<noteq> []"
    using assms(3-5) by (auto simp: filter_empty_conv)
  show ?thesis using assms(1,2,6-8) 1 2 3
    by (simp add: asignarAplicativo_def Let_def pool_query_ok select_def res_status_json_def)
qed

text \<open>
  Claim C2 fails on the maintenance route. The first user already holds the templates
  \<open>p1\<close> and \<open>p2\<close> and the catalog entry \<open>a1\<close>; a request to
  \<open>asignar-contenido-defecto\<close> for that user, with a valid token, is answered 200 and
  leaves a second relation row for each of the three pairs.
\<close>

theorem asignarContenidoDefecto_duplicates_relations:
  "status (fst (handler example_jwt (Some ''k'')
       (AsignarContenidoDefecto (Some ''Bearer good'') (Some ''u1'')) (idle_world shared_db))) = 200
   \<and> map ndr_usuario_id (notas_despacho_rel (db (snd (handler example_jwt (Some ''k'')
       (AsignarContenidoDefecto (Some ''Bearer good'') (Some ''u1'')) (idle_world shared_db)))))
       = [''u1'', ''u2'', ''u1'', ''u2'', ''u1'', ''u1'']
   \<and> map ndr_plantilla_id (notas_despacho_rel (db (snd (handler example_jwt (Some ''k'')
       (AsignarContenidoDefecto (Some ''Bearer good'') (Some ''u1'')) (idle_world shared_db)))))
       = [''p1'', ''p1'', ''p2'', ''p2'', ''p1'', ''p2'']
   \<and> map ar_usuario_id (aplicativos_rel (db (snd (handler example_jwt (Some ''k'')
       (AsignarContenidoDefecto (Some ''Bearer good'') (Some ''u1'')) (idle_world shared_db)))))
       = [''u1'', ''u2'', ''u1'']
   \<and> map ar_aplicativo_base_id (aplicativos_rel (db (snd (handler example_jwt (Some ''k'')
       (AsignarContenidoDefecto (Some ''Bearer good'') (Some ''u1'')) (idle_world shared_db)))))
       = [''a1'', ''a1'', ''a1'']"
  by code_simp

subsection \<open>Two runs from worlds with the same catalog\<close>

lemma texts_sent_append:
  assumes "prefix (issued w) (issued w1)" "prefix (issued w1) (issued w2)"
  shows "texts_sent w w2 = texts_sent w w1 @ texts_sent w1 w2"
proof -
  from assms obtain a b where a: "issued w1 = issued w @ a" and b: "issued w2 = issued w1 @ b"
    by (auto simp: prefix_def)
  show ?thesis by (simp add: texts_sent_def sent_def a b)
qed

lemma agree_then:
  assumes 1: "agree w w' r r'" and 2: "agree (snd r) (snd r') s s'"
  shows "agree w w' s s'"
proof -
  from 1 2 have p: "prefix (issued w) (issued (snd r))" "prefix (issued (snd r)) (issued (snd s))"
    "prefix (issued w') (issued (snd r'))" "prefix (issued (snd r')) (issued (snd s'))"
    by (simp_all add: agree_def)
  have "texts_sent w (snd s) = texts_sent w' (snd s')"
    using texts_sent_append[OF p(1,2)] texts_sent_append[OF p(3,4)] 1 2
    by (simp add: agree_def)
  with 1 2 p show ?thesis by (auto simp: agree_def intro: prefix_order.trans)
qed

lemma agree_pool_query:
  assumes c: "same_catalog w w'"
      and s: "\<And>d d'. plantillas_base d = plantillas_base d' \<Longrightarrow>
                  aplicativos_base d = aplicativos_base d' \<Longrightarrow>
                  fst (sem d) = fst (sem' d') \<and>
                  plantillas_base (snd (sem d)) = plantillas_base (snd (sem' d')) \<and>
                  aplicativos_base (snd (sem d)) = aplicativos_base (snd (sem' d'))"
  shows "agree w w' (pool_query t ps sem w) (pool_query t ps' sem' w')"
proof -
  from c have f: "faults w (length (issued w)) = faults w' (length (issued w'))"
    by (simp add: same_catalog_def)
  from c have b: "plantillas_base (db w) = plantillas_base (db w')"
    "aplicativos_base (db w) = aplicativos_base (db w')" by (simp_all add: same_catalog_def)
  note s' = s[OF b]
  show ?thesis
  proof (cases "faults w (length (issued w))")
    case None
    with f have n': "faults w' (length (issued w')) = None" by simp
    show ?thesis using c s'
      by (simp add: pool_query_ok[OF None] pool_query_ok[OF n'] agree_def same_catalog_def
            texts_sent_def sent_def)
  next
    case (Some m)
    with f have n': "faults w' (length (issued w')) = Some m" by simp
    show ?thesis using c
      by (simp add: pool_query_fail[OF Some] pool_query_fail[OF n'] agree_def same_catalog_def
            texts_sent_def sent_def)
  qed
qed

lemma same_catalog_uuidv4:
  "same_catalog w w' \<Longrightarrow> fst (uuidv4 w) = fst (uuidv4 w') \<and>
     same_catalog (snd (uuidv4 w)) (snd (uuidv4 w')) \<and>
     issued (snd (uuidv4 w)) = issued w \<and> issued (snd (uuidv4 w')) = issued w'"
  by (simp add: same_catalog_def uuidv4_def)

lemma agree_shift:
  "issued w1 = issued w \<Longrightarrow> issued w1' = issued w' \<Longrightarrow> agree w1 w1' r r' \<Longrightarrow> agree w w' r r'"
  by (simp add: agree_def texts_sent_def sent_def)

lemma agree_refl: "same_catalog w w' \<Longrightarrow> agree w w' (x, w) (x, w')"
  by (simp add: agree_def texts_sent_def sent_def)

lemma agree_asignarPlantillas_loop:
  "same_catalog w w' \<Longrightarrow>
     agree w w' (asignarPlantillasPorDefecto_loop u xs w) (asignarPlantillasPorDefecto_loop u' xs w')"
proof (induction xs arbitrary: w w')
  case Nil
  then show ?case by (simp add: agree_refl)
next
  case (Cons a rest)
  note u = same_catalog_uuidv4[OF Cons.prems]
  define q where "q = pool_query
              ''INSERT INTO notas_despacho_rel (id, usuario_id, plantilla_id, creado_en) VALUES ($1, $2, $3, NOW())''
              [Some (fst (uuidv4 w)), Some u, Some a]
              (\<lambda>d. ((), d\<lparr>notas_despacho_rel := notas_despacho_rel d @
                     [\<lparr>ndr_id = fst (uuidv4 w), ndr_usuario_id = u,
                       ndr_plantilla_id = a, ndr_creado_en = now w\<rparr>]\<rparr>)) (snd (uuidv4 w))"
  define q' where "q' = pool_query
              ''INSERT INTO notas_despacho_rel (id, usuario_id, plantilla_id, creado_en) VALUES ($1, $2, $3, NOW())''
              [Some (fst (uuidv4 w')), Some u', Some a]
              (\<lambda>d. ((), d\<lparr>notas_despacho_rel := notas_despacho_rel d @
                     [\<lparr>ndr_id = fst (uuidv4 w'), ndr_usuario_id = u',
                       ndr_plantilla_id = a, ndr_creado_en = now w'\<rparr>]\<rparr>)) (snd (uuidv4 w'))"
  have aq: "agree (snd (uuidv4 w)) (snd (uuidv4 w')) q q'"
    unfolding q_def q'_def by (rule agree_pool_query) (use u in simp_all)
  have aq0: "agree w w' q q'" by (rule agree_shift[OF _ _ aq]) (use u in simp_all)
  have l: "asignarPlantillasPorDefecto_loop u (a # rest) w =
             (case q of (Inl e, w2) \<Rightarrow> (Inl e, w2)
                      | (Inr x, w2) \<Rightarrow> asignarPlantillasPorDefecto_loop u rest w2)"
    and l': "asignarPlantillasPorDefecto_loop u' (a # rest) w' =
             (case q' of (Inl e, w2) \<Rightarrow> (Inl e, w2)
                      | (Inr x, w2) \<Rightarrow> asignarPlantillasPorDefecto_loop u' rest w2)"
    by (simp_all add: q_def q'_def split: prod.splits)
  obtain r w2 where qe: "q = (r, w2)" by (cases q)
  obtain r' w2' where qe': "q' = (r', w2')" by (cases q')
  from aq0 qe qe' have rr: "r' = r" and c2: "same_catalog w2 w2'" by (simp_all add: agree_def)
  show ?case
  proof (cases r)
    case (Inl e)
    with aq0 qe qe' rr show ?thesis unfolding l l' by simp
  next
    case (Inr x)
    from Cons.IH[OF c2]
    have "agree w2 w2' (asignarPlantillasPorDefecto_loop u rest w2)
            (asignarPlantillasPorDefecto_loop u' rest w2')" .
    with agree_then[of w w' q q'] aq0 qe qe' rr Inr show ?thesis unfolding l l' by simp
  qed
qed

lemma agree_asignarAplicativos_loop:
  "same_catalog w w' \<Longrightarrow>
     agree w w' (asignarAplicativosPorDefecto_loop u xs w) (asignarAplicativosPorDefecto_loop u' xs w')"
proof (induction xs arbitrary: w w')
  case Nil
  then show ?case by (simp add: agree_refl)
next
  case (Cons a rest)
  note u = same_catalog_uuidv4[OF Cons.prems]
  define q where "q = pool_query
              ''INSERT INTO aplicativos_rel (id, usuario_id, aplicativo_base_id, creado_en) VALUES ($1, $2, $3, NOW())''
              [Some (fst (uuidv4 w)), Some u, Some a]
              (\<lambda>d. ((), d\<lparr>aplicativos_rel := aplicativos_rel d @
                     [\<lparr>ar_id = fst (uuidv4 w), ar_usuario_id = u,
                       ar_aplicativo_base_id = a, ar_creado_en = now w\<rparr>]\<rparr>)) (snd (uuidv4 w))"
  define q' where "q' = pool_query
              ''INSERT INTO aplicativos_rel (id, usuario_id, aplicativo_base_id, creado_en) VALUES ($1, $2, $3, NOW())''
              [Some (fst (uuidv4 w')), Some u', Some a]
              (\<lambda>d. ((), d\<lparr>aplicativos_rel := aplicativos_rel d @
                     [\<lparr>ar_id = fst (uuidv4 w'), ar_usuario_id = u',
                       ar_aplicativo_base_id = a, ar_creado_en = now w'\<rparr>]\<rparr>)) (snd (uuidv4 w'))"
  have aq: "agree (snd (uuidv4 w)) (snd (uuidv4 w')) q q'"
    unfolding q_def q'_def by (rule agree_pool_query) (use u in simp_all)
  have aq0: "agree w w' q q'" by (rule agree_shift[OF _ _ aq]) (use u in simp_all)
  have l: "asignarAplicativosPorDefecto_loop u (a # rest) w =
             (case q of (Inl e, w2) \<Rightarrow> (Inl e, w2)
                      | (Inr x, w2) \<Rightarrow> asignarAplicativosPorDefecto_loop u rest w2)"
    and l': "asignarAplicativosPorDefecto_loop u' (a # rest) w' =
             (case q' of (Inl e, w2) \<Rightarrow> (Inl e, w2)
                      | (Inr x, w2) \<Rightarrow> asignarAplicativosPorDefecto_loop u' rest w2)"
    by (simp_all add: q_def q'_def split: prod.splits)
  obtain r w2 where qe: "q = (r, w2)" by (cases q)
  obtain r' w2' where qe': "q' = (r', w2')" by (cases q')
  from aq0 qe qe' have rr: "r' = r" and c2: "same_catalog w2 w2'" by (simp_all add: agree_def)
  show ?case
  proof (cases r)
    case (Inl e)
    with aq0 qe qe' rr show ?thesis unfolding l l' by simp
  next
    case (Inr x)
    from Cons.IH[OF c2]
    have "agree w2 w2' (asignarAplicativosPorDefecto_loop u rest w2)
            (asignarAplicativosPorDefecto_loop u' rest w2')" .
    with agree_then[of w w' q q'] aq0 qe qe' rr Inr show ?thesis unfolding l l' by simp
  qed
qed

lemma agree_crearAplicativos_loop:
  "same_catalog w w' \<Longrightarrow>
     agree w w' (crearAplicativosBasePorDefecto_loop xs w) (crearAplicativosBasePorDefecto_loop xs w')"
proof (induction xs arbitrary: w w')
  case Nil
  then show ?case by (simp add: agree_refl)
next
  case (Cons a rest)
  obtain nombre url categoria where a: "a = (nombre, url, categoria)" by (cases a)
  note u = same_catalog_uuidv4[OF Cons.prems]
  define q where "q = pool_query
              ''INSERT INTO aplicativos_base (id, nombre, url, categoria) VALUES ($1, $2, $3, $4)''
              [Some (fst (uuidv4 w)), Some nombre, Some url, Some categoria]
              (\<lambda>d. ((), d\<lparr>aplicativos_base := aplicativos_base d @
                     [\<lparr>ab_id = fst (uuidv4 w), ab_nombre = Some nombre, ab_url = Some url,
                       ab_categoria = Some categoria\<rparr>]\<rparr>)) (snd (uuidv4 w))"
  define q' where "q' = pool_query
              ''INSERT INTO aplicativos_base (id, nombre, url, categoria) VALUES ($1, $2, $3, $4)''
              [Some (fst (uuidv4 w')), Some nombre, Some url, Some categoria]
              (\<lambda>d. ((), d\<lparr>aplicativos_base := aplicativos_base d @
                     [\<lparr>ab_id = fst (uuidv4 w'), ab_nombre = Some nombre, ab_url = Some url,
                       ab_categoria = Some categoria\<rparr>]\<rparr>)) (snd (uuidv4 w'))"
  have aq: "agree (snd (uuidv4 w)) (snd (uuidv4 w')) q q'"
    unfolding q_def q'_def by (rule agree_pool_query) (use u in simp_all)
  have aq0: "agree w w' q q'" by (rule agree_shift[OF _ _ aq]) (use u in simp_all)
  have l: "crearAplicativosBasePorDefecto_loop (a # rest) w =
             (case q of (Inl e, w2) \<Rightarrow> (Inl e, w2)
                      | (Inr x, w2) \<Rightarrow> crearAplicativosBasePorDefecto_loop rest w2)"
    and l': "crearAplicativosBasePorDefecto_loop (a # rest) w' =
             (case q' of (Inl e, w2) \<Rightarrow> (Inl e, w2)
                      | (Inr x, w2) \<Rightarrow> crearAplicativosBasePorDefecto_loop rest w2)"
    by (simp_all add: a q_def q'_def split: prod.splits)
  obtain r w2 where qe: "q = (r, w2)" by (cases q)
  obtain r' w2' where qe': "q' = (r', w2')" by (cases q')
  from aq0 qe qe' have rr: "r' = r" and c2: "same_catalog w2 w2'" by (simp_all add: agree_def)
  show ?case
  proof (cases r)
    case (Inl e)
    with aq0 qe qe' rr show ?thesis unfolding l l' by simp
  next
    case (Inr x)
    from Cons.IH[OF c2]
    have "agree w2 w2' (crearAplicativosBasePorDefecto_loop rest w2)
            (crearAplicativosBasePorDefecto_loop rest w2')" .
    with agree_then[of w w' q q'] aq0 qe qe' rr Inr show ?thesis unfolding l l' by simp
  qed
qed

lemma agree_crearPlantillas_loop:
  "same_catalog w w' \<Longrightarrow>
     agree w w' (crearPlantillasBasePorDefecto_loop xs w) (crearPlantillasBasePorDefecto_loop xs w')"
proof (induction xs arbitrary: w w')
  case Nil
  then show ?case by (simp add: agree_refl)
next
  case (Cons a rest)
  obtain novedad nota_publica nota_interna nota_avances plantilla
    where a: "a = (novedad, nota_publica, nota_interna, nota_avances, plantilla)" by (cases a)
  note u = same_catalog_uuidv4[OF Cons.prems]
  define q where "q = pool_query
              ''INSERT INTO plantillas_base (id, novedad, nota_publica, nota_interna, nota_avances, plantilla) VALUES ($1, $2, $3, $4, $5, $6)''
              [Some (fst (uuidv4 w)), Some novedad, Some nota_publica, Some nota_interna,
               Some nota_avances, Some plantilla]
              (\<lambda>d. ((), d\<lparr>plantillas_base := plantillas_base d @
                     [\<lparr>pb_id = fst (uuidv4 w), pb_novedad = Some novedad,
                       pb_nota_publica = Some nota_publica, pb_nota_interna = Some nota_interna,
                       pb_nota_avances = Some nota_avances, pb_plantilla = Some plantilla\<rparr>]\<rparr>))
              (snd (uuidv4 w))"
  define q' where "q' = pool_query
              ''INSERT INTO plantillas_base (id, novedad, nota_publica, nota_interna, nota_avances, plantilla) VALUES ($1, $2, $3, $4, $5, $6)''
              [Some (fst (uuidv4 w')), Some novedad, Some nota_publica, Some nota_interna,
               Some nota_avances, Some plantilla]
              (\<lambda>d. ((), d\<lparr>plantillas_base := plantillas_base d @
                     [\<lparr>pb_id = fst (uuidv4 w'), pb_novedad = Some novedad,
                       pb_nota_publica = Some nota_publica, pb_nota_interna = Some nota_interna,
                       pb_nota_avances = Some nota_avances, pb_plantilla = Some plantilla\<rparr>]\<rparr>))
              (snd (uuidv4 w'))"
  have aq: "agree (snd (uuidv4 w)) (snd (uuidv4 w')) q q'"
    unfolding q_def q'_def by (rule agree_pool_query) (use u in simp_all)
  have aq0: "agree w w' q q'" by (rule agree_shift[OF _ _ aq]) (use u in simp_all)
  have l: "crearPlantillasBasePorDefecto_loop (a # rest) w =
             (case q of (Inl e, w2) \<Rightarrow> (Inl e, w2)
                      | (Inr x, w2) \<Rightarrow> crearPlantillasBasePorDefecto_loop rest w2)"
    and l': "crearPlantillasBasePorDefecto_loop (a # rest) w' =
             (case q' of (Inl e, w2) \<Rightarrow> (Inl e, w2)
                      | (Inr x, w2) \<Rightarrow> crearPlantillasBasePorDefecto_loop rest w2)"
    by (simp_all add: a q_def q'_def split: prod.splits)
  obtain r w2 where qe: "q = (r, w2)" by (cases q)
  obtain r' w2' where qe': "q' = (r', w2')" by (cases q')
  from aq0 qe qe' have rr: "r' = r" and c2: "same_catalog w2 w2'" by (simp_all add: agree_def)
  show ?case
  proof (cases r)
    case (Inl e)
    with aq0 qe qe' rr show ?thesis unfolding l l' by simp
  next
    case (Inr x)
    from Cons.IH[OF c2]
    have "agree w2 w2' (crearPlantillasBasePorDefecto_loop rest w2)
            (crearPlantillasBasePorDefecto_loop rest w2')" .
    with agree_then[of w w' q q'] aq0 qe qe' rr Inr show ?thesis unfolding l l' by simp
  qed
qed

lemma agree_crearAplicativos:
  assumes c: "same_catalog w w'"
  shows "agree w w' (crearAplicativosBasePorDefecto w) (crearAplicativosBasePorDefecto w')"
proof -
  define q where "q = pool_query ''SELECT COUNT(*) FROM aplicativos_base'' []
             (select (\<lambda>d. pg_count (count_as_text w) (length (aplicativos_base d)))) w"
  define q' where "q' = pool_query ''SELECT COUNT(*) FROM aplicativos_base'' []
             (select (\<lambda>d. pg_count (count_as_text w') (length (aplicativos_base d)))) w'"
  have aq: "agree w w' q q'"
    unfolding q_def q'_def
    by (rule agree_pool_query[OF c]) (use c in \<open>simp_all add: select_def same_catalog_def\<close>)
  obtain r w1 where qe: "q = (r, w1)" by (cases q)
  obtain r' w1' where qe': "q' = (r', w1')" by (cases q')
  from aq qe qe' have rr: "r' = r" and c1: "same_catalog w1 w1'" by (simp_all add: agree_def)
  show ?thesis
  proof (cases r)
    case (Inl e)
    with aq qe qe' rr show ?thesis
      by (simp add: crearAplicativosBasePorDefecto_def q_def[symmetric] q'_def[symmetric] agree_def)
  next
    case (Inr n)
    show ?thesis
    proof (cases "js_gt n 0")
      case True
      with aq qe qe' rr Inr show ?thesis
        by (simp add: crearAplicativosBasePorDefecto_def q_def[symmetric] q'_def[symmetric] agree_def)
    next
      case False
      have "agree w w' (crearAplicativosBasePorDefecto_loop aplicativosDefecto w1)
              (crearAplicativosBasePorDefecto_loop aplicativosDefecto w1')"
        by (rule agree_then[OF aq]) (simp add: qe qe' agree_crearAplicativos_loop[OF c1])
      with qe qe' rr Inr False show ?thesis
        by (simp add: crearAplicativosBasePorDefecto_def q_def[symmetric] q'_def[symmetric])
    qed
  qed
qed

lemma agree_crearPlantillas:
  assumes c: "same_catalog w w'"
  shows "agree w w' (crearPlantillasBasePorDefecto w) (crearPlantillasBasePorDefecto w')"
proof -
  define q where "q = pool_query ''SELECT COUNT(*) FROM plantillas_base'' []
             (select (\<lambda>d. pg_count (count_as_text w) (length (plantillas_base d)))) w"
  define q' where "q' = pool_query ''SELECT COUNT(*) FROM plantillas_base'' []
             (select (\<lambda>d. pg_count (count_as_text w') (length (plantillas_base d)))) w'"
  have aq: "agree w w' q q'"
    unfolding q_def q'_def
    by (rule agree_pool_query[OF c]) (use c in \<open>simp_all add: select_def same_catalog_def\<close>)
  obtain r w1 where qe: "q = (r, w1)" by (cases q)
  obtain r' w1' where qe': "q' = (r', w1')" by (cases q')
  from aq qe qe' have rr: "r' = r" and c1: "same_catalog w1 w1'" by (simp_all add: agree_def)
  show ?thesis
  proof (cases r)
    case (Inl e)
    with aq qe qe' rr show ?thesis
      by (simp add: crearPlantillasBasePorDefecto_def q_def[symmetric] q'_def[symmetric] agree_def)
  next
    case (Inr n)
    show ?thesis
    proof (cases "js_gt n 0")
      case True
      with aq qe qe' rr Inr show ?thesis
        by (simp add: crearPlantillasBasePorDefecto_def q_def[symmetric] q'_def[symmetric] agree_def)
    next
      case False
      have "agree w w' (crearPlantillasBasePorDefecto_loop plantillasDefecto w1)
              (crearPlantillasBasePorDefecto_loop plantillasDefecto w1')"
        by (rule agree_then[OF aq]) (simp add: qe qe' agree_crearPlantillas_loop[OF c1])
      with qe qe' rr Inr False show ?thesis
        by (simp add: crearPlantillasBasePorDefecto_def q_def[symmetric] q'_def[symmetric])
    qed
  qed
qed
lemma agree_asignarPlantillas:
  assumes c: "same_catalog w w'"
  shows "agree w w' (asignarPlantillasPorDefecto u w) (asignarPlantillasPorDefecto u' w')"
proof -
  note a0 = agree_crearPlantillas[OF c]
  obtain r w1 where ce: "crearPlantillasBasePorDefecto w = (r, w1)"
    by (cases "crearPlantillasBasePorDefecto w")
  obtain r' w1' where ce': "crearPlantillasBasePorDefecto w' = (r', w1')"
    by (cases "crearPlantillasBasePorDefecto w'")
  from a0 ce ce' have rr: "r' = r" and c1: "same_catalog w1 w1'" by (simp_all add: agree_def)
  show ?thesis
  proof (cases r)
    case (Inl e)
    with a0 ce ce' rr show ?thesis by (simp add: asignarPlantillasPorDefecto_def)
  next
    case (Inr x)
    define q where "q = pool_query ''SELECT id FROM plantillas_base ORDER BY id ASC'' []
                  (select (\<lambda>d. map pb_id (sort_key pb_id (plantillas_base d)))) w1"
    define q' where "q' = pool_query ''SELECT id FROM plantillas_base ORDER BY id ASC'' []
                  (select (\<lambda>d. map pb_id (sort_key pb_id (plantillas_base d)))) w1'"
    have aq1: "agree w1 w1' q q'"
      unfolding q_def q'_def by (rule agree_pool_query[OF c1]) (simp_all add: select_def)
    have aq: "agree w w' q q'" by (rule agree_then[OF a0]) (simp add: ce ce' aq1)
    obtain rq w2 where qe: "q = (rq, w2)" by (cases q)
    obtain rq' w2' where qe': "q' = (rq', w2')" by (cases q')
    from aq qe qe' have rq: "rq' = rq" and c2: "same_catalog w2 w2'" by (simp_all add: agree_def)
    have unf: "asignarPlantillasPorDefecto u w =
             (case rq of Inl e \<Rightarrow> (Inl e, w2)
                | Inr rows \<Rightarrow> if length rows = 0 then (Inr (), w2)
                              else asignarPlantillasPorDefecto_loop u rows w2)"
      and unf': "asignarPlantillasPorDefecto u' w' =
             (case rq of Inl e \<Rightarrow> (Inl e, w2')
                | Inr rows \<Rightarrow> if length rows = 0 then (Inr (), w2')
                              else asignarPlantillasPorDefecto_loop u' rows w2')"
      using ce ce' rr Inr qe qe' rq
      by (simp_all add: asignarPlantillasPorDefecto_def q_def[symmetric] q'_def[symmetric]
            split: sum.splits)
    show ?thesis
    proof (cases rq)
      case (Inl e)
      with aq qe qe' rq show ?thesis unfolding unf unf' by (simp add: agree_def)
    next
      case rows: (Inr rows)
      show ?thesis
      proof (cases "length rows = 0")
        case True
        with aq qe qe' rq rows show ?thesis unfolding unf unf' by (simp add: agree_def)
      next
        case False
        have "agree w w' (asignarPlantillasPorDefecto_loop u rows w2)
                (asignarPlantillasPorDefecto_loop u' rows w2')"
          by (rule agree_then[OF aq]) (simp add: qe qe' agree_asignarPlantillas_loop[OF c2])
        with rows False show ?thesis unfolding unf unf' by simp
      qed
    qed
  qed
qed

lemma agree_asignarAplicativos:
  assumes c: "same_catalog w w'"
  shows "agree w w' (asignarAplicativosPorDefecto u w) (asignarAplicativosPorDefecto u' w')"
proof -
  note a0 = agree_crearAplicativos[OF c]
  obtain r w1 where ce: "crearAplicativosBasePorDefecto w = (r, w1)"
    by (cases "crearAplicativosBasePorDefecto w")
  obtain r' w1' where ce': "crearAplicativosBasePorDefecto w' = (r', w1')"
    by (cases "crearAplicativosBasePorDefecto w'")
  from a0 ce ce' have rr: "r' = r" and c1: "same_catalog w1 w1'" by (simp_all add: agree_def)
  show ?thesis
  proof (cases r)
    case (Inl e)
    with a0 ce ce' rr show ?thesis by (simp add: asignarAplicativosPorDefecto_def)
  next
    case (Inr x)
    define q where "q = pool_query
                  ''SELECT id FROM aplicativos_base ORDER BY categoria ASC, nombre ASC'' []
                  (select (\<lambda>d. map ab_id
                     (sort_key (\<lambda>a. (nulls_last (ab_categoria a), nulls_last (ab_nombre a)))
                        (aplicativos_base d)))) w1"
    define q' where "q' = pool_query
                  ''SELECT id FROM aplicativos_base ORDER BY categoria ASC, nombre ASC'' []
                  (select (\<lambda>d. map ab_id
                     (sort_key (\<lambda>a. (nulls_last (ab_categoria a), nulls_last (ab_nombre a)))
                        (aplicativos_base d)))) w1'"
    have aq1: "agree w1 w1' q q'"
      unfolding q_def q'_def by (rule agree_pool_query[OF c1]) (simp_all add: select_def)
    have aq: "agree w w' q q'" by (rule agree_then[OF a0]) (simp add: ce ce' aq1)
    obtain rq w2 where qe: "q = (rq, w2)" by (cases q)
    obtain rq' w2' where qe': "q' = (rq', w2')" by (cases q')
    from aq qe qe' have rq: "rq' = rq" and c2: "same_catalog w2 w2'" by (simp_all add: agree_def)
    have unf: "asignarAplicativosPorDefecto u w =
             (case rq of Inl e \<Rightarrow> (Inl e, w2)
                | Inr rows \<Rightarrow> if length rows = 0 then (Inr (), w2)
                              else asignarAplicativosPorDefecto_loop u rows w2)"
      and unf': "asignarAplicativosPorDefecto u' w' =
             (case rq of Inl e \<Rightarrow> (Inl e, w2')
                | Inr rows \<Rightarrow> if length rows = 0 then (Inr (), w2')
                              else asignarAplicativosPorDefecto_loop u' rows w2')"
      using ce ce' rr Inr qe qe' rq
      by (simp_all add: asignarAplicativosPorDefecto_def q_def[symmetric] q'_def[symmetric]
            split: sum.splits)
    show ?thesis
    proof (cases rq)
      case (Inl e)
      with aq qe qe' rq show ?thesis unfolding unf unf' by (simp add: agree_def)
    next
      case rows: (Inr rows)
      show ?thesis
      proof (cases "length rows = 0")
        case True
        with aq qe qe' rq rows show ?thesis unfolding unf unf' by (simp add: agree_def)
      next
        case False
        have "agree w w' (asignarAplicativosPorDefecto_loop u rows w2)
                (asignarAplicativosPorDefecto_loop u' rows w2')"
          by (rule agree_then[OF aq]) (simp add: qe qe' agree_asignarAplicativos_loop[OF c2])
        with rows False show ?thesis unfolding unf unf' by simp
      qed
    qed
  qed
qed

text \<open>The default assignment as a whole: templates first, then the catalog.\<close>

lemma agree_default_assignment:
  assumes c: "same_catalog w w'"
  shows "agree w w'
           (case asignarPlantillasPorDefecto u w of
              (Inl e, w1) \<Rightarrow> (Inl e, w1)
            | (Inr x, w1) \<Rightarrow> asignarAplicativosPorDefecto u w1)
           (case asignarPlantillasPorDefecto u' w' of
              (Inl e, w1) \<Rightarrow> (Inl e, w1)
            | (Inr x, w1) \<Rightarrow> asignarAplicativosPorDefecto u' w1)"
proof -
  note a0 = agree_asignarPlantillas[OF c, of u u']
  obtain r w1 where pe: "asignarPlantillasPorDefecto u w = (r, w1)"
    by (cases "asignarPlantillasPorDefecto u w")
  obtain r' w1' where pe': "asignarPlantillasPorDefecto u' w' = (r', w1')"
    by (cases "asignarPlantillasPorDefecto u' w'")
  from a0 pe pe' have rr: "r' = r" and c1: "same_catalog w1 w1'" by (simp_all add: agree_def)
  show ?thesis
  proof (cases r)
    case (Inl e)
    with a0 pe pe' rr show ?thesis by simp
  next
    case (Inr x)
    have "agree w w' (asignarAplicativosPorDefecto u w1) (asignarAplicativosPorDefecto u' w1')"
      by (rule agree_then[OF a0]) (simp add: pe pe' agree_asignarAplicativos[OF c1])
    with pe pe' rr Inr show ?thesis by simp
  qed
qed

lemma agree_default_assignment':
  "same_catalog w w' \<Longrightarrow> agree w w' (default_assignment u w) (default_assignment u' w')"
  unfolding default_assignment_def by (rule agree_default_assignment)

lemma prefix_of_sends: "sends_only T w w' \<Longrightarrow> prefix (issued w) (issued w')"
  by (auto simp: sends_only_iff)

lemma sends_default: "sends_only default_content_statements w (snd (default_assignment u w))"
proof -
  have "sends_only default_content_statements w
          (case asignarPlantillasPorDefecto u w of
             (Inl asignacionError, w') \<Rightarrow> w'
           | (Inr u', w') \<Rightarrow> snd (asignarAplicativosPorDefecto u w'))"
    by (rule sends_default_assignment) simp
  then show ?thesis
    by (simp add: default_assignment_def split: prod.splits sum.splits)
qed

lemma comparable_refl: "comparable xs xs"
  by (simp add: comparable_def)

lemma comparable_of_prefix: "prefix xs T \<Longrightarrow> prefix ys T \<Longrightarrow> comparable xs ys"
  unfolding comparable_def by (rule prefix_same_cases)

subsection \<open>The texts that registration sends\<close>

lemma registrar_texts:
  "texts_sent w (snd (registrarUsuario lib S b w)) = [''SELECT id FROM usuarios WHERE email = $1'']
   \<or> texts_sent w (snd (registrarUsuario lib S b w))
       = [''SELECT id FROM usuarios WHERE email = $1'',
          ''INSERT INTO usuarios (id, nombre, email, contrasena) VALUES ($1, $2, $3, $4)'']
   \<or> texts_sent w (snd (registrarUsuario lib S b w))
       = [''SELECT id FROM usuarios WHERE email = $1'',
          ''INSERT INTO usuarios (id, nombre, email, contrasena) VALUES ($1, $2, $3, $4)'']
         @ texts_sent (registered w b)
             (snd (default_assignment (uuids w (drawn w)) (registered w b)))"
proof (cases "faults w (length (issued w)) = None \<and> \<not> email_registered (db w) (rb_email b) \<and>
              faults w (Suc (length (issued w))) = None")
  case True
  let ?v = "registered w b"
  let ?d = "snd (default_assignment (uuids w (drawn w)) ?v)"
  have w4: "snd (registrarUsuario lib S b w) = ?d"
    using True
    by (simp add: registrarUsuario_def pool_query_def select_def uuidv4_def Let_def existe_empty
          registered_def default_assignment_def split: sum.splits prod.splits)
  have p1: "prefix (issued w) (issued ?v)" by (simp add: registered_def)
  have p2: "prefix (issued ?v) (issued ?d)" by (rule prefix_of_sends[OF sends_default])
  have "texts_sent w ?v = [''SELECT id FROM usuarios WHERE email = $1'',
          ''INSERT INTO usuarios (id, nombre, email, contrasena) VALUES ($1, $2, $3, $4)'']"
    by (simp add: texts_sent_def sent_def registered_def)
  with texts_sent_append[OF p1 p2] show ?thesis unfolding w4 by simp
next
  case False
  then show ?thesis
    by (auto simp: registrarUsuario_def pool_query_def select_def uuidv4_def Let_def existe_empty
          texts_sent_def sent_def split: option.splits)
qed

lemma registrar_two_runs:
  "comparable (texts_sent w (snd (registrarUsuario lib S b w)))
              (texts_sent w (snd (registrarUsuario lib S b' w)))"
proof -
  have c: "same_catalog (registered w b) (registered w b')"
    by (simp add: same_catalog_def registered_def)
  from agree_default_assignment'[OF c]
  have e: "texts_sent (registered w b)
             (snd (default_assignment (uuids w (drawn w)) (registered w b)))
         = texts_sent (registered w b')
             (snd (default_assignment (uuids w (drawn w)) (registered w b')))"
    by (simp add: agree_def)
  from registrar_texts[of w lib S b] registrar_texts[of w lib S b'] show ?thesis
    unfolding e comparable_def by (elim disjE) simp_all
qed

subsection \<open>The texts that the maintenance route sends\<close>

lemma asignarContenido_texts:
  "texts_sent w (snd (asignarContenidoDefecto u w)) = []
   \<or> texts_sent w (snd (asignarContenidoDefecto u w)) = [''SELECT id FROM usuarios WHERE id = $1'']
   \<or> texts_sent w (snd (asignarContenidoDefecto u w))
       = [''SELECT id FROM usuarios WHERE id = $1'']
         @ texts_sent (w\<lparr>issued := issued w @
                           [\<lparr>sql = ''SELECT id FROM usuarios WHERE id = $1'', bound = [u]\<rparr>]\<rparr>)
             (snd (default_assignment (the u)
                (w\<lparr>issued := issued w @
                           [\<lparr>sql = ''SELECT id FROM usuarios WHERE id = $1'', bound = [u]\<rparr>]\<rparr>)))"
proof (cases "\<not> falsy u \<and> faults w (length (issued w)) = None \<and>
              filter (\<lambda>x. u_id x = the u) (usuarios (db w)) \<noteq> []")
  case True
  let ?v = "w\<lparr>issued := issued w @
                [\<lparr>sql = ''SELECT id FROM usuarios WHERE id = $1'', bound = [u]\<rparr>]\<rparr>"
  let ?d = "snd (default_assignment (the u) ?v)"
  have w4: "snd (asignarContenidoDefecto u w) = ?d"
    using True
    by (simp add: asignarContenidoDefecto_def pool_query_def select_def Let_def
          default_assignment_def split: sum.splits prod.splits)
  have p1: "prefix (issued w) (issued ?v)" by simp
  have p2: "prefix (issued ?v) (issued ?d)" by (rule prefix_of_sends[OF sends_default])
  have "texts_sent w ?v = [''SELECT id FROM usuarios WHERE id = $1'']"
    by (simp add: texts_sent_def sent_def)
  with texts_sent_append[OF p1 p2] show ?thesis unfolding w4 by simp
next
  case False
  then show ?thesis
    by (auto simp: asignarContenidoDefecto_def pool_query_def select_def Let_def
          texts_sent_def sent_def split: option.splits)
qed

lemma asignarContenido_two_runs:
  "comparable (texts_sent w (snd (asignarContenidoDefecto u w)))
              (texts_sent w (snd (asignarContenidoDefecto u' w)))"
proof -
  let ?v = "\<lambda>u. w\<lparr>issued := issued w @
                [\<lparr>sql = ''SELECT id FROM usuarios WHERE id = $1'', bound = [u]\<rparr>]\<rparr>"
  have c: "same_catalog (?v u) (?v u')" by (simp add: same_catalog_def)
  from agree_default_assignment'[OF c]
  have e: "texts_sent (?v u) (snd (default_assignment (the u) (?v u)))
         = texts_sent (?v u') (snd (default_assignment (the u') (?v u')))"
    by (simp add: agree_def)
  from asignarContenido_texts[of w u] asignarContenido_texts[of w u'] show ?thesis
    unfolding e comparable_def by (elim disjE) simp_all
qed

subsection \<open>Handlers that send their statements in a fixed order\<close>

lemmas trace_defs = texts_sent_def sent_def pool_query_def uuidv4_def select_def Let_def

lemma prefix_login:
  "prefix (texts_sent w (snd (loginUsuario lib S b w))) (statements LoginRoute)"
  by (auto simp: loginUsuario_def trace_defs split: option.splits sum.splits list.splits)

lemma prefix_cambiar:
  "prefix (texts_sent w (snd (cambiarContrasena b u w))) (statements CambiarContrasenaRoute)"
  by (auto simp: cambiarContrasena_def trace_defs split: option.splits sum.splits list.splits)

lemma prefix_recuperar:
  "prefix (texts_sent w (snd (recuperarContrasena b w))) (statements RecuperarContrasenaRoute)"
  by (auto simp: recuperarContrasena_def trace_defs split: option.splits sum.splits list.splits)

lemma prefix_obtenerNotas:
  "prefix (texts_sent w (snd (obtenerNotas u w))) (statements ObtenerNotasRoute)"
  by (auto simp: obtenerNotas_def trace_defs split: option.splits)

lemma prefix_obtenerNotasAvances:
  "prefix (texts_sent w (snd (obtenerNotasAvances u w))) (statements ObtenerNotasAvancesRoute)"
  by (auto simp: obtenerNotasAvances_def trace_defs split: option.splits)

lemma prefix_agregarNota:
  "prefix (texts_sent w (snd (agregarNota b w))) (statements AgregarNotaRoute)"
  by (auto simp: agregarNota_def trace_defs split: option.splits)

lemma prefix_asignarNota:
  "prefix (texts_sent w (snd (asignarNota b w))) (statements AsignarNotaRoute)"
  by (auto simp: asignarNota_def trace_defs split: option.splits)

lemma prefix_modificarPlantilla:
  "prefix (texts_sent w (snd (modificarPlantilla i b w))) (statements ModificarPlantillaRoute)"
  by (auto simp: modificarPlantilla_def trace_defs split: option.splits)

lemma prefix_eliminarNota:
  "prefix (texts_sent w (snd (eliminarNota i w))) (statements EliminarNotaRoute)"
  by (auto simp: eliminarNota_def trace_defs split: option.splits list.splits)

lemma prefix_limpiarNotaAvances:
  "prefix (texts_sent w (snd (limpiarNotaAvances i w))) (statements LimpiarNotaAvancesRoute)"
  by (auto simp: limpiarNotaAvances_def trace_defs split: option.splits)

lemma prefix_eliminarPlantillaAdicional:
  "prefix (texts_sent w (snd (eliminarPlantillaAdicional i w)))
          (statements EliminarPlantillaAdicionalRoute)"
  by (auto simp: eliminarPlantillaAdicional_def trace_defs split: option.splits list.splits)

lemma prefix_obtenerPlantillasDisponibles:
  "prefix (texts_sent w (snd (obtenerPlantillasDisponibles w)))
          (statements ObtenerPlantillasDisponiblesRoute)"
  by (auto simp: obtenerPlantillasDisponibles_def trace_defs split: option.splits)

lemma prefix_obtenerAplicativos:
  "prefix (texts_sent w (snd (obtenerAplicativos u w))) (statements ObtenerAplicativosRoute)"
  by (auto simp: obtenerAplicativos_def trace_defs split: option.splits)

lemma prefix_agregarAplicativo:
  "prefix (texts_sent w (snd (agregarAplicativo b w))) (statements AgregarAplicativoRoute)"
  by (auto simp: agregarAplicativo_def trace_defs split: option.splits)

lemma prefix_asignarAplicativo:
  "prefix (texts_sent w (snd (asignarAplicativo b w))) (statements AsignarAplicativoRoute)"
  by (auto simp: asignarAplicativo_def trace_defs split: option.splits)

lemma prefix_eliminarAplicativo:
  "prefix (texts_sent w (snd (eliminarAplicativo i w))) (statements EliminarAplicativoRoute)"
  by (auto simp: eliminarAplicativo_def trace_defs split: option.splits list.splits)

lemma prefix_obtenerAplicativosDisponibles:
  "prefix (texts_sent w (snd (obtenerAplicativosDisponibles w)))
          (statements ObtenerAplicativosDisponiblesRoute)"
  by (auto simp: obtenerAplicativosDisponibles_def trace_defs split: option.splits)

lemma texts_sent_nothing: "texts_sent w w = []"
  by (simp add: texts_sent_def sent_def)

lemma prefix_protected:
  assumes "\<And>u. prefix (texts_sent w (snd (h u w))) T"
  shows "prefix (texts_sent w (snd (protected_route lib S h a w))) T"
  using assms
  by (simp add: protected_route_def texts_sent_nothing split: middleware_result.splits)

lemma comparable_protected:
  assumes "\<And>p p'. comparable (texts_sent w (snd (h p w))) (texts_sent w (snd (h' p' w)))"
  shows "comparable (texts_sent w (snd (protected_route lib S h a w)))
                    (texts_sent w (snd (protected_route lib S h' a' w)))"
  using assms
  by (simp add: protected_route_def texts_sent_nothing comparable_def
        split: middleware_result.splits)

subsection \<open>Two requests to one route\<close>

lemma two_runs_comparable:
  assumes r: "route_of req = route_of req'"
  shows "comparable (texts_sent w (snd (handler lib S req w)))
                    (texts_sent w (snd (handler lib S req' w)))"
proof (cases req)
  case (Registro b)
  with r show ?thesis by (cases req') (simp_all add: registrar_two_runs)
next
  case (Login b)
  with r show ?thesis
    by (cases req') (simp_all add: comparable_of_prefix[OF prefix_login prefix_login]
          del: statements.simps)
next
  case (CambiarContrasena h b)
  with r show ?thesis
    by (cases req')
       (simp_all add: comparable_protected comparable_of_prefix[OF prefix_cambiar prefix_cambiar]
          del: statements.simps)
next
  case (RecuperarContrasena b)
  with r show ?thesis
    by (cases req') (simp_all add: comparable_of_prefix[OF prefix_recuperar prefix_recuperar]
          del: statements.simps)
next
  case (AsignarContenidoDefecto h u)
  with r show ?thesis
    by (cases req') (simp_all add: comparable_protected asignarContenido_two_runs)
next
  case (ObtenerNotas u)
  with r show ?thesis
    by (cases req') (simp_all add: comparable_of_prefix[OF prefix_obtenerNotas prefix_obtenerNotas]
          del: statements.simps)
next
  case (ObtenerNotasAvances u)
  with r show ?thesis
    by (cases req')
       (simp_all add: comparable_of_prefix[OF prefix_obtenerNotasAvances prefix_obtenerNotasAvances]
          del: statements.simps)
next
  case (AgregarNota b)
  with r show ?thesis
    by (cases req') (simp_all add: comparable_of_prefix[OF prefix_agregarNota prefix_agregarNota]
          del: statements.simps)
next
  case (AsignarNota b)
  with r show ?thesis
    by (cases req') (simp_all add: comparable_of_prefix[OF prefix_asignarNota prefix_asignarNota]
          del: statements.simps)
next
  case (ModificarPlantilla i b)
  with r show ?thesis
    by (cases req')
       (simp_all add: comparable_of_prefix[OF prefix_modificarPlantilla prefix_modificarPlantilla]
          del: statements.simps)
next
  case (EliminarNota i)
  with r show ?thesis
    by (cases req') (simp_all add: comparable_of_prefix[OF prefix_eliminarNota prefix_eliminarNota]
          del: statements.simps)
next
  case (LimpiarNotaAvances i)
  with r show ?thesis
    by (cases req')
       (simp_all add: comparable_of_prefix[OF prefix_limpiarNotaAvances prefix_limpiarNotaAvances]
          del: statements.simps)
next
  case (EliminarPlantillaAdicional i)
  with r show ?thesis
    by (cases req')
       (simp_all add: comparable_of_prefix[OF prefix_eliminarPlantillaAdicional
                                              prefix_eliminarPlantillaAdicional]
          del: statements.simps)
next
  case ObtenerPlantillasDisponibles
  with r show ?thesis by (cases req') (simp_all add: comparable_refl)
next
  case LimpiarPlantillasIncorrectas
  with r show ?thesis by (cases req') (simp_all add: comparable_refl)
next
  case (ObtenerAplicativos u)
  with r show ?thesis
    by (cases req')
       (simp_all add: comparable_of_prefix[OF prefix_obtenerAplicativos prefix_obtenerAplicativos]
          del: statements.simps)
next
  case (AgregarAplicativo b)
  with r show ?thesis
    by (cases req')
       (simp_all add: comparable_of_prefix[OF prefix_agregarAplicativo prefix_agregarAplicativo]
          del: statements.simps)
next
  case (AsignarAplicativo b)
  with r show ?thesis
    by (cases req')
       (simp_all add: comparable_of_prefix[OF prefix_asignarAplicativo prefix_asignarAplicativo]
          del: statements.simps)
next
  case (EliminarAplicativo i)
  with r show ?thesis
    by (cases req')
       (simp_all add: comparable_of_prefix[OF prefix_eliminarAplicativo prefix_eliminarAplicativo]
          del: statements.simps)
next
  case ObtenerAplicativosDisponibles
  with r show ?thesis by (cases req') (simp_all add: comparable_refl)
qed

subsection \<open>The statement texts of a route\<close>

text \<open>
  Claim C6. The statement texts of a route are a fixed table indexed by the route alone.
  Whatever two requests to the same route carry, and whatever the state of the world,
  every statement that either run sends has one of the texts of that table; and from
  the same world the two lists of texts sent, in order, are equal up to the point where
  one of the two runs stops: what a request carries decides how far a run goes, never
  what text it sends. For \<open>loginUsuario\<close> and \<open>obtenerAplicativos\<close> the list of texts sent
  is the same for every two requests and every two worlds, and what the request carries
  appears in the bound parameters only.
\<close>

theorem sql_text_independent_of_request:
  "(route_of req = route_of req' \<longrightarrow>
      sends_only (statements (route_of req)) w (snd (handler lib S req w)) \<and>
      sends_only (statements (route_of req)) w' (snd (handler lib S req' w')) \<and>
      comparable (texts_sent w (snd (handler lib S req w)))
                 (texts_sent w (snd (handler lib S req' w))))
   \<and> map sql (sent w (snd (loginUsuario lib S b w)))
       = map sql (sent w' (snd (loginUsuario lib S b' w')))
   \<and> map bound (sent w (snd (loginUsuario lib S b w))) = [[lb_email b]]
   \<and> map sql (sent w (snd (obtenerAplicativos u w)))
       = map sql (sent w' (snd (obtenerAplicativos u' w')))
   \<and> map bound (sent w (snd (obtenerAplicativos u w))) = [[u]]"
proof (intro conjI impI)
  assume r: "route_of req = route_of req'"
  show "sends_only (statements (route_of req)) w (snd (handler lib S req w))"
    by (rule handlers_send_fixed_statements)
  show "sends_only (statements (route_of req)) w' (snd (handler lib S req' w'))"
    unfolding r by (rule handlers_send_fixed_statements)
  show "comparable (texts_sent w (snd (handler lib S req w)))
                   (texts_sent w (snd (handler lib S req' w)))"
    by (rule two_runs_comparable[OF r])
qed (simp_all add: sent_login sent_obtenerAplicativos)

theorem sql_text_independent_of_request_witness:
  "sends_only (statements EliminarNotaRoute) (idle_world shared_db)
     (snd (handler example_jwt (Some ''k'') (EliminarNota ''n3'') (idle_world shared_db)))
   \<and> sends_only (statements EliminarNotaRoute) (idle_world shared_db)
     (snd (handler example_jwt (Some ''k'') (EliminarNota ''x' OR '1'='1'') (idle_world shared_db)))
   \<and> comparable
       (texts_sent (idle_world shared_db)
          (snd (handler example_jwt (Some ''k'') (EliminarNota ''n3'') (idle_world shared_db))))
       (texts_sent (idle_world shared_db)
          (snd (handler example_jwt (Some ''k'') (EliminarNota ''x' OR '1'='1'')
             (idle_world shared_db))))"
proof -
  have r: "route_of (EliminarNota ''n3'') = route_of (EliminarNota ''x' OR '1'='1'')" by simp
  have e: "route_of (EliminarNota ''n3'') = EliminarNotaRoute" by simp
  from sql_text_independent_of_request[THEN conjunct1, THEN mp, OF r]
  show ?thesis unfolding e .
qed

end
